theory Spec2Isabelle
  imports Main "HOL-Library.Word"
begin

section \<open>Machine types and constants of BeastmasterRuntime\<close>

type_synonym uint8 = "8 word"
type_synonym uint32 = "32 word"
type_synonym uint64 = "64 word"

text \<open>struct BeastmasterRuntime::Gossip (action ranges of the main pet browsing).\<close>

definition Gossip_PageSize :: uint32 where "Gossip_PageSize = 13"
definition PetsStart :: uint32 where "PetsStart = 501"
definition ExoticStart :: uint32 where "ExoticStart = 601"
definition RareStart :: uint32 where "RareStart = 701"
definition RareExoticStart :: uint32 where "RareExoticStart = 801"
definition PetEntryOffset :: uint32 where "PetEntryOffset = 901"
definition MainMenu :: uint32 where "MainMenu = 50"
definition RemoveSkills :: uint32 where "RemoveSkills = 80"
definition GossipHello :: uint32 where "GossipHello = 601026"
definition GossipBrowse :: uint32 where "GossipBrowse = 601027"
definition TrackedPetsMenu :: uint32 where "TrackedPetsMenu = 1000"

text \<open>struct BeastmasterRuntime::Tracked.\<close>

definition MenuBase :: uint32 where "MenuBase = 1000"
definition SummonBase :: uint32 where "SummonBase = 2000"
definition RenameBase :: uint32 where "RenameBase = 3000"
definition DeleteBase :: uint32 where "DeleteBase = 4000"
definition Tracked_PageSize :: uint32 where "Tracked_PageSize = 10"

definition PET_BEASTMASTER_HOWL :: uint32 where "PET_BEASTMASTER_HOWL = 9036"
definition PET_SPELL_CALL_PET :: uint32 where "PET_SPELL_CALL_PET = 883"
definition PET_SPELL_TAME_BEAST :: uint32 where "PET_SPELL_TAME_BEAST = 13481"
definition PET_SPELL_BEAST_MASTERY :: uint32 where "PET_SPELL_BEAST_MASTERY = 53270"
definition PET_MAX_HAPPINESS :: uint32 where "PET_MAX_HAPPINESS = 1048000"

definition hunterSpells :: "uint32 list" where
  "hunterSpells = [883, 982, 2641, 6991, 48990, 1002, 1462, 6197]"

subsection \<open>Helpers to interpret action codes\<close>

definition IsBrowseNormal :: "uint32 \<Rightarrow> bool" where
  "IsBrowseNormal a \<longleftrightarrow> a \<ge> PetsStart \<and> a < ExoticStart"

definition IsBrowseExotic :: "uint32 \<Rightarrow> bool" where
  "IsBrowseExotic a \<longleftrightarrow> a \<ge> ExoticStart \<and> a < RareStart"

definition IsBrowseRare :: "uint32 \<Rightarrow> bool" where
  "IsBrowseRare a \<longleftrightarrow> a \<ge> RareStart \<and> a < RareExoticStart"

definition IsBrowseRareExotic :: "uint32 \<Rightarrow> bool" where
  "IsBrowseRareExotic a \<longleftrightarrow> a \<ge> RareExoticStart \<and> a < PetEntryOffset"

definition IsAdoptAction :: "uint32 \<Rightarrow> bool" where
  "IsAdoptAction a \<longleftrightarrow> a \<ge> PetEntryOffset"

definition IsTrackedMenu :: "uint32 \<Rightarrow> bool" where
  "IsTrackedMenu a \<longleftrightarrow> a \<ge> TrackedPetsMenu \<and> a < SummonBase"

definition IsTrackedSummon :: "uint32 \<Rightarrow> bool" where
  "IsTrackedSummon a \<longleftrightarrow> a \<ge> SummonBase \<and> a < RenameBase"

definition IsTrackedRename :: "uint32 \<Rightarrow> bool" where
  "IsTrackedRename a \<longleftrightarrow> a \<ge> RenameBase \<and> a < DeleteBase"

definition IsTrackedDelete :: "uint32 \<Rightarrow> bool" where
  "IsTrackedDelete a \<longleftrightarrow> a \<ge> DeleteBase \<and> a < DeleteBase + 1000"

text \<open>
  Enumerators of the server core used by the module.  They are declared by the host
  (SharedDefines.h, GossipDef.h), not by this repository.
\<close>

text \<open>Modelled from the spec: the host enumerator CLASS_HUNTER (class identifier of
  hunters) is not declared in this repository; the server core gives it the value 3.\<close>
definition CLASS_HUNTER :: uint8 where "CLASS_HUNTER = 3"

text \<open>Modelled from the spec: the host enumerators GOSSIP_OPTION_VENDOR and
  GOSSIP_OPTION_STABLEPET are not declared in this repository; the server core gives
  them the values 3 and 14.\<close>
definition GOSSIP_OPTION_VENDOR :: uint32 where "GOSSIP_OPTION_VENDOR = 3"
definition GOSSIP_OPTION_STABLEPET :: uint32 where "GOSSIP_OPTION_STABLEPET = 14"

datatype GossipIcon =
    GOSSIP_ICON_CHAT | GOSSIP_ICON_VENDOR | GOSSIP_ICON_TAXI | GOSSIP_ICON_TRAINER
  | GOSSIP_ICON_INTERACT_1 | GOSSIP_ICON_MONEY_BAG | GOSSIP_ICON_TALK | GOSSIP_ICON_BATTLE

section \<open>Strings: character classes, trimming, searching, formatting\<close>

definition upper_letters :: string where "upper_letters = ''ABCDEFGHIJKLMNOPQRSTUVWXYZ''"
definition lower_letters :: string where "lower_letters = ''abcdefghijklmnopqrstuvwxyz''"

text \<open>::tolower in the C locale: the 26 capital letters map to their small letters.\<close>
definition tolower :: "char \<Rightarrow> char" where
  "tolower c = (case map_of (zip upper_letters lower_letters) c of Some l \<Rightarrow> l | None \<Rightarrow> c)"

text \<open>std::isspace in the C locale: space, \\t, \\n, \\v, \\f, \\r.\<close>
definition isspace :: "char \<Rightarrow> bool" where
  "isspace c \<longleftrightarrow> c \<in> set [CHR '' '', CHR 0x09, CHR 0x0A, CHR 0x0B, CHR 0x0C, CHR 0x0D]"

text \<open>The regex class [A-Za-z] and the class [A-Za-z \\-'] of the interior.\<close>
definition is_letter :: "char \<Rightarrow> bool" where
  "is_letter c \<longleftrightarrow> c \<in> set (upper_letters @ lower_letters)"

definition is_interior :: "char \<Rightarrow> bool" where
  "is_interior c \<longleftrightarrow> is_letter c \<or> c \<in> set [CHR '' '', CHR ''-'', CHR 0x27]"

text \<open>std::regex_match against ^[A-Za-z][A-Za-z \\-']*[A-Za-z]$ (the whole string).\<close>
fun regex_rest :: "string \<Rightarrow> bool" where
  "regex_rest [] = False"
| "regex_rest [c] = is_letter c"
| "regex_rest (c # d # cs) = (is_interior c \<and> regex_rest (d # cs))"

fun regex_match_allowed :: "string \<Rightarrow> bool" where
  "regex_match_allowed [] = False"
| "regex_match_allowed (c # cs) = (is_letter c \<and> regex_rest cs)"

definition IsValidPetName :: "string \<Rightarrow> bool" where
  "IsValidPetName nm =
     (if length nm < 2 \<or> length nm > 16 then False
      else if isspace (hd nm) \<or> isspace (last nm) then False
      else regex_match_allowed nm)"

text \<open>std::string::find: the first position at which the needle occurs.\<close>
fun str_find :: "string \<Rightarrow> string \<Rightarrow> nat option" where
  "str_find [] needle = (if needle = [] then Some 0 else None)"
| "str_find (c # cs) needle =
     (if take (length needle) (c # cs) = needle then Some 0
      else map_option Suc (str_find cs needle))"

text \<open>
  The reading loop of LoadProfanityListIfNeeded: every line of profanity.txt is put
  in lower case and inserted unless it is empty.  (The stat call and the mtime cache that
  decide when the file is read again are file I/O and are not modelled; IsProfane takes
  the list that the loader has left in sProfanityList.)
\<close>
definition LoadProfanityList :: "string list \<Rightarrow> string set" where
  "LoadProfanityList lines = set (filter (\<lambda>w. w \<noteq> []) (map (map tolower) lines))"

text \<open>IsProfane; the first argument is the option BeastMaster.ProfanityFilter.\<close>
definition IsProfane :: "bool \<Rightarrow> string set \<Rightarrow> string \<Rightarrow> bool" where
  "IsProfane profanityFilter sProfanityList nm =
     (if \<not> profanityFilter then False
      else (\<exists>bad \<in> sProfanityList. str_find (map tolower nm) bad \<noteq> None))"

text \<open>The two trimming loops of HandlePetnameRenameCommand.\<close>
fun trim_front :: "string \<Rightarrow> string" where
  "trim_front [] = []"
| "trim_front (c # cs) = (if isspace c then trim_front cs else c # cs)"

definition trim_back :: "string \<Rightarrow> string" where
  "trim_back s = rev (trim_front (rev s))"

definition trim :: "string \<Rightarrow> string" where
  "trim s = trim_back (trim_front s)"

text \<open>Acore::StringFormat: each {} is replaced by the next argument.\<close>
datatype FmtArg = S string | U nat

fun dec :: "nat \<Rightarrow> string" where
  "dec n = (if n < 10 then [''0123456789'' ! n] else dec (n div 10) @ [''0123456789'' ! (n mod 10)])"

fun show_arg :: "FmtArg \<Rightarrow> string" where
  "show_arg (S s) = s"
| "show_arg (U n) = dec n"

fun StringFormat :: "string \<Rightarrow> FmtArg list \<Rightarrow> string" where
  "StringFormat (c # d # cs) (a # as) =
     (if c = CHR ''{'' \<and> d = CHR ''}'' then show_arg a @ StringFormat cs as
      else c # StringFormat (d # cs) (a # as))"
| "StringFormat (c # cs) args = c # StringFormat cs args"
| "StringFormat [] args = []"

declare dec.simps [simp del]

declare StringFormat.simps [simp del]

section \<open>Data model\<close>

text \<open>struct PetInfo (declared in NpcBeastmaster.h): one catalog entry.\<close>
record PetInfo =
  entry :: uint32
  name :: string
  family :: uint32
  rarity :: string
  icon :: GossipIcon

text \<open>struct BeastmasterRuntime::Config.\<close>
record Config =
  hunterOnly :: bool
  allowExotic :: bool
  keepPetHappy :: bool
  minLevel :: uint32
  maxLevel :: uint32
  hunterBeastMasteryRequired :: bool
  trackTamedPets :: bool
  maxTrackedPets :: uint32
  allowedRaces :: "uint8 set"
  allowedClasses :: "uint8 set"

text \<open>
  An element of trackedPetsCache: the tuple (entry, name, date_tamed).  The date is kept
  as the timestamp of the row instead of its rendering as a string.
\<close>
type_synonym TrackedPet = "uint32 \<times> string \<times> nat"

text \<open>struct BeastmasterRuntime without its mutexes and constants.\<close>
record Runtime =
  config :: Config
  allPets :: "PetInfo list"
  normalPets :: "PetInfo list"
  exoticPets :: "PetInfo list"
  rarePets :: "PetInfo list"
  rareExoticPets :: "PetInfo list"
  rarePetEntries :: "uint32 set"
  rareExoticPetEntries :: "uint32 set"
  allPetsByEntry :: "uint32 \<rightharpoonup> PetInfo"
  tamedEntriesCache :: "uint64 \<rightharpoonup> uint32 set"
  trackedPetsCache :: "uint64 \<rightharpoonup> TrackedPet list"

text \<open>
  The options that the module reads from sConfigMgr.  The list options are given as the
  sets that ParseAllowedRaces, ParseAllowedClasses and ParseEntryList return.
\<close>
record ConfigMgr =
  opt_Enable :: bool
  opt_ProfanityFilter :: bool
  opt_HunterOnly :: bool
  opt_AllowExotic :: bool
  opt_KeepPetHappy :: bool
  opt_MinLevel :: uint32
  opt_MaxLevel :: uint32
  opt_HunterBeastMasteryRequired :: bool
  opt_TrackTamedPets :: bool
  opt_MaxTrackedPets :: uint32
  opt_AllowedRaces :: "uint8 set"
  opt_AllowedClasses :: "uint8 set"
  opt_RarePets :: "uint32 set"
  opt_RareExoticPets :: "uint32 set"

text \<open>A row of the characters table beastmaster_tamed_pets.\<close>
record TamedRow =
  owner_guid :: uint32
  tamed_entry :: uint32
  tamed_name :: string
  date_tamed :: nat

text \<open>A live pet created by the host's Player::CreatePet.\<close>
record Pet =
  pet_entry :: uint32
  pet_name :: string
  pet_spell :: uint32
  happiness :: uint32

text \<open>An item of the gossip menu under construction: icon, label, action code.\<close>
type_synonym GossipItem = "GossipIcon \<times> string \<times> uint32"

text \<open>What the player's client receives.\<close>
datatype Event =
    EvWhisper string
  | EvSysMessage string
  | EvSendGossipMenu uint32 "GossipItem list"
  | EvCloseGossipMenu
  | EvPlayDirectSound uint32
  | EvSendStablePet
  | EvSendListInventory

text \<open>
  The part of the host's Player that the module reads and writes.  The three CustomData
  keys BeastmasterExpectRename, BeastmasterRenamePetEntry and BeastmasterMenuPetMap are
  optional fields: None when the key is absent.
\<close>
record Player =
  guidRaw :: uint64
  guidCounter :: uint32
  playerName :: string
  pclass :: uint8
  race :: uint8
  level :: uint8
  spells :: "uint32 set"
  talents :: "uint32 set"
  pet :: "Pet option"
  gossipMenu :: "GossipItem list"
  events :: "Event list"
  expectRename :: "bool option"
  renameEntry :: "uint32 option"
  menuPetMap :: "(uint32 \<rightharpoonup> uint32) option"

text \<open>
  The whole state seen by one player's interaction: configuration file, the two
  database tables, the module's runtime singleton, the profanity list and the player.
  \<open>creature_names\<close> stands for the host's creature templates: Player::CreatePet
  returns a pet named after the template, or null when there is none.
  \<open>db_now\<close> is the database clock used for the default of date_tamed.
  \<open>sql_engine\<close> is the characters database as an interpreter of statement texts:
  what it does to the table when it is handed a text.  The model asks it only about the
  texts whose string literal is broken by a pasted name (see the statements below).
\<close>
record World =
  sConfigMgr :: ConfigMgr
  beastmaster_tames :: "(uint32 \<times> string \<times> uint32 \<times> string) list"
  beastmaster_tamed_pets :: "TamedRow list"
  db_now :: nat
  sql_engine :: "string \<Rightarrow> TamedRow list \<Rightarrow> TamedRow list"
  creature_names :: "uint32 \<rightharpoonup> string"
  sProfanityList :: "string set"
  rt :: Runtime
  player :: Player

datatype error = NullDeref

section \<open>Host primitives on the player\<close>

definition Whisper :: "string \<Rightarrow> World \<Rightarrow> World" where
  "Whisper msg w = w\<lparr>player := (player w)\<lparr>events := events (player w) @ [EvWhisper msg]\<rparr>\<rparr>"

text \<open>
  ChatHandler::PSendSysMessage formats its first argument, replacing each {} by the next
  argument.  A text without placeholders and without arguments is sent as it is.
\<close>
definition PSendSysMessage :: "string \<Rightarrow> World \<Rightarrow> World" where
  "PSendSysMessage msg w =
     w\<lparr>player := (player w)\<lparr>events := events (player w) @ [EvSysMessage msg]\<rparr>\<rparr>"

definition PSendSysMessageFmt :: "string \<Rightarrow> FmtArg list \<Rightarrow> World \<Rightarrow> World" where
  "PSendSysMessageFmt fmt args w = PSendSysMessage (StringFormat fmt args) w"

definition ClearGossipMenuFor :: "World \<Rightarrow> World" where
  "ClearGossipMenuFor w = w\<lparr>player := (player w)\<lparr>gossipMenu := []\<rparr>\<rparr>"

definition AddGossipItemFor :: "GossipIcon \<Rightarrow> string \<Rightarrow> uint32 \<Rightarrow> World \<Rightarrow> World" where
  "AddGossipItemFor ic label action w =
     w\<lparr>player := (player w)\<lparr>gossipMenu := gossipMenu (player w) @ [(ic, label, action)]\<rparr>\<rparr>"

definition SendGossipMenuFor :: "uint32 \<Rightarrow> World \<Rightarrow> World" where
  "SendGossipMenuFor textId w =
     w\<lparr>player := (player w)\<lparr>events :=
        events (player w) @ [EvSendGossipMenu textId (gossipMenu (player w))]\<rparr>\<rparr>"

definition CloseGossipMenuFor :: "World \<Rightarrow> World" where
  "CloseGossipMenuFor w =
     w\<lparr>player := (player w)\<lparr>events := events (player w) @ [EvCloseGossipMenu]\<rparr>\<rparr>"

definition PlayDirectSound :: "uint32 \<Rightarrow> World \<Rightarrow> World" where
  "PlayDirectSound snd_id w =
     w\<lparr>player := (player w)\<lparr>events := events (player w) @ [EvPlayDirectSound snd_id]\<rparr>\<rparr>"

definition HasSpell :: "World \<Rightarrow> uint32 \<Rightarrow> bool" where
  "HasSpell w sp \<longleftrightarrow> sp \<in> spells (player w)"

definition HasTalent :: "World \<Rightarrow> uint32 \<Rightarrow> bool" where
  "HasTalent w sp \<longleftrightarrow> sp \<in> talents (player w)"

definition IsExistPet :: "World \<Rightarrow> bool" where
  "IsExistPet w \<longleftrightarrow> pet (player w) \<noteq> None"

definition addSpell :: "uint32 \<Rightarrow> World \<Rightarrow> World" where
  "addSpell sp w = w\<lparr>player := (player w)\<lparr>spells := insert sp (spells (player w))\<rparr>\<rparr>"

definition removeSpell :: "uint32 \<Rightarrow> World \<Rightarrow> World" where
  "removeSpell sp w = w\<lparr>player := (player w)\<lparr>spells := spells (player w) - {sp}\<rparr>\<rparr>"

section \<open>Database statements on beastmaster\_tamed\_pets\<close>

text \<open>SELECT 1 ... WHERE owner\_guid = o AND entry = e: is there a row.\<close>
definition db_exists :: "TamedRow list \<Rightarrow> uint32 \<Rightarrow> uint32 \<Rightarrow> bool" where
  "db_exists rows ow e \<longleftrightarrow> (\<exists>r \<in> set rows. owner_guid r = ow \<and> tamed_entry r = e)"

text \<open>
  The two statements that carry a name are built by pasting the name between two
  apostrophes written in the format string; nothing is escaped.  A name without
  apostrophe, backslash and NUL stays inside its quotes, and the text is the statement
  meant.  Any other name breaks the literal: the text may be rejected by the database,
  or be another statement (an apostrophe followed by two hyphens and a blank cuts off
  the WHERE clause).  What happens to the table then is the database's answer to the
  text, the \<open>sql_engine\<close> of the state.
\<close>
definition sql_plain :: "string \<Rightarrow> bool" where
  "sql_plain nm \<longleftrightarrow> CHR 0x27 \<notin> set nm \<and> CHR 0x5C \<notin> set nm \<and> CHR 0x00 \<notin> set nm"

definition InsertStatement :: "uint32 \<Rightarrow> uint32 \<Rightarrow> string \<Rightarrow> string" where
  "InsertStatement ow e nm =
     StringFormat
       (''INSERT INTO beastmaster_tamed_pets (owner_guid, entry, name) VALUES ({}, {}, ''
          @ [CHR 0x27] @ ''{}'' @ [CHR 0x27] @ '')'')
       [U (unat ow), U (unat e), S nm]"

definition UpdateStatement :: "string \<Rightarrow> uint32 \<Rightarrow> uint32 \<Rightarrow> string" where
  "UpdateStatement nm ow e =
     StringFormat
       (''UPDATE beastmaster_tamed_pets SET name = '' @ [CHR 0x27] @ ''{}'' @ [CHR 0x27]
          @ '' WHERE owner_guid = {} AND entry = {}'')
       [S nm, U (unat ow), U (unat e)]"

text \<open>
  Execute of the INSERT INTO ... (owner\_guid, entry, name) statement; date\_tamed takes
  the clock's value.
\<close>
definition db_insert ::
  "(string \<Rightarrow> TamedRow list \<Rightarrow> TamedRow list) \<Rightarrow> TamedRow list \<Rightarrow> uint32 \<Rightarrow> uint32
     \<Rightarrow> string \<Rightarrow> nat \<Rightarrow> TamedRow list" where
  "db_insert engine rows ow e nm now =
     (if sql_plain nm
      then rows @ [\<lparr>owner_guid = ow, tamed_entry = e, tamed_name = nm, date_tamed = now\<rparr>]
      else engine (InsertStatement ow e nm) rows)"

text \<open>SELECT COUNT(*) ... WHERE owner\_guid = o, read as uint32.\<close>
definition db_count :: "TamedRow list \<Rightarrow> uint32 \<Rightarrow> uint32" where
  "db_count rows ow = of_nat (length (filter (\<lambda>r. owner_guid r = ow) rows))"

text \<open>DELETE ... WHERE owner\_guid = o AND entry = e.\<close>
definition db_delete :: "TamedRow list \<Rightarrow> uint32 \<Rightarrow> uint32 \<Rightarrow> TamedRow list" where
  "db_delete rows ow e = filter (\<lambda>r. \<not> (owner_guid r = ow \<and> tamed_entry r = e)) rows"

text \<open>Execute of the UPDATE ... SET name = n WHERE owner\_guid = o AND entry = e statement.\<close>
definition db_update_name ::
  "(string \<Rightarrow> TamedRow list \<Rightarrow> TamedRow list) \<Rightarrow> TamedRow list \<Rightarrow> uint32 \<Rightarrow> uint32
     \<Rightarrow> string \<Rightarrow> TamedRow list" where
  "db_update_name engine rows ow e nm =
     (if sql_plain nm
      then map (\<lambda>r. if owner_guid r = ow \<and> tamed_entry r = e then r\<lparr>tamed_name := nm\<rparr>
                     else r) rows
      else engine (UpdateStatement nm ow e) rows)"

text \<open>SELECT entry ... WHERE owner\_guid = o, collected into a std::set.\<close>
definition db_entries :: "TamedRow list \<Rightarrow> uint32 \<Rightarrow> uint32 set" where
  "db_entries rows ow = tamed_entry ` set (filter (\<lambda>r. owner_guid r = ow) rows)"

text \<open>
  SELECT entry, name, date\_tamed ... WHERE owner\_guid = o ORDER BY date\_tamed DESC.
  Rows of equal date come in the reverse of their table order.
\<close>
definition db_list :: "TamedRow list \<Rightarrow> uint32 \<Rightarrow> TrackedPet list" where
  "db_list rows ow =
     map (\<lambda>r. (tamed_entry r, tamed_name r, date_tamed r))
       (rev (sort_key date_tamed (filter (\<lambda>r. owner_guid r = ow) rows)))"

text \<open>SELECT name ... WHERE owner\_guid = o AND entry = e: the first row's name.\<close>
definition db_name :: "TamedRow list \<Rightarrow> uint32 \<Rightarrow> uint32 \<Rightarrow> string option" where
  "db_name rows ow e =
     (case filter (\<lambda>r. owner_guid r = ow \<and> tamed_entry r = e) rows of
        [] \<Rightarrow> None | r # _ \<Rightarrow> Some (tamed_name r))"

section \<open>BeastmasterDB::TrackTamedPet\<close>

definition TrackTamedPet :: "uint32 \<Rightarrow> string \<Rightarrow> World \<Rightarrow> bool \<times> World" where
  "TrackTamedPet creatureEntry petName w =
     (if db_exists (beastmaster_tamed_pets w) (guidCounter (player w)) creatureEntry
      then (False, w)
      else (True, w\<lparr>beastmaster_tamed_pets :=
              db_insert (sql_engine w) (beastmaster_tamed_pets w) (guidCounter (player w))
                creatureEntry petName (db_now w)\<rparr>))"

section \<open>NpcBeastmaster::LoadSystem\<close>

definition TrainerIconFamilies :: "uint32 set" where
  "TrainerIconFamilies = {1, 2, 3, 4, 7, 8, 9, 10, 15, 20, 21, 30, 24, 31, 25, 34, 27}"

text \<open>
  The body of the do-while loop over the rows of beastmaster\_tames: first the PetInfo
  is filled from the four fields and the icon chosen from the family, then the entry is
  appended to the catalog, to the index and to one bucket.
\<close>
definition FetchPetInfo :: "uint32 \<times> string \<times> uint32 \<times> string \<Rightarrow> PetInfo" where
  "FetchPetInfo row =
     (case row of (f0, f1, f2, f3) \<Rightarrow>
        \<lparr>entry = f0, name = f1, family = f2, rarity = f3,
         icon = (if f2 \<in> TrainerIconFamilies then GOSSIP_ICON_TRAINER
                 else GOSSIP_ICON_VENDOR)\<rparr>)"

definition LoadRow :: "uint32 \<times> string \<times> uint32 \<times> string \<Rightarrow> Runtime \<Rightarrow> Runtime" where
  "LoadRow row r =
     (let info = FetchPetInfo row;
          r1 = r\<lparr>allPets := allPets r @ [info],
                 allPetsByEntry := (allPetsByEntry r)(entry info \<mapsto> info)\<rparr>
      in if entry info \<in> rarePetEntries r1 then r1\<lparr>rarePets := rarePets r1 @ [info]\<rparr>
         else if entry info \<in> rareExoticPetEntries r1
           then r1\<lparr>rareExoticPets := rareExoticPets r1 @ [info]\<rparr>
         else if rarity info = ''exotic'' then r1\<lparr>exoticPets := exoticPets r1 @ [info]\<rparr>
         else r1\<lparr>normalPets := normalPets r1 @ [info]\<rparr>)"

fun LoadRows :: "(uint32 \<times> string \<times> uint32 \<times> string) list \<Rightarrow> Runtime \<Rightarrow> Runtime" where
  "LoadRows [] r = r"
| "LoadRows (row # rows) r = LoadRows rows (LoadRow row r)"

text \<open>
  LoadSystem: the configuration snapshot (with the swap of misordered level bounds), the
  two override sets, then the catalog.  A query without rows gives a null result and the
  function returns with the cleared lists.  Schema verification and logging only write
  to the log.
\<close>
definition LoadSystem :: "World \<Rightarrow> World" where
  "LoadSystem w =
     (let c = sConfigMgr w;
          cfg0 = \<lparr>hunterOnly = opt_HunterOnly c, allowExotic = opt_AllowExotic c,
                  keepPetHappy = opt_KeepPetHappy c, minLevel = opt_MinLevel c,
                  maxLevel = opt_MaxLevel c,
                  hunterBeastMasteryRequired = opt_HunterBeastMasteryRequired c,
                  trackTamedPets = opt_TrackTamedPets c,
                  maxTrackedPets = opt_MaxTrackedPets c,
                  allowedRaces = opt_AllowedRaces c,
                  allowedClasses = opt_AllowedClasses c\<rparr>;
          cfg = (if maxLevel cfg0 \<noteq> 0 \<and> maxLevel cfg0 < minLevel cfg0 \<and> minLevel cfg0 \<noteq> 0
                 then cfg0\<lparr>minLevel := maxLevel cfg0, maxLevel := minLevel cfg0\<rparr>
                 else cfg0);
          r = (rt w)\<lparr>config := cfg,
                     rarePetEntries := opt_RarePets c,
                     rareExoticPetEntries := opt_RareExoticPets c,
                     allPets := [], normalPets := [], exoticPets := [], rarePets := [],
                     rareExoticPets := [], allPetsByEntry := Map.empty\<rparr>
      in if beastmaster_tames w = [] then w\<lparr>rt := r\<rparr>
         else w\<lparr>rt := LoadRows (beastmaster_tames w) r\<rparr>)"

definition FindPetInfo :: "Runtime \<Rightarrow> uint32 \<Rightarrow> PetInfo option" where
  "FindPetInfo r e = allPetsByEntry r e"

section \<open>NpcBeastmaster::ShowMainMenu\<close>

text \<open>
  The second half of ShowMainMenu, after the eligibility checks: first the items of the
  main menu, then the menu itself and the howl.  SendGossipMenuFor is called with the
  creature's GUID or with the empty GUID; the menu sent is the same.
\<close>
definition MainMenuItems :: "World \<Rightarrow> World" where
  "MainMenuItems w =
     (let cfg = config (rt w);
          w1 = ClearGossipMenuFor w;
          w2 = AddGossipItemFor GOSSIP_ICON_BATTLE ''Browse Pets'' PetsStart w1;
          w3 = AddGossipItemFor GOSSIP_ICON_BATTLE ''Browse Rare Pets'' RareStart w2;
          w4 = (if allowExotic cfg \<or> HasSpell w3 PET_SPELL_BEAST_MASTERY
                   \<or> HasTalent w3 PET_SPELL_BEAST_MASTERY
                then (if pclass (player w3) \<noteq> CLASS_HUNTER
                      then AddGossipItemFor GOSSIP_ICON_BATTLE ''Browse Rare Exotic Pets''
                             RareExoticStart
                             (AddGossipItemFor GOSSIP_ICON_BATTLE ''Browse Exotic Pets''
                                ExoticStart w3)
                      else if \<not> hunterBeastMasteryRequired cfg
                              \<or> HasTalent w3 PET_SPELL_BEAST_MASTERY
                      then AddGossipItemFor GOSSIP_ICON_BATTLE ''Browse Rare Exotic Pets''
                             RareExoticStart
                             (AddGossipItemFor GOSSIP_ICON_BATTLE ''Browse Exotic Pets''
                                ExoticStart w3)
                      else w3)
                else w3);
          w5 = (if pclass (player w4) \<noteq> CLASS_HUNTER \<and> HasSpell w4 PET_SPELL_CALL_PET
                then AddGossipItemFor GOSSIP_ICON_BATTLE ''Unlearn Hunter Abilities''
                       RemoveSkills w4
                else w4);
          w6 = (if trackTamedPets cfg
                then AddGossipItemFor GOSSIP_ICON_CHAT ''My Tamed Pets'' TrackedPetsMenu w5
                else w5);
          w7 = (if pclass (player w6) = CLASS_HUNTER
                then AddGossipItemFor GOSSIP_ICON_TAXI ''Visit Stable''
                       GOSSIP_OPTION_STABLEPET w6
                else w6)
      in AddGossipItemFor GOSSIP_ICON_MONEY_BAG ''Buy Pet Food'' GOSSIP_OPTION_VENDOR w7)"

definition RenderMainMenu :: "bool \<Rightarrow> World \<Rightarrow> World" where
  "RenderMainMenu creature w =
     PlayDirectSound PET_BEASTMASTER_HOWL (SendGossipMenuFor GossipHello (MainMenuItems w))"

text \<open>
  A refusal goes to the player as a whisper of the creature when there is one, as a
  system message otherwise.
\<close>
definition Refuse :: "bool \<Rightarrow> string \<Rightarrow> World \<Rightarrow> World" where
  "Refuse creature msg w = (if creature then Whisper msg w else PSendSysMessage msg w)"

text \<open>
  The two level refusals hand the finished sentence to PSendSysMessage as the argument
  of the format \<open>%s\<close>, which holds no placeholder.
\<close>
definition RefuseLevel :: "bool \<Rightarrow> string \<Rightarrow> World \<Rightarrow> World" where
  "RefuseLevel creature msg w =
     (if creature then Whisper msg w else PSendSysMessageFmt ''%s'' [S msg] w)"

definition ShowMainMenu :: "bool \<Rightarrow> World \<Rightarrow> World" where
  "ShowMainMenu creature w0 =
     (if \<not> opt_Enable (sConfigMgr w0) then w0
      else
        let needLoad = (allPets (rt w0) = []);
            w = (if needLoad then LoadSystem w0 else w0);
            cfg = config (rt w);
            p = player w
        in if needLoad \<and> allPets (rt w) = []
           then Refuse creature
             ''No pets available (beastmaster_tames table empty?). Contact an administrator.'' w
           else if hunterOnly cfg \<and> pclass p \<noteq> CLASS_HUNTER
           then Refuse creature ''I am sorry, but pets are for hunters only.'' w
           else if allowedClasses cfg \<noteq> {} \<and> pclass p \<notin> allowedClasses cfg
           then Refuse creature ''Your class is not allowed to adopt pets.'' w
           else if allowedRaces cfg \<noteq> {} \<and> race p \<notin> allowedRaces cfg
           then Refuse creature ''Your race is not allowed to adopt pets.'' w
           else if ucast (level p) < minLevel cfg \<and> minLevel cfg \<noteq> 0
           then RefuseLevel creature
                  (StringFormat ''Sorry {}, but you must reach level {} before adopting a pet.''
                     [S (playerName p), U (unat (minLevel cfg))]) w
           else if maxLevel cfg \<noteq> 0 \<and> ucast (level p) > maxLevel cfg
           then RefuseLevel creature
                  (StringFormat ''Sorry {}, but you must be level {} or lower to adopt a pet.''
                     [S (playerName p), U (unat (maxLevel cfg))]) w
           else RenderMainMenu creature w)"

section \<open>NpcBeastmaster::AddPetsToGossip\<close>

text \<open>The loop over the bucket; \<open>count\<close> starts at 1 and is a uint32.\<close>
fun AddPetsLoop :: "uint32 set \<Rightarrow> uint32 \<Rightarrow> uint32 \<Rightarrow> PetInfo list \<Rightarrow> World \<Rightarrow> World" where
  "AddPetsLoop tamedEntries page count [] w = w"
| "AddPetsLoop tamedEntries page count (p # pets) w =
     AddPetsLoop tamedEntries page (count + 1) pets
       (if count > (page - 1) * Gossip_PageSize \<and> count \<le> page * Gossip_PageSize
        then (if entry p \<in> tamedEntries
              then AddGossipItemFor GOSSIP_ICON_CHAT (name p @ '' (Already Tamed)'') 0 w
              else AddGossipItemFor (icon p) (name p) (entry p + PetEntryOffset) w)
        else w)"

text \<open>
  The set of tamed entries: from the cache, or on a miss queried and stored in the
  cache; empty when tracking is off.
\<close>
definition TamedEntries :: "World \<Rightarrow> uint32 set \<times> World" where
  "TamedEntries w =
     (let guid = guidRaw (player w) in
      if trackTamedPets (config (rt w)) then
        (case tamedEntriesCache (rt w) guid of
           Some t \<Rightarrow> (t, w)
         | None \<Rightarrow>
             let snapshot = db_entries (beastmaster_tamed_pets w) (guidCounter (player w))
             in (snapshot,
                 w\<lparr>rt := (rt w)\<lparr>tamedEntriesCache :=
                       (tamedEntriesCache (rt w))(guid \<mapsto> snapshot)\<rparr>\<rparr>))
      else ({}, w))"

definition AddPetsToGossip :: "PetInfo list \<Rightarrow> uint32 \<Rightarrow> World \<Rightarrow> World" where
  "AddPetsToGossip pets page w =
     (case TamedEntries w of (tamedEntries, w1) \<Rightarrow> AddPetsLoop tamedEntries page 1 pets w1)"

section \<open>NpcBeastmaster::ClearTrackedPetsCache and ShowTrackedPetsMenu\<close>

definition ClearTrackedPetsCache :: "World \<Rightarrow> World" where
  "ClearTrackedPetsCache w =
     w\<lparr>rt := (rt w)\<lparr>trackedPetsCache := (trackedPetsCache (rt w))(guidRaw (player w) := None)\<rparr>,
       player := (player w)\<lparr>menuPetMap := None\<rparr>\<rparr>"

text \<open>
  The loop that builds one page: \<open>i\<close> runs from the offset, \<open>shown\<close> from 0, and the
  slot map sends \<open>shown\<close> to the entry.
\<close>
function TrackedLoop ::
  "TrackedPet list \<Rightarrow> uint32 \<Rightarrow> uint32 \<Rightarrow> uint32 \<Rightarrow> (uint32 \<rightharpoonup> uint32) \<Rightarrow> World
     \<Rightarrow> (uint32 \<rightharpoonup> uint32) \<times> World" where
  "TrackedLoop trackedPets ntotal i shown menuPetIndexToEntry w =
     (if i < ntotal \<and> shown < Tracked_PageSize then
        (case trackedPets ! unat i of (e, nm, d) \<Rightarrow>
           let label = (case FindPetInfo (rt w) e of
                          Some info \<Rightarrow> StringFormat ''{} [{}, {}]''
                                         [S nm, S (name info), S (rarity info)]
                        | None \<Rightarrow> nm);
               idx = shown;
               w1 = AddGossipItemFor GOSSIP_ICON_TAXI (''Summon: '' @ label) (SummonBase + idx) w;
               w2 = AddGossipItemFor GOSSIP_ICON_TRAINER (''Rename: '' @ label)
                      (RenameBase + idx) w1;
               w3 = AddGossipItemFor GOSSIP_ICON_BATTLE (''Delete: '' @ label)
                      (DeleteBase + idx) w2
           in TrackedLoop trackedPets ntotal (i + 1) (shown + 1)
                (menuPetIndexToEntry(idx \<mapsto> e)) w3)
      else (menuPetIndexToEntry, w))"
  by pat_completeness auto
termination
proof (relation "measure (\<lambda>(tp, ntotal, i, shown, m, w). 10 - unat shown)")
  show "wf (measure (\<lambda>(tp, ntotal, i, shown, m, w). 10 - unat shown))" by simp
next
  fix trackedPets :: "TrackedPet list" and ntotal i shown :: uint32
    and menuPetIndexToEntry :: "uint32 \<rightharpoonup> uint32" and w :: World
    and x :: TrackedPet and e :: uint32 and y :: "string \<times> nat" and nm :: string and d :: nat
    and label :: string and idx :: uint32 and w1 w2 w3 :: World
  assume "i < ntotal \<and> shown < Tracked_PageSize"
  then have "shown < 10" by (simp add: Tracked_PageSize_def)
  then have "unat shown < 10" by (simp add: word_less_nat_alt)
  moreover from this have "unat (shown + 1) = unat shown + 1"
    by (simp add: unat_word_ariths)
  ultimately show "((trackedPets, ntotal, i + 1, shown + 1,
      menuPetIndexToEntry(idx \<mapsto> e), w3), trackedPets, ntotal, i, shown, menuPetIndexToEntry, w)
    \<in> measure (\<lambda>(tp, ntotal, i, shown, m, w). 10 - unat shown)"
    by simp
qed

declare TrackedLoop.simps [simp del]

text \<open>
  ShowTrackedPetsMenu.  On a cache miss with tracking off the pointer to the list stays
  null and is dereferenced: the model returns the error.
\<close>
definition ShowTrackedPetsMenu :: "bool \<Rightarrow> uint32 \<Rightarrow> World \<Rightarrow> error + World" where
  "ShowTrackedPetsMenu creature page w0 =
     (let w = ClearGossipMenuFor w0;
          guid = guidRaw (player w);
          loaded =
            (case trackedPetsCache (rt w) guid of
               Some tp \<Rightarrow> Some (tp, w)
             | None \<Rightarrow>
                 if trackTamedPets (config (rt w)) then
                   let tp = db_list (beastmaster_tamed_pets w) (guidCounter (player w))
                   in Some (tp, w\<lparr>rt := (rt w)\<lparr>trackedPetsCache :=
                                   (trackedPetsCache (rt w))(guid \<mapsto> tp)\<rparr>\<rparr>)
                 else None)
      in case loaded of
           None \<Rightarrow> Inl NullDeref
         | Some (trackedPets, w1) \<Rightarrow>
             let ntotal = (of_nat (length trackedPets) :: uint32);
                 offset = (page - 1) * Tracked_PageSize
             in (case TrackedLoop trackedPets ntotal offset 0 Map.empty w1 of
                   (menuPetIndexToEntry, w2) \<Rightarrow>
                     Inr (SendGossipMenuFor GossipBrowse
                            (w2\<lparr>player := (player w2)\<lparr>menuPetMap :=
                                  Some menuPetIndexToEntry\<rparr>\<rparr>))))"

section \<open>NpcBeastmaster::CreatePet\<close>

text \<open>
  The host's Player::CreatePet(entry, spell): a pet named after the creature template
  becomes the player's pet, or null is returned when the host has no such template.
\<close>
definition Player_CreatePet :: "uint32 \<Rightarrow> uint32 \<Rightarrow> World \<Rightarrow> Pet option \<times> World" where
  "Player_CreatePet e spell w =
     (case creature_names w e of
        None \<Rightarrow> (None, w)
      | Some nm \<Rightarrow>
          let newPet = \<lparr>pet_entry = e, pet_name = nm, pet_spell = spell, happiness = 0\<rparr>
          in (Some newPet, w\<lparr>player := (player w)\<lparr>pet := Some newPet\<rparr>\<rparr>))"

definition Pet_SetPowerHappiness :: "uint32 \<Rightarrow> World \<Rightarrow> World" where
  "Pet_SetPowerHappiness v w =
     w\<lparr>player := (player w)\<lparr>pet := map_option (\<lambda>q. q\<lparr>happiness := v\<rparr>) (pet (player w))\<rparr>\<rparr>"

definition Pet_SetName :: "string \<Rightarrow> World \<Rightarrow> World" where
  "Pet_SetName nm w =
     w\<lparr>player := (player w)\<lparr>pet := map_option (\<lambda>q. q\<lparr>pet_name := nm\<rparr>) (pet (player w))\<rparr>\<rparr>"

definition learnSpell :: "uint32 \<Rightarrow> World \<Rightarrow> World" where
  "learnSpell sp w = w\<lparr>player := (player w)\<lparr>spells := insert sp (spells (player w))\<rparr>\<rparr>"

text \<open>rt.tamedEntriesCache[guid].insert(petEntry): operator[] creates an empty set.\<close>
definition CacheTamedEntry :: "uint32 \<Rightarrow> World \<Rightarrow> World" where
  "CacheTamedEntry petEntry w =
     (let guid = guidRaw (player w);
          old = (case tamedEntriesCache (rt w) guid of None \<Rightarrow> {} | Some t \<Rightarrow> t)
      in w\<lparr>rt := (rt w)\<lparr>tamedEntriesCache :=
               (tamedEntriesCache (rt w))(guid \<mapsto> insert petEntry old)\<rparr>\<rparr>)"

definition IsExotic :: "World \<Rightarrow> uint32 \<Rightarrow> bool" where
  "IsExotic w petEntry =
     (case FindPetInfo (rt w) petEntry of None \<Rightarrow> False | Some info \<Rightarrow> rarity info = ''exotic'')"

definition CreatePet :: "uint32 \<Rightarrow> World \<Rightarrow> World" where
  "CreatePet action w =
     (if \<not> opt_Enable (sConfigMgr w) then w
      else
        let cfg = config (rt w);
            petEntry = action - PetEntryOffset;
            hunter = (pclass (player w) = CLASS_HUNTER)
        in if IsExistPet w
           then CloseGossipMenuFor
                  (Whisper ''First you must abandon or stable your current pet!'' w)
           else if IsExotic w petEntry \<and> \<not> hunter \<and> \<not> allowExotic cfg
           then CloseGossipMenuFor (Whisper ''Only hunters can adopt exotic pets.'' w)
           else if IsExotic w petEntry \<and> hunter \<and> hunterBeastMasteryRequired cfg
                   \<and> \<not> HasTalent w PET_SPELL_BEAST_MASTERY
           then CloseGossipMenuFor
                  (Whisper ''You need the Beast Mastery talent to adopt exotic pets.'' w)
           else if trackTamedPets cfg \<and> maxTrackedPets cfg > 0
                   \<and> db_count (beastmaster_tamed_pets w) (guidCounter (player w))
                        \<ge> maxTrackedPets cfg
           then CloseGossipMenuFor
                  (Whisper ''You have reached the maximum number of tracked pets.'' w)
           else
             (case Player_CreatePet petEntry
                     (if hunter then PET_SPELL_TAME_BEAST else PET_SPELL_CALL_PET) w of
                (None, w1) \<Rightarrow>
                  Whisper ''First you must abandon or stable your current pet!'' w1
              | (Some newPet, w1) \<Rightarrow>
                  let w2 = (if trackTamedPets cfg
                            then (case TrackTamedPet petEntry (pet_name newPet) w1 of
                                    (added, w') \<Rightarrow>
                                      if added then CacheTamedEntry petEntry w' else w')
                            else w1);
                      w3 = Pet_SetPowerHappiness PET_MAX_HAPPINESS w2;
                      w4 = (if \<not> hunter \<and> \<not> HasSpell w3 PET_SPELL_CALL_PET
                            then fold (\<lambda>spell v. if \<not> HasSpell v spell then learnSpell spell v
                                                   else v) hunterSpells w3
                            else w3);
                      w5 = Whisper
                             (StringFormat
                                ''A fine choice {}! Take good care of your {} and you will never face your enemies alone.''
                                [S (playerName (player w4)), S (pet_name newPet)]) w4
                  in CloseGossipMenuFor w5))"

section \<open>NpcBeastmaster::GossipSelect\<close>

text \<open>
  The body shared by the four browse branches, which differ in the base of the range
  and in the bucket: the Back item, page and maxPage as int, the Previous and Next
  items, the page of pets and the menu.
\<close>
definition BrowsePage :: "uint32 \<Rightarrow> PetInfo list \<Rightarrow> uint32 \<Rightarrow> World \<Rightarrow> World" where
  "BrowsePage base pets action w =
     (let w1 = AddGossipItemFor GOSSIP_ICON_TALK ''Back..'' MainMenu w;
          page = sint (action - base + 1);
          n = length pets;
          maxPage = sint (of_nat (n div unat Gossip_PageSize
                                  + (if n mod unat Gossip_PageSize \<noteq> 0 then 1 else 0)) :: uint32);
          w2 = (if page > 1
                then AddGossipItemFor GOSSIP_ICON_INTERACT_1 ''Previous..''
                       (base + of_int page - 2) w1
                else w1);
          w3 = (if page < maxPage
                then AddGossipItemFor GOSSIP_ICON_INTERACT_1 ''Next..'' (base + of_int page) w2
                else w2);
          w4 = AddPetsToGossip pets (of_int page) w3
      in SendGossipMenuFor GossipBrowse w4)"

text \<open>The unlock-on-browse of the two exotic branches.\<close>
definition TeachBeastMastery :: "World \<Rightarrow> World" where
  "TeachBeastMastery w =
     (if \<not> (HasSpell w PET_SPELL_BEAST_MASTERY \<or> HasTalent w PET_SPELL_BEAST_MASTERY)
      then Whisper (''I have taught you the art of Beast Mastery, ''
                      @ playerName (player w) @ ''.'')
             (addSpell PET_SPELL_BEAST_MASTERY w)
      else w)"

text \<open>The last statement of GossipSelect, reached by the branches that do not return.\<close>
definition AdoptTail :: "uint32 \<Rightarrow> World \<Rightarrow> World" where
  "AdoptTail action w = (if IsAdoptAction action then CreatePet action w else w)"

definition TrackedSummon :: "uint32 \<Rightarrow> World \<Rightarrow> World" where
  "TrackedSummon action w =
     (let idx = action - SummonBase in
      case menuPetMap (player w) of
        None \<Rightarrow> w
      | Some m \<Rightarrow>
          (case m idx of
             None \<Rightarrow> w
           | Some e \<Rightarrow>
               if IsExistPet w
               then CloseGossipMenuFor
                      (Whisper ''First you must abandon or stable your current pet!'' w)
               else
                 (case Player_CreatePet e PET_SPELL_CALL_PET w of
                    (None, w1) \<Rightarrow> CloseGossipMenuFor (Whisper ''Failed to summon pet.'' w1)
                  | (Some newPet, w1) \<Rightarrow>
                      let w2 = (case db_name (beastmaster_tamed_pets w1)
                                       (guidCounter (player w1)) e of
                                  Some customName \<Rightarrow> Pet_SetName customName w1
                                | None \<Rightarrow> w1);
                          w3 = Pet_SetPowerHappiness PET_MAX_HAPPINESS w2
                      in CloseGossipMenuFor
                           (Whisper ''Your tracked pet has been summoned!'' w3))))"

definition TrackedRename :: "uint32 \<Rightarrow> World \<Rightarrow> World" where
  "TrackedRename action w =
     (let idx = action - RenameBase in
      case menuPetMap (player w) of
        None \<Rightarrow> w
      | Some m \<Rightarrow>
          (case m idx of
             None \<Rightarrow> w
           | Some e \<Rightarrow>
               let w1 = w\<lparr>player := (player w)\<lparr>renameEntry := Some e,
                                               expectRename := Some True\<rparr>\<rparr>;
                   w2 = PSendSysMessage
                          ''To rename your pet, type: .petname rename <newname> in chat. To cancel, type: .petname cancel'' w1;
                   w3 = Whisper
                          ''To rename your pet, type: .petname rename <newname> in chat. To cancel, type: .petname cancel'' w2
               in CloseGossipMenuFor w3))"

definition TrackedDelete :: "uint32 \<Rightarrow> World \<Rightarrow> error + World" where
  "TrackedDelete action w =
     (let idx = action - DeleteBase in
      case menuPetMap (player w) of
        None \<Rightarrow> Inr w
      | Some m \<Rightarrow>
          (case m idx of
             None \<Rightarrow> Inr w
           | Some e \<Rightarrow>
               let w1 = w\<lparr>beastmaster_tamed_pets :=
                            db_delete (beastmaster_tamed_pets w) (guidCounter (player w)) e\<rparr>;
                   w2 = ClearTrackedPetsCache w1;
                   guid = guidRaw (player w2);
                   w3 = (if trackTamedPets (config (rt w2)) then
                           (case tamedEntriesCache (rt w2) guid of
                              Some t \<Rightarrow> w2\<lparr>rt := (rt w2)\<lparr>tamedEntriesCache :=
                                            (tamedEntriesCache (rt w2))(guid \<mapsto> t - {e})\<rparr>\<rparr>
                            | None \<Rightarrow> w2)
                         else w2);
                   w4 = PSendSysMessage
                          (StringFormat ''Tracked pet deleted (entry {}).'' [U (unat e)]) w3;
                   totalPets = db_count (beastmaster_tamed_pets w4) (guidCounter (player w4));
                   page0 = (idx div Tracked_PageSize) + 1;
                   maxPage = (totalPets + Tracked_PageSize - 1) div Tracked_PageSize;
                   page1 = (if page0 > maxPage \<and> maxPage > 0 then maxPage else page0);
                   page = (if page1 = 0 then 1 else page1)
               in ShowTrackedPetsMenu True page w4))"

text \<open>The lazy load safeguard at the head of GossipSelect.\<close>
definition LazyLoad :: "World \<Rightarrow> World" where
  "LazyLoad w = (if allPets (rt w) = [] then LoadSystem w else w)"

text \<open>
  GossipSelect, called by OnGossipSelect with the creature the player talks to.  The
  branches for the tracked ranges return; the others fall through to the adoption test.
\<close>
definition GossipSelect :: "uint32 \<Rightarrow> World \<Rightarrow> error + World" where
  "GossipSelect action w00 =
     (if \<not> opt_Enable (sConfigMgr w00) then Inr w00
      else
        let w0 = LazyLoad w00;
            w = ClearGossipMenuFor w0
        in if action = MainMenu then Inr (AdoptTail action (ShowMainMenu True w))
           else if IsBrowseNormal action
           then Inr (AdoptTail action (BrowsePage PetsStart (normalPets (rt w)) action w))
           else if IsBrowseExotic action
           then Inr (AdoptTail action
                  (BrowsePage ExoticStart (exoticPets (rt w)) action (TeachBeastMastery w)))
           else if IsBrowseRare action
           then Inr (AdoptTail action (BrowsePage RareStart (rarePets (rt w)) action w))
           else if IsBrowseRareExotic action
           then Inr (AdoptTail action
                  (BrowsePage RareExoticStart (rareExoticPets (rt w)) action
                     (TeachBeastMastery w)))
           else if action = RemoveSkills
           then Inr (AdoptTail action
                  (CloseGossipMenuFor
                     (removeSpell PET_SPELL_BEAST_MASTERY
                        (fold removeSpell hunterSpells w))))
           else if action = GOSSIP_OPTION_STABLEPET
           then Inr (AdoptTail action
                  (w\<lparr>player := (player w)\<lparr>events := events (player w) @ [EvSendStablePet]\<rparr>\<rparr>))
           else if action = GOSSIP_OPTION_VENDOR
           then Inr (AdoptTail action
                  (w\<lparr>player := (player w)\<lparr>events :=
                        events (player w) @ [EvSendListInventory]\<rparr>\<rparr>))
           else if IsTrackedMenu action
           then ShowTrackedPetsMenu True (action - TrackedPetsMenu + 1) w
           else if IsTrackedSummon action then Inr (TrackedSummon action w)
           else if IsTrackedRename action then Inr (TrackedRename action w)
           else if IsTrackedDelete action then TrackedDelete action w
           else Inr (AdoptTail action w))"

section \<open>The chat commands .petname rename and .petname cancel\<close>

definition HandlePetnameRenameCommand :: "string \<Rightarrow> World \<Rightarrow> World" where
  "HandlePetnameRenameCommand args w =
     (case (expectRename (player w), renameEntry (player w)) of
        (Some True, Some target) \<Rightarrow>
          let newName = trim args in
          if newName = [] then PSendSysMessage ''Usage: .petname rename <newname>'' w
          else if \<not> IsValidPetName newName
                  \<or> IsProfane (opt_ProfanityFilter (sConfigMgr w)) (sProfanityList w) newName
          then PSendSysMessage
                 ''Invalid or profane pet name. Please try again with .petname rename <newname>.'' w
          else
            let w1 = w\<lparr>beastmaster_tamed_pets :=
                         db_update_name (sql_engine w) (beastmaster_tamed_pets w)
                           (guidCounter (player w)) target newName\<rparr>;
                w2 = w1\<lparr>player := (player w1)\<lparr>expectRename := None, renameEntry := None\<rparr>\<rparr>;
                w3 = PSendSysMessage (''Pet renamed to '' @ [CHR 0x27] @ newName @ [CHR 0x27] @ ''.'') w2
            in ClearTrackedPetsCache w3
      | _ \<Rightarrow>
          PSendSysMessage
            ''You are not renaming a pet right now. Use the Beastmaster NPC to start renaming.'' w)"

definition HandlePetnameCancelCommand :: "World \<Rightarrow> World" where
  "HandlePetnameCancelCommand w =
     (case expectRename (player w) of
        Some True \<Rightarrow>
          PSendSysMessage ''Pet renaming cancelled.''
            (w\<lparr>player := (player w)\<lparr>expectRename := None, renameEntry := None\<rparr>\<rparr>)
      | _ \<Rightarrow> PSendSysMessage ''You are not renaming a pet right now.'' w)"

section \<open>The four display buckets, in the words of the specification\<close>

datatype Bucket = Normal | Exotic | Rare | RareExotic

text \<open>
  The priority rule of the specification: the curated rare set first, then the
  rare-exotic set, then the rarity field.
\<close>
definition spec_bucket :: "uint32 set \<Rightarrow> uint32 set \<Rightarrow> PetInfo \<Rightarrow> Bucket" where
  "spec_bucket rare rareExotic info =
     (if entry info \<in> rare then Rare
      else if entry info \<in> rareExotic then RareExotic
      else if rarity info = ''exotic'' then Exotic
      else Normal)"

text \<open>The list of the runtime that holds a bucket.\<close>
fun bucket_list :: "Runtime \<Rightarrow> Bucket \<Rightarrow> PetInfo list" where
  "bucket_list r Normal = normalPets r"
| "bucket_list r Exotic = exoticPets r"
| "bucket_list r Rare = rarePets r"
| "bucket_list r RareExotic = rareExoticPets r"

section \<open>Notions of the specification used in the statements\<close>

text \<open>The number of records that the table holds for an (owner, entry) pair.\<close>
definition pair_count :: "TamedRow list \<Rightarrow> uint32 \<Rightarrow> uint32 \<Rightarrow> nat" where
  "pair_count rows ow e = length (filter (\<lambda>r. owner_guid r = ow \<and> tamed_entry r = e) rows)"

text \<open>
  The test of the rename command on the trimmed name: the name passes when the command
  does not answer with its invalid-or-profane message.
\<close>
definition name_accepted :: "bool \<Rightarrow> string set \<Rightarrow> string \<Rightarrow> bool" where
  "name_accepted profanityFilter denylist nm \<longleftrightarrow>
     \<not> (\<not> IsValidPetName nm \<or> IsProfane profanityFilter denylist nm)"

text \<open>A word occurs in a name as a substring, letter case ignored.\<close>
definition occurs_nocase :: "string \<Rightarrow> string \<Rightarrow> bool" where
  "occurs_nocase word nm \<longleftrightarrow> (\<exists>ps ss. map tolower nm = ps @ map tolower word @ ss)"

text \<open>
  Two players that agree on everything but the gossip menu, the events sent and the
  slot map; two runtimes that agree on everything but the two caches.
\<close>
definition same_but_menu :: "Player \<Rightarrow> Player \<Rightarrow> bool" where
  "same_but_menu p p' \<longleftrightarrow>
     p'\<lparr>gossipMenu := [], events := [], menuPetMap := None\<rparr> =
     p\<lparr>gossipMenu := [], events := [], menuPetMap := None\<rparr>"

definition same_but_caches :: "Runtime \<Rightarrow> Runtime \<Rightarrow> bool" where
  "same_but_caches r r' \<longleftrightarrow>
     r'\<lparr>tamedEntriesCache := Map.empty, trackedPetsCache := Map.empty\<rparr> =
     r\<lparr>tamedEntriesCache := Map.empty, trackedPetsCache := Map.empty\<rparr>"

text \<open>
  The class restriction in the words of the specification: in hunter-only mode the
  player must be a hunter; otherwise, when the set of allowed classes is not empty, the
  player's class must be in it.
\<close>
definition class_admitted :: "Config \<Rightarrow> uint8 \<Rightarrow> bool" where
  "class_admitted cfg cls =
     (if hunterOnly cfg then cls = CLASS_HUNTER
      else if allowedClasses cfg \<noteq> {} then cls \<in> allowedClasses cfg
      else True)"

text \<open>
  A hunter in hunter-only mode while the set of allowed classes is not empty and does
  not hold the hunter class.
\<close>
definition hunter_outside_allowed :: "Config \<Rightarrow> uint8 \<Rightarrow> bool" where
  "hunter_outside_allowed cfg cls \<longleftrightarrow>
     hunterOnly cfg \<and> cls = CLASS_HUNTER \<and> allowedClasses cfg \<noteq> {}
     \<and> CLASS_HUNTER \<notin> allowedClasses cfg"

text \<open>The event by which a refusal reaches the player.\<close>
definition refusal :: "bool \<Rightarrow> string \<Rightarrow> Event" where
  "refusal creature msg = (if creature then EvWhisper msg else EvSysMessage msg)"

text \<open>
  The event by which a level refusal reaches the player: without a creature the sentence
  is the argument of the format \<open>%s\<close>.
\<close>
definition level_refusal :: "bool \<Rightarrow> string \<Rightarrow> Event" where
  "level_refusal creature msg =
     (if creature then EvWhisper msg else EvSysMessage (StringFormat ''%s'' [S msg]))"

text \<open>What the player's client has received between two states.\<close>
definition new_events :: "World \<Rightarrow> World \<Rightarrow> Event list" where
  "new_events w w' = drop (length (events (player w))) (events (player w'))"

text \<open>
  The item that a browse page lists for a catalog entry: the entry's own item, which
  carries the adopt code, or the placeholder without action for an entry that the player
  has tamed already.
\<close>
definition browse_item :: "uint32 set \<Rightarrow> PetInfo \<Rightarrow> GossipIcon \<times> string \<times> uint32" where
  "browse_item tamed p =
     (if entry p \<in> tamed then (GOSSIP_ICON_CHAT, name p @ '' (Already Tamed)'', 0)
      else (icon p, name p, entry p + PetEntryOffset))"

text \<open>
  Pagination in the words of the specification: the window of page \<open>page\<close> (counted
  from 1) of a list for page size \<open>p\<close>, and the number of pages, the quotient of
  \<open>n\<close> by \<open>p\<close> rounded up.
\<close>
definition page_window :: "nat \<Rightarrow> 'a list \<Rightarrow> nat \<Rightarrow> 'a list" where
  "page_window p xs page = take p (drop (p * (page - 1)) xs)"

definition ceil_div :: "nat \<Rightarrow> nat \<Rightarrow> nat" where
  "ceil_div n p = (n + p - 1) div p"

text \<open>The state after a run of AddGossipItemFor calls.\<close>
definition add_items :: "(GossipIcon \<times> string \<times> uint32) list \<Rightarrow> World \<Rightarrow> World" where
  "add_items items w = w\<lparr>player := (player w)\<lparr>gossipMenu := gossipMenu (player w) @ items\<rparr>\<rparr>"

section \<open>Example state\<close>

text \<open>
  A configuration with the defaults of the module, except that tracking is on with a cap
  of two, and a level 80 hunter with two tracked pets.
\<close>
definition example_config :: ConfigMgr where
  "example_config =
     \<lparr>opt_Enable = True, opt_ProfanityFilter = True, opt_HunterOnly = True,
      opt_AllowExotic = False, opt_KeepPetHappy = False, opt_MinLevel = 10,
      opt_MaxLevel = 0, opt_HunterBeastMasteryRequired = True, opt_TrackTamedPets = True,
      opt_MaxTrackedPets = 2, opt_AllowedRaces = {}, opt_AllowedClasses = {},
      opt_RarePets = {99}, opt_RareExoticPets = {8}\<rparr>"

definition example_tames :: "(uint32 \<times> string \<times> uint32 \<times> string) list" where
  "example_tames =
     [(99, ''Prowler'', 1, ''normal''), (7, ''Devilsaur'', 39, ''exotic''),
      (8, ''Spirit Beast'', 46, ''exotic''), (5, ''Boar'', 5, ''normal'')]"

definition example_player :: Player where
  "example_player =
     \<lparr>guidRaw = 1, guidCounter = 1, playerName = ''Rexxar'', pclass = 3, race = 2,
      level = 80, spells = {}, talents = {}, pet = None, gossipMenu = [], events = [],
      expectRename = None, renameEntry = None, menuPetMap = None\<rparr>"

definition empty_runtime :: Runtime where
  "empty_runtime =
     \<lparr>config = \<lparr>hunterOnly = True, allowExotic = False, keepPetHappy = False,
                 minLevel = 10, maxLevel = 0, hunterBeastMasteryRequired = True,
                 trackTamedPets = False, maxTrackedPets = 20, allowedRaces = {},
                 allowedClasses = {}\<rparr>,
      allPets = [], normalPets = [], exoticPets = [], rarePets = [], rareExoticPets = [],
      rarePetEntries = {}, rareExoticPetEntries = {}, allPetsByEntry = Map.empty,
      tamedEntriesCache = Map.empty, trackedPetsCache = Map.empty\<rparr>"

definition example_rows :: "TamedRow list" where
  "example_rows =
     [\<lparr>owner_guid = 1, tamed_entry = 5, tamed_name = ''Boar'', date_tamed = 10\<rparr>,
      \<lparr>owner_guid = 1, tamed_entry = 7, tamed_name = ''Devilsaur'', date_tamed = 20\<rparr>]"

text \<open>The name of the creature template 32517: Loque, apostrophe, nahak.\<close>
definition Loque_nahak :: string where
  "Loque_nahak = ''Loque'' @ [CHR 0x27] @ ''nahak''"

text \<open>
  A database that answers a statement with a broken literal with a syntax error: the
  statement has no effect on the table.
\<close>
definition rejecting_engine :: "string \<Rightarrow> TamedRow list \<Rightarrow> TamedRow list" where
  "rejecting_engine text rows = rows"

definition example_world :: World where
  "example_world =
     \<lparr>sConfigMgr = example_config, beastmaster_tames = example_tames,
      beastmaster_tamed_pets = example_rows, db_now = 30, sql_engine = rejecting_engine,
      creature_names = map_of [(99, ''Prowler''), (7, ''Devilsaur''), (8, ''Spirit Beast''),
                               (5, ''Boar'')],
      sProfanityList = LoadProfanityList [''Bad'', []],
      rt = empty_runtime, player = example_player\<rparr>"

text \<open>
  The example state after LoadSystem: tracking is on, the cap is two and the player has
  two tracked pets.  In the second state the player has a live pet as well.
\<close>
definition capped_world :: World where
  "capped_world = LoadSystem example_world"

definition capped_world_with_pet :: World where
  "capped_world_with_pet =
     capped_world\<lparr>player := example_player\<lparr>pet :=
        Some \<lparr>pet_entry = 7, pet_name = ''Devilsaur'', pet_spell = 13481,
              happiness = 1048000\<rparr>\<rparr>\<rparr>"

text \<open>The example state with a rename pending for the tracked entry 5.\<close>
definition pending_world :: World where
  "pending_world =
     example_world\<lparr>player := example_player\<lparr>expectRename := Some True, renameEntry := Some 5\<rparr>\<rparr>"

text \<open>
  The loaded example state while the player looks at the tracked-pets menu (slot 0 is
  the Devilsaur, slot 1 the boar) and a rename of the boar is pending.
\<close>
definition delete_world :: World where
  "delete_world =
     capped_world\<lparr>player := example_player\<lparr>expectRename := Some True, renameEntry := Some 5,
        menuPetMap := Some [0 \<mapsto> 7, 1 \<mapsto> 5]\<rparr>\<rparr>"

text \<open>
  The example state with the module disabled; with the warrior class (1) as the only
  allowed class while hunter-only mode is on; and with a level 5 player.
\<close>
definition disabled_world :: World where
  "disabled_world = example_world\<lparr>sConfigMgr := example_config\<lparr>opt_Enable := False\<rparr>\<rparr>"

definition warriors_allowed_world :: World where
  "warriors_allowed_world =
     example_world\<lparr>sConfigMgr := example_config\<lparr>opt_AllowedClasses := {1}\<rparr>\<rparr>"

definition low_level_world :: World where
  "low_level_world = example_world\<lparr>player := example_player\<lparr>level := 5\<rparr>\<rparr>"

text \<open>
  The loaded example state with a cap of twenty tracked pets, so that the player, who
  has two, may adopt.
\<close>
definition free_world :: World where
  "free_world =
     LoadSystem (example_world\<lparr>sConfigMgr := example_config\<lparr>opt_MaxTrackedPets := 20\<rparr>\<rparr>)"

text \<open>
  A player with twenty-one tracked pets (entry k tamed at time k), which fill three pages
  of the tracked-pets menu, in a loaded state with a cap of thirty.
\<close>
definition many_rows :: "TamedRow list" where
  "many_rows =
     map (\<lambda>k. \<lparr>owner_guid = 1, tamed_entry = of_nat k, tamed_name = ''Pet'', date_tamed = k\<rparr>)
       [1..<22]"

definition many_world :: World where
  "many_world =
     LoadSystem (example_world\<lparr>sConfigMgr := example_config\<lparr>opt_MaxTrackedPets := 30\<rparr>,
                              beastmaster_tamed_pets := many_rows\<rparr>)"

text \<open>A bucket of fourteen entries: one full page and one entry more.\<close>
definition fourteen_pets :: "PetInfo list" where
  "fourteen_pets =
     map (\<lambda>k. \<lparr>entry = of_nat k, name = ''Cat'', family = 2, rarity = ''normal'',
                icon = GOSSIP_ICON_VENDOR\<rparr>) [1..<15]"

text \<open>
  The loaded example state of a player whose only tracked pet is the Devilsaur, shown in
  slot 0 of the tracked-pets menu.
\<close>
definition single_world :: World where
  "single_world =
     capped_world\<lparr>beastmaster_tamed_pets :=
        [\<lparr>owner_guid = 1, tamed_entry = 7, tamed_name = ''Devilsaur'', date_tamed = 20\<rparr>],
        player := example_player\<lparr>menuPetMap := Some [0 \<mapsto> 7]\<rparr>\<rparr>"

section \<open>Basic facts\<close>

lemmas action_consts =
  Gossip_PageSize_def PetsStart_def ExoticStart_def RareStart_def RareExoticStart_def
  PetEntryOffset_def MainMenu_def RemoveSkills_def GossipHello_def GossipBrowse_def
  TrackedPetsMenu_def MenuBase_def SummonBase_def RenameBase_def DeleteBase_def
  Tracked_PageSize_def GOSSIP_OPTION_VENDOR_def GOSSIP_OPTION_STABLEPET_def

lemmas action_preds =
  IsBrowseNormal_def IsBrowseExotic_def IsBrowseRare_def IsBrowseRareExotic_def
  IsAdoptAction_def IsTrackedMenu_def IsTrackedSummon_def IsTrackedRename_def
  IsTrackedDelete_def

lemmas example_defs =
  example_world_def example_config_def example_tames_def example_player_def
  empty_runtime_def example_rows_def

lemmas char_defs =
  tolower_def isspace_def is_letter_def is_interior_def upper_letters_def lower_letters_def

section \<open>Catalog partition\<close>

lemma LoadRow_sets [simp]:
  "rarePetEntries (LoadRow row r) = rarePetEntries r"
  "rareExoticPetEntries (LoadRow row r) = rareExoticPetEntries r"
  by (simp_all add: LoadRow_def Let_def)

lemma LoadRow_allPets [simp]: "allPets (LoadRow row r) = allPets r @ [FetchPetInfo row]"
  by (simp add: LoadRow_def Let_def)

lemma LoadRow_bucket:
  "bucket_list (LoadRow row r) b =
     bucket_list r b @
       (if spec_bucket (rarePetEntries r) (rareExoticPetEntries r) (FetchPetInfo row) = b
        then [FetchPetInfo row] else [])"
  by (cases b) (simp_all add: LoadRow_def Let_def spec_bucket_def)

lemma LoadRows_sets [simp]:
  "rarePetEntries (LoadRows rows r) = rarePetEntries r"
  "rareExoticPetEntries (LoadRows rows r) = rareExoticPetEntries r"
  by (induction rows arbitrary: r) simp_all

lemma LoadRows_allPets: "allPets (LoadRows rows r) = allPets r @ map FetchPetInfo rows"
  by (induction rows arbitrary: r) simp_all

lemma LoadRows_bucket:
  "bucket_list (LoadRows rows r) b =
     bucket_list r b @
       filter (\<lambda>info. spec_bucket (rarePetEntries r) (rareExoticPetEntries r) info = b)
         (map FetchPetInfo rows)"
proof (induction rows arbitrary: r)
  case Nil
  show ?case by simp
next
  case (Cons row rows)
  show ?case by (simp add: Cons.IH LoadRow_bucket)
qed

lemma LoadSystem_rt:
  "rt (LoadSystem w) =
     LoadRows (beastmaster_tames w) (rt (LoadSystem (w\<lparr>beastmaster_tames := []\<rparr>)))"
  by (cases "beastmaster_tames w = []") (simp_all add: LoadSystem_def Let_def)

lemma LoadSystem_cleared:
  "allPets (rt (LoadSystem (w\<lparr>beastmaster_tames := []\<rparr>))) = []"
  "bucket_list (rt (LoadSystem (w\<lparr>beastmaster_tames := []\<rparr>))) b = []"
  "rarePetEntries (rt (LoadSystem (w\<lparr>beastmaster_tames := []\<rparr>))) =
     opt_RarePets (sConfigMgr w)"
  "rareExoticPetEntries (rt (LoadSystem (w\<lparr>beastmaster_tames := []\<rparr>))) =
     opt_RareExoticPets (sConfigMgr w)"
  by (cases b; simp add: LoadSystem_def Let_def)+

lemma LoadSystem_allPets:
  "allPets (rt (LoadSystem w)) = map FetchPetInfo (beastmaster_tames w)"
  by (subst LoadSystem_rt) (simp only: LoadRows_allPets LoadSystem_cleared append_Nil)

lemma LoadSystem_bucket:
  "bucket_list (rt (LoadSystem w)) b =
     filter (\<lambda>info. spec_bucket (opt_RarePets (sConfigMgr w))
                       (opt_RareExoticPets (sConfigMgr w)) info = b)
       (map FetchPetInfo (beastmaster_tames w))"
  by (subst LoadSystem_rt) (simp only: LoadRows_bucket LoadSystem_cleared append_Nil)

lemma LoadRow_frame [simp]:
  "config (LoadRow row r) = config r"
  "tamedEntriesCache (LoadRow row r) = tamedEntriesCache r"
  "trackedPetsCache (LoadRow row r) = trackedPetsCache r"
  by (simp_all add: LoadRow_def Let_def)

lemma LoadRows_frame [simp]:
  "config (LoadRows rows r) = config r"
  "tamedEntriesCache (LoadRows rows r) = tamedEntriesCache r"
  "trackedPetsCache (LoadRows rows r) = trackedPetsCache r"
  by (induction rows arbitrary: r) simp_all

lemma LoadSystem_frame [simp]:
  "sConfigMgr (LoadSystem w) = sConfigMgr w"
  "beastmaster_tames (LoadSystem w) = beastmaster_tames w"
  "beastmaster_tamed_pets (LoadSystem w) = beastmaster_tamed_pets w"
  "db_now (LoadSystem w) = db_now w"
  "creature_names (LoadSystem w) = creature_names w"
  "sProfanityList (LoadSystem w) = sProfanityList w"
  "player (LoadSystem w) = player w"
  "tamedEntriesCache (rt (LoadSystem w)) = tamedEntriesCache (rt w)"
  "trackedPetsCache (rt (LoadSystem w)) = trackedPetsCache (rt w)"
  "sql_engine (LoadSystem w) = sql_engine w"
  by (simp_all add: LoadSystem_def Let_def)

lemma LoadSystem_config:
  "hunterOnly (config (rt (LoadSystem w))) = opt_HunterOnly (sConfigMgr w)"
  "allowExotic (config (rt (LoadSystem w))) = opt_AllowExotic (sConfigMgr w)"
  "hunterBeastMasteryRequired (config (rt (LoadSystem w))) =
     opt_HunterBeastMasteryRequired (sConfigMgr w)"
  "trackTamedPets (config (rt (LoadSystem w))) = opt_TrackTamedPets (sConfigMgr w)"
  "maxTrackedPets (config (rt (LoadSystem w))) = opt_MaxTrackedPets (sConfigMgr w)"
  "allowedRaces (config (rt (LoadSystem w))) = opt_AllowedRaces (sConfigMgr w)"
  "allowedClasses (config (rt (LoadSystem w))) = opt_AllowedClasses (sConfigMgr w)"
  by (simp_all add: LoadSystem_def Let_def)

lemma LoadSystem_levels:
  "minLevel (config (rt (LoadSystem w))) =
     (if opt_MaxLevel (sConfigMgr w) \<noteq> 0 \<and> opt_MaxLevel (sConfigMgr w) < opt_MinLevel (sConfigMgr w)
         \<and> opt_MinLevel (sConfigMgr w) \<noteq> 0
      then opt_MaxLevel (sConfigMgr w) else opt_MinLevel (sConfigMgr w))"
  "maxLevel (config (rt (LoadSystem w))) =
     (if opt_MaxLevel (sConfigMgr w) \<noteq> 0 \<and> opt_MaxLevel (sConfigMgr w) < opt_MinLevel (sConfigMgr w)
         \<and> opt_MinLevel (sConfigMgr w) \<noteq> 0
      then opt_MinLevel (sConfigMgr w) else opt_MaxLevel (sConfigMgr w))"
  by (simp_all add: LoadSystem_def Let_def)

lemma LoadRow_byEntry [simp]:
  "allPetsByEntry (LoadRow row r) =
     (allPetsByEntry r)(entry (FetchPetInfo row) \<mapsto> FetchPetInfo row)"
  by (simp add: LoadRow_def Let_def)

lemma find_app:
  "find P (xs @ ys) = (case find P xs of None \<Rightarrow> find P ys | Some x \<Rightarrow> Some x)"
  by (induction xs) simp_all

lemma LoadRows_byEntry:
  "allPetsByEntry (LoadRows rows r) e =
     (case find (\<lambda>info. entry info = e) (rev (map FetchPetInfo rows)) of
        Some info \<Rightarrow> Some info
      | None \<Rightarrow> allPetsByEntry r e)"
proof (induction rows arbitrary: r)
  case Nil
  show ?case by simp
next
  case (Cons row rows)
  show ?case
    by (simp add: Cons.IH find_app split: option.splits)
qed

lemma FindPetInfo_LoadSystem:
  "FindPetInfo (rt (LoadSystem w)) e =
     find (\<lambda>info. entry info = e) (rev (map FetchPetInfo (beastmaster_tames w)))"
proof -
  have "allPetsByEntry (rt (LoadSystem (w\<lparr>beastmaster_tames := []\<rparr>))) e = None"
    by (simp add: LoadSystem_def Let_def)
  then show ?thesis
    unfolding FindPetInfo_def
    by (subst LoadSystem_rt) (simp add: LoadRows_byEntry split: option.splits)
qed

text \<open>
  C2.  After LoadSystem the catalog is the list of the loaded rows, and each of the four
  bucket lists is exactly the sublist of the catalog that the priority rule (rare set,
  else rare-exotic set, else rarity field equal to exotic, else normal) sends to that
  bucket.  The rule is a function of the entry, so every loaded entry lies in one bucket
  and in no other, and the override sets win over the rarity field.
\<close>
theorem LoadSystem_partition:
  "allPets (rt (LoadSystem w)) = map FetchPetInfo (beastmaster_tames w) \<and>
   bucket_list (rt (LoadSystem w)) b =
     filter (\<lambda>info. spec_bucket (opt_RarePets (sConfigMgr w))
                       (opt_RareExoticPets (sConfigMgr w)) info = b)
       (allPets (rt (LoadSystem w))) \<and>
   (\<forall>info \<in> set (allPets (rt (LoadSystem w))). \<forall>b'.
      info \<in> set (bucket_list (rt (LoadSystem w)) b') \<longleftrightarrow>
      b' = spec_bucket (opt_RarePets (sConfigMgr w)) (opt_RareExoticPets (sConfigMgr w)) info)"
proof (intro conjI ballI allI)
  show "allPets (rt (LoadSystem w)) = map FetchPetInfo (beastmaster_tames w)"
    by (rule LoadSystem_allPets)
  show "bucket_list (rt (LoadSystem w)) b =
     filter (\<lambda>info. spec_bucket (opt_RarePets (sConfigMgr w))
                       (opt_RareExoticPets (sConfigMgr w)) info = b)
       (allPets (rt (LoadSystem w)))"
    by (simp only: LoadSystem_bucket LoadSystem_allPets)
next
  fix info b'
  assume "info \<in> set (allPets (rt (LoadSystem w)))"
  then show "info \<in> set (bucket_list (rt (LoadSystem w)) b') \<longleftrightarrow>
      b' = spec_bucket (opt_RarePets (sConfigMgr w)) (opt_RareExoticPets (sConfigMgr w)) info"
    by (auto simp: LoadSystem_bucket LoadSystem_allPets)
qed

theorem LoadSystem_partition_witness:
  "FetchPetInfo (99, ''Prowler'', 1, ''normal'') \<in> set (allPets (rt (LoadSystem example_world)))
   \<and> rarePets (rt (LoadSystem example_world)) = [FetchPetInfo (99, ''Prowler'', 1, ''normal'')]
   \<and> rareExoticPets (rt (LoadSystem example_world)) =
       [FetchPetInfo (8, ''Spirit Beast'', 46, ''exotic'')]
   \<and> exoticPets (rt (LoadSystem example_world)) = [FetchPetInfo (7, ''Devilsaur'', 39, ''exotic'')]
   \<and> normalPets (rt (LoadSystem example_world)) = [FetchPetInfo (5, ''Boar'', 5, ''normal'')]"
  using LoadSystem_partition [of example_world Rare]
    LoadSystem_partition [of example_world RareExotic]
    LoadSystem_partition [of example_world Exotic]
    LoadSystem_partition [of example_world Normal]
  by (simp add: example_defs spec_bucket_def FetchPetInfo_def)

section \<open>Tracking a tamed pet\<close>

lemma db_exists_pair_count: "db_exists rows ow e \<longleftrightarrow> pair_count rows ow e \<noteq> 0"
  by (auto simp: db_exists_def pair_count_def filter_empty_conv)

lemma pair_count_db_insert:
  "sql_plain nm \<Longrightarrow>
   pair_count (db_insert engine rows ow e nm now) ow e = Suc (pair_count rows ow e)"
  by (simp add: pair_count_def db_insert_def)

lemma pair_count_db_insert_other:
  "sql_plain nm \<Longrightarrow> (ow', e') \<noteq> (ow, e) \<Longrightarrow>
   pair_count (db_insert engine rows ow e nm now) ow' e' = pair_count rows ow' e'"
  by (auto simp: pair_count_def db_insert_def)

text \<open>
  For a name that stays inside its quotes, TrackTamedPet inserts a row for the player's
  (owner, entry) pair exactly when the table holds none, and its result says whether it
  inserted; nothing else of the state changes.  A second call for the same pair returns
  false and changes nothing, and when the table held at most one row for the pair (the
  uniqueness invariant of the table) it holds exactly one after the two calls.  The
  statements are taken to run one after the other.
\<close>
lemma TrackTamedPet_plain:
  assumes plain: "sql_plain nm"
  shows "(case TrackTamedPet e nm w of (added, w1) \<Rightarrow>
      (case TrackTamedPet e nm' w1 of (added2, w2) \<Rightarrow>
         (added \<longleftrightarrow> pair_count (beastmaster_tamed_pets w) (guidCounter (player w)) e = 0) \<and>
         w1 = (if added
               then w\<lparr>beastmaster_tamed_pets := beastmaster_tamed_pets w @
                      [\<lparr>owner_guid = guidCounter (player w), tamed_entry = e,
                        tamed_name = nm, date_tamed = db_now w\<rparr>]\<rparr>
               else w) \<and>
         \<not> added2 \<and> w2 = w1 \<and>
         (pair_count (beastmaster_tamed_pets w) (guidCounter (player w)) e \<le> 1 \<longrightarrow>
          pair_count (beastmaster_tamed_pets w2) (guidCounter (player w)) e = 1)))"
proof (cases "db_exists (beastmaster_tamed_pets w) (guidCounter (player w)) e")
  case True
  then have "pair_count (beastmaster_tamed_pets w) (guidCounter (player w)) e \<noteq> 0"
    by (simp add: db_exists_pair_count)
  with True show ?thesis by (auto simp: TrackTamedPet_def)
next
  case False
  then have zero: "pair_count (beastmaster_tamed_pets w) (guidCounter (player w)) e = 0"
    by (simp add: db_exists_pair_count)
  have after: "db_exists (db_insert (sql_engine w) (beastmaster_tamed_pets w)
      (guidCounter (player w)) e nm (db_now w)) (guidCounter (player w)) e"
    using plain by (simp add: db_exists_pair_count pair_count_db_insert)
  from False zero after plain show ?thesis
    by (simp add: TrackTamedPet_def pair_count_db_insert) (simp add: db_insert_def)
qed

lemma TrackTamedPet_plain_example:
  "fst (TrackTamedPet 99 ''Prowler'' example_world) \<and>
   \<not> fst (TrackTamedPet 99 ''Cat'' (snd (TrackTamedPet 99 ''Prowler'' example_world))) \<and>
   pair_count (beastmaster_tamed_pets example_world) 1 99 = 0 \<and>
   pair_count (beastmaster_tamed_pets
      (snd (TrackTamedPet 99 ''Cat'' (snd (TrackTamedPet 99 ''Prowler'' example_world))))) 1 99 = 1"
  using TrackTamedPet_plain
    [where e = 99 and nm = "''Prowler''" and w = example_world and nm' = "''Cat''"]
  by (simp add: example_defs pair_count_def sql_plain_def split: prod.splits)

lemma InsertStatement_apostrophe:
  "InsertStatement 1 32517 Loque_nahak =
     ''INSERT INTO beastmaster_tamed_pets (owner_guid, entry, name) VALUES (1, 32517, ''
       @ [CHR 0x27] @ ''Loque'' @ [CHR 0x27] @ ''nahak'' @ [CHR 0x27] @ '')''"
  by (simp add: InsertStatement_def Loque_nahak_def StringFormat.simps dec.simps)

text \<open>
  C9.  The creature template 32517 is named Loque, apostrophe, nahak.  The name is
  pasted into the INSERT statement between two apostrophes, so the literal ends after
  Loque and the text is no statement.  On a database that rejects it, TrackTamedPet for
  a pair without a row answers true, no row appears, and the second call for the same
  pair answers true again and leaves no row either.
\<close>
theorem TrackTamedPet_apostrophe:
  "\<not> sql_plain Loque_nahak \<and>
   pair_count (beastmaster_tamed_pets example_world) (guidCounter (player example_world)) 32517
     = 0 \<and>
   TrackTamedPet 32517 Loque_nahak example_world = (True, example_world) \<and>
   TrackTamedPet 32517 Loque_nahak (snd (TrackTamedPet 32517 Loque_nahak example_world)) =
     (True, example_world) \<and>
   sql_engine example_world (InsertStatement 1 32517 Loque_nahak) example_rows = example_rows"
proof -
  have np: "\<not> sql_plain Loque_nahak"
    by (simp add: sql_plain_def Loque_nahak_def)
  have zero: "pair_count (beastmaster_tamed_pets example_world)
      (guidCounter (player example_world)) 32517 = 0"
    by (simp add: example_defs pair_count_def)
  then have ne: "\<not> db_exists (beastmaster_tamed_pets example_world)
      (guidCounter (player example_world)) 32517"
    by (simp add: db_exists_pair_count)
  have eng: "sql_engine example_world = rejecting_engine"
    by (simp add: example_world_def)
  have first: "TrackTamedPet 32517 Loque_nahak example_world = (True, example_world)"
    using ne np by (simp add: TrackTamedPet_def db_insert_def eng rejecting_engine_def)
  show ?thesis
    using np zero first
    by (simp add: eng rejecting_engine_def)
qed

section \<open>Names: grammar, denylist, trimming\<close>

lemma regex_rest_iff:
  "regex_rest cs \<longleftrightarrow> cs \<noteq> [] \<and> is_letter (last cs) \<and> (\<forall>c \<in> set (butlast cs). is_interior c)"
  by (induction cs rule: regex_rest.induct) auto

lemma regex_match_allowed_iff:
  "regex_match_allowed nm \<longleftrightarrow>
     2 \<le> length nm \<and> is_letter (hd nm) \<and> is_letter (last nm) \<and>
     (\<forall>c \<in> set (butlast (tl nm)). is_interior c)"
  by (cases nm) (auto simp: regex_rest_iff Suc_le_eq)

lemma letter_not_space: "is_letter c \<Longrightarrow> \<not> isspace c"
  by (auto simp: char_defs)

lemma IsValidPetName_iff:
  "IsValidPetName nm \<longleftrightarrow>
     2 \<le> length nm \<and> length nm \<le> 16 \<and> is_letter (hd nm) \<and> is_letter (last nm) \<and>
     (\<forall>c \<in> set (butlast (tl nm)). is_interior c) \<and>
     \<not> isspace (hd nm) \<and> \<not> isspace (last nm)"
  by (auto simp: IsValidPetName_def regex_match_allowed_iff letter_not_space)

lemma str_find_iff:
  "(\<exists>pos. str_find hay needle = Some pos) \<longleftrightarrow> (\<exists>ps ss. hay = ps @ needle @ ss)"
proof (induction hay)
  case Nil
  show ?case by auto
next
  case (Cons c cs)
  show ?case
  proof (cases "take (length needle) (c # cs) = needle")
    case True
    then have "c # cs = [] @ needle @ drop (length needle) (c # cs)"
      by (metis append_Nil append_take_drop_id)
    then have "\<exists>ps ss. c # cs = ps @ needle @ ss" by blast
    moreover from True have "str_find (c # cs) needle = Some 0" by (simp del: take_Suc_Cons)
    ultimately show ?thesis by simp
  next
    case False
    have "(\<exists>ps ss. c # cs = ps @ needle @ ss) \<longleftrightarrow> (\<exists>ps ss. cs = ps @ needle @ ss)"
    proof
      assume "\<exists>ps ss. c # cs = ps @ needle @ ss"
      then obtain ps ss where eq: "c # cs = ps @ needle @ ss" by blast
      show "\<exists>ps ss. cs = ps @ needle @ ss"
      proof (cases ps)
        case Nil
        with eq have "take (length needle) (c # cs) = needle" by simp
        with False show ?thesis by simp
      next
        case (Cons p ps')
        with eq have "cs = ps' @ needle @ ss" by simp
        then show ?thesis by blast
      qed
    next
      assume "\<exists>ps ss. cs = ps @ needle @ ss"
      then obtain ps ss where "cs = ps @ needle @ ss" by blast
      then have "c # cs = (c # ps) @ needle @ ss" by simp
      then show "\<exists>ps ss. c # cs = ps @ needle @ ss" by blast
    qed
    with False Cons.IH show ?thesis by (simp del: take_Suc_Cons)
  qed
qed

lemma IsProfane_iff:
  "IsProfane pf (LoadProfanityList lines) nm \<longleftrightarrow>
     pf \<and> (\<exists>w \<in> set lines. w \<noteq> [] \<and> occurs_nocase w nm)"
proof -
  have "(\<exists>bad \<in> LoadProfanityList lines. str_find (map tolower nm) bad \<noteq> None) \<longleftrightarrow>
        (\<exists>w \<in> set lines. w \<noteq> [] \<and> str_find (map tolower nm) (map tolower w) \<noteq> None)"
    unfolding LoadProfanityList_def by (simp add: Bex_def)
  then show ?thesis
    by (simp add: IsProfane_def str_find_iff occurs_nocase_def)
qed

lemma trim_front_decomp:
  "\<exists>a. s = a @ trim_front s \<and> (\<forall>c \<in> set a. isspace c)"
proof (induction s)
  case Nil show ?case by simp
next
  case (Cons c cs)
  show ?case
  proof (cases "isspace c")
    case True
    from Cons.IH obtain a where "cs = a @ trim_front cs" "\<forall>c \<in> set a. isspace c" by blast
    with True have "c # cs = (c # a) @ trim_front (c # cs) \<and> (\<forall>x \<in> set (c # a). isspace x)" by simp
    then show ?thesis by blast
  next
    case False
    then have "c # cs = [] @ trim_front (c # cs) \<and> (\<forall>x \<in> set []. isspace x)" by simp
    then show ?thesis by blast
  qed
qed

lemma trim_front_hd: "trim_front s \<noteq> [] \<Longrightarrow> \<not> isspace (hd (trim_front s))"
  by (induction s) (auto split: if_splits)

lemma trim_back_decomp: "\<exists>b. s = trim_back s @ b \<and> (\<forall>c \<in> set b. isspace c)"
proof -
  obtain a where a: "rev s = a @ trim_front (rev s)" "\<forall>c \<in> set a. isspace c"
    using trim_front_decomp by blast
  then have "s = rev (trim_front (rev s)) @ rev a"
    by (metis rev_append rev_rev_ident)
  with a(2) show ?thesis unfolding trim_back_def by (metis set_rev)
qed

lemma trim_back_last: "trim_back s \<noteq> [] \<Longrightarrow> \<not> isspace (last (trim_back s))"
  unfolding trim_back_def using trim_front_hd [of "rev s"] by (simp add: last_rev)

lemma trim_back_hd: "trim_back s \<noteq> [] \<Longrightarrow> hd (trim_back s) = hd s"
  using trim_back_decomp [of s] by (metis hd_append2)

lemma trim_ends:
  "trim s \<noteq> [] \<Longrightarrow> \<not> isspace (hd (trim s)) \<and> \<not> isspace (last (trim s))"
  unfolding trim_def
  using trim_back_last [of "trim_front s"] trim_back_hd [of "trim_front s"] trim_front_hd [of s]
  by (metis trim_back_def rev_is_Nil_conv trim_front.simps(1))

lemma trim_decomp:
  "\<exists>a b. s = a @ trim s @ b \<and> (\<forall>c \<in> set a. isspace c) \<and> (\<forall>c \<in> set b. isspace c)"
proof -
  obtain a where a: "s = a @ trim_front s" "\<forall>c \<in> set a. isspace c"
    using trim_front_decomp by blast
  obtain b where b: "trim_front s = trim_back (trim_front s) @ b" "\<forall>c \<in> set b. isspace c"
    using trim_back_decomp by blast
  from a(1) b(1) have "s = a @ trim s @ b" by (simp add: trim_def)
  with a(2) b(2) show ?thesis by blast
qed

lemma occurs_nocase_code:
  "occurs_nocase word nm \<longleftrightarrow> str_find (map tolower nm) (map tolower word) \<noteq> None"
  by (simp add: occurs_nocase_def str_find_iff)

lemma examples_grammar:
  "IsValidPetName ''Al''" "IsValidPetName ''Al-Tair''" "\<not> IsValidPetName ''A''"
  "\<not> IsValidPetName ''Al1''" "\<not> IsValidPetName '' Al ''" "IsValidPetName (trim '' Al '')"
  by (simp_all add: IsValidPetName_def trim_def trim_back_def char_defs)

text \<open>
  C7 (amended).  The rename command accepts a trimmed name exactly when it has 2 to 16
  characters, begins and ends with a letter, has only letters, spaces, hyphens and
  apostrophes in between, has no white space at either end and, when the option
  BeastMaster.ProfanityFilter is on, contains no non-empty line of the word list as a
  substring, letter case ignored.  Al and Al-Tair pass the grammar; A, Al1 and the raw
  name with a space at each end do not, and the latter passes once trimmed.
\<close>
theorem name_accepted_iff:
  "(name_accepted pf (LoadProfanityList lines) nm \<longleftrightarrow>
     2 \<le> length nm \<and> length nm \<le> 16 \<and> is_letter (hd nm) \<and> is_letter (last nm) \<and>
     (\<forall>c \<in> set (butlast (tl nm)). is_interior c) \<and>
     \<not> isspace (hd nm) \<and> \<not> isspace (last nm) \<and>
     \<not> (pf \<and> (\<exists>w \<in> set lines. w \<noteq> [] \<and> occurs_nocase w nm))) \<and>
   IsValidPetName ''Al'' \<and> IsValidPetName ''Al-Tair'' \<and> \<not> IsValidPetName ''A'' \<and>
   \<not> IsValidPetName ''Al1'' \<and> \<not> IsValidPetName '' Al '' \<and> IsValidPetName (trim '' Al '')"
  unfolding name_accepted_def IsProfane_iff IsValidPetName_iff [of nm]
  using examples_grammar by blast

theorem name_accepted_iff_witness:
  "name_accepted True (LoadProfanityList [''Bad'', []]) ''Al-Tair'' \<and>
   \<not> name_accepted True (LoadProfanityList [''Bad'', []]) ''Badger''"
proof -
  have a: "name_accepted True (LoadProfanityList [''Bad'', []]) ''Al-Tair''"
    by (rule iffD2 [OF conjunct1 [OF name_accepted_iff]])
       (simp add: occurs_nocase_code char_defs)
  have "\<not> (2 \<le> length ''Badger'' \<and> length ''Badger'' \<le> 16 \<and> is_letter (hd ''Badger'') \<and>
     is_letter (last ''Badger'') \<and> (\<forall>c \<in> set (butlast (tl ''Badger'')). is_interior c) \<and>
     \<not> isspace (hd ''Badger'') \<and> \<not> isspace (last ''Badger'') \<and>
     \<not> (True \<and> (\<exists>w \<in> set [''Bad'', []]. w \<noteq> [] \<and> occurs_nocase w ''Badger'')))"
    by (simp add: occurs_nocase_code char_defs)
  then have b: "\<not> name_accepted True (LoadProfanityList [''Bad'', []]) ''Badger''"
    using conjunct1 [OF name_accepted_iff [of True "[''Bad'', []]" "''Badger''"]] by blast
  from a b show ?thesis ..
qed

text \<open>
  C7 as stated fails when the option BeastMaster.ProfanityFilter is off: IsProfane
  returns false before it looks at the list, and Badger is accepted although the list
  holds the word bad.
\<close>
theorem denylist_gate_counterexample:
  "''bad'' \<in> LoadProfanityList [''bad''] \<and> occurs_nocase ''bad'' ''Badger'' \<and>
   name_accepted False (LoadProfanityList [''bad'']) ''Badger''"
  by (simp add: occurs_nocase_code name_accepted_def IsProfane_def IsValidPetName_def
      LoadProfanityList_def char_defs)

section \<open>The rename sub-protocol\<close>

lemma PSend_fields [simp]:
  "expectRename (player (PSendSysMessage m w)) = expectRename (player w)"
  "renameEntry (player (PSendSysMessage m w)) = renameEntry (player w)"
  "beastmaster_tamed_pets (PSendSysMessage m w) = beastmaster_tamed_pets w"
  "sql_engine (PSendSysMessage m w) = sql_engine w"
  by (simp_all add: PSendSysMessage_def)

lemma Clear_fields [simp]:
  "expectRename (player (ClearTrackedPetsCache w)) = expectRename (player w)"
  "renameEntry (player (ClearTrackedPetsCache w)) = renameEntry (player w)"
  "beastmaster_tamed_pets (ClearTrackedPetsCache w) = beastmaster_tamed_pets w"
  "sql_engine (ClearTrackedPetsCache w) = sql_engine w"
  by (simp_all add: ClearTrackedPetsCache_def)

text \<open>
  C4.  The rename command is refused with a message unless the flag is set and a target
  entry is stored.  While pending, it works on the trimmed argument (the argument without
  the white space at its two ends): for a name that passes the grammar and the denylist
  the UPDATE statement of the target's row is executed with the name pasted in, and the
  flag and the target entry are erased; a name that fails leaves the state as it was but
  for the message, so the flag stays armed.  The
  cancel command is refused unless the flag is set, and when it is set it erases the
  flag and the target entry whatever else holds.
\<close>
theorem rename_protocol:
  "(\<not> (expectRename (player w) = Some True \<and> renameEntry (player w) \<noteq> None) \<longrightarrow>
      HandlePetnameRenameCommand args w =
        PSendSysMessage
          ''You are not renaming a pet right now. Use the Beastmaster NPC to start renaming.'' w) \<and>
   (expectRename (player w) = Some True \<and> renameEntry (player w) = Some target \<and>
    trim args \<noteq> [] \<and>
    name_accepted (opt_ProfanityFilter (sConfigMgr w)) (sProfanityList w) (trim args) \<longrightarrow>
      expectRename (player (HandlePetnameRenameCommand args w)) = None \<and>
      renameEntry (player (HandlePetnameRenameCommand args w)) = None \<and>
      beastmaster_tamed_pets (HandlePetnameRenameCommand args w) =
        db_update_name (sql_engine w) (beastmaster_tamed_pets w) (guidCounter (player w))
          target (trim args)) \<and>
   (expectRename (player w) = Some True \<and> renameEntry (player w) = Some target \<and>
    trim args \<noteq> [] \<and>
    \<not> name_accepted (opt_ProfanityFilter (sConfigMgr w)) (sProfanityList w) (trim args) \<longrightarrow>
      HandlePetnameRenameCommand args w =
        PSendSysMessage
          ''Invalid or profane pet name. Please try again with .petname rename <newname>.'' w \<and>
      expectRename (player (HandlePetnameRenameCommand args w)) = Some True \<and>
      renameEntry (player (HandlePetnameRenameCommand args w)) = Some target \<and>
      beastmaster_tamed_pets (HandlePetnameRenameCommand args w) = beastmaster_tamed_pets w) \<and>
   (expectRename (player w) \<noteq> Some True \<longrightarrow>
      HandlePetnameCancelCommand w =
        PSendSysMessage ''You are not renaming a pet right now.'' w) \<and>
   (expectRename (player w) = Some True \<longrightarrow>
      expectRename (player (HandlePetnameCancelCommand w)) = None \<and>
      renameEntry (player (HandlePetnameCancelCommand w)) = None \<and>
      beastmaster_tamed_pets (HandlePetnameCancelCommand w) = beastmaster_tamed_pets w) \<and>
   (\<exists>a b. args = a @ trim args @ b \<and> (\<forall>c \<in> set a. isspace c) \<and> (\<forall>c \<in> set b. isspace c)) \<and>
   (trim args \<noteq> [] \<longrightarrow> \<not> isspace (hd (trim args)) \<and> \<not> isspace (last (trim args)))"
proof (intro conjI impI)
  assume "\<not> (expectRename (player w) = Some True \<and> renameEntry (player w) \<noteq> None)"
  then show "HandlePetnameRenameCommand args w =
        PSendSysMessage
          ''You are not renaming a pet right now. Use the Beastmaster NPC to start renaming.'' w"
    by (auto simp: HandlePetnameRenameCommand_def split: option.splits bool.splits)
next
  assume "expectRename (player w) = Some True \<and> renameEntry (player w) = Some target \<and>
    trim args \<noteq> [] \<and>
    name_accepted (opt_ProfanityFilter (sConfigMgr w)) (sProfanityList w) (trim args)"
  then have ok: "HandlePetnameRenameCommand args w =
     ClearTrackedPetsCache (PSendSysMessage (''Pet renamed to '' @ [CHR 0x27] @ trim args @ [CHR 0x27] @ ''.'')
       (w\<lparr>beastmaster_tamed_pets := db_update_name (sql_engine w) (beastmaster_tamed_pets w)
              (guidCounter (player w)) target (trim args),
          player := (player w)\<lparr>expectRename := None, renameEntry := None\<rparr>\<rparr>))"
    by (simp add: HandlePetnameRenameCommand_def name_accepted_def Let_def)
  show "expectRename (player (HandlePetnameRenameCommand args w)) = None"
    by (simp add: ok)
  show "renameEntry (player (HandlePetnameRenameCommand args w)) = None"
    by (simp add: ok)
  show "beastmaster_tamed_pets (HandlePetnameRenameCommand args w) =
        db_update_name (sql_engine w) (beastmaster_tamed_pets w) (guidCounter (player w))
          target (trim args)"
    by (simp add: ok)
next
  assume a: "expectRename (player w) = Some True \<and> renameEntry (player w) = Some target \<and>
    trim args \<noteq> [] \<and>
    \<not> name_accepted (opt_ProfanityFilter (sConfigMgr w)) (sProfanityList w) (trim args)"
  then show bad: "HandlePetnameRenameCommand args w =
        PSendSysMessage
          ''Invalid or profane pet name. Please try again with .petname rename <newname>.'' w"
    by (auto simp: HandlePetnameRenameCommand_def name_accepted_def Let_def)
  from a show "expectRename (player (HandlePetnameRenameCommand args w)) = Some True"
    by (simp add: bad)
  from a show "renameEntry (player (HandlePetnameRenameCommand args w)) = Some target"
    by (simp add: bad)
  show "beastmaster_tamed_pets (HandlePetnameRenameCommand args w) = beastmaster_tamed_pets w"
    by (simp add: bad)
next
  assume "expectRename (player w) \<noteq> Some True"
  then show "HandlePetnameCancelCommand w =
        PSendSysMessage ''You are not renaming a pet right now.'' w"
    by (auto simp: HandlePetnameCancelCommand_def split: option.splits bool.splits)
next
  assume a: "expectRename (player w) = Some True"
  then show "expectRename (player (HandlePetnameCancelCommand w)) = None"
    by (simp add: HandlePetnameCancelCommand_def)
  from a show "renameEntry (player (HandlePetnameCancelCommand w)) = None"
    by (simp add: HandlePetnameCancelCommand_def)
  from a show "beastmaster_tamed_pets (HandlePetnameCancelCommand w) = beastmaster_tamed_pets w"
    by (simp add: HandlePetnameCancelCommand_def)
next
  show "\<exists>a b. args = a @ trim args @ b \<and> (\<forall>c \<in> set a. isspace c) \<and> (\<forall>c \<in> set b. isspace c)"
    by (rule trim_decomp)
next
  assume "trim args \<noteq> []"
  then show "\<not> isspace (hd (trim args))" "\<not> isspace (last (trim args))"
    using trim_ends by blast+
qed

lemma pending_world_facts:
  "expectRename (player pending_world) = Some True"
  "renameEntry (player pending_world) = Some 5"
  "opt_ProfanityFilter (sConfigMgr pending_world) = True"
  "sProfanityList pending_world = LoadProfanityList [''Bad'', []]"
  "beastmaster_tamed_pets pending_world = example_rows"
  "guidCounter (player pending_world) = 1"
  "sql_engine pending_world = rejecting_engine"
  by (simp_all add: pending_world_def example_defs)

lemma example_world_facts:
  "expectRename (player example_world) = None"
  by (simp_all add: example_defs)

theorem rename_protocol_witness:
  "expectRename (player (HandlePetnameRenameCommand ''  Al-Tair '' pending_world)) = None \<and>
   beastmaster_tamed_pets (HandlePetnameRenameCommand ''  Al-Tair '' pending_world) =
     db_update_name rejecting_engine example_rows 1 5 ''Al-Tair'' \<and>
   db_update_name rejecting_engine example_rows 1 5 ''Al-Tair'' =
     [\<lparr>owner_guid = 1, tamed_entry = 5, tamed_name = ''Al-Tair'', date_tamed = 10\<rparr>,
      \<lparr>owner_guid = 1, tamed_entry = 7, tamed_name = ''Devilsaur'', date_tamed = 20\<rparr>] \<and>
   expectRename (player (HandlePetnameRenameCommand ''Al1'' pending_world)) = Some True \<and>
   expectRename (player (HandlePetnameRenameCommand ''Badger'' pending_world)) = Some True \<and>
   expectRename (player (HandlePetnameCancelCommand pending_world)) = None \<and>
   HandlePetnameCancelCommand example_world =
     PSendSysMessage ''You are not renaming a pet right now.'' example_world \<and>
   HandlePetnameRenameCommand ''Al'' example_world =
     PSendSysMessage
       ''You are not renaming a pet right now. Use the Beastmaster NPC to start renaming.''
       example_world"
  using rename_protocol [where w = pending_world and args = "''  Al-Tair ''" and target = 5]
    rename_protocol [where w = pending_world and args = "''Al1''" and target = 5]
    rename_protocol [where w = pending_world and args = "''Badger''" and target = 5]
    rename_protocol [where w = example_world and args = "''Al''" and target = 5]
  by (simp add: pending_world_facts example_world_facts name_accepted_def IsValidPetName_def
      IsProfane_iff occurs_nocase_code trim_def trim_back_def char_defs)
    (simp add: db_update_name_def sql_plain_def example_rows_def)

section \<open>The cap on tracked pets\<close>

lemma Whisper_fields [simp]:
  "pet (player (Whisper m w)) = pet (player w)"
  "beastmaster_tamed_pets (Whisper m w) = beastmaster_tamed_pets w"
  "rt (Whisper m w) = rt w"
  by (simp_all add: Whisper_def)

lemma Close_fields [simp]:
  "pet (player (CloseGossipMenuFor w)) = pet (player w)"
  "beastmaster_tamed_pets (CloseGossipMenuFor w) = beastmaster_tamed_pets w"
  "rt (CloseGossipMenuFor w) = rt w"
  by (simp_all add: CloseGossipMenuFor_def)

text \<open>
  C8 (amended).  When tracking is on, a cap is configured and the player's number of
  tracked records has reached it, CreatePet creates no pet and leaves the table of
  tracked pets and the runtime as they were.  Its answer is decided by the first of
  these that applies: with the module disabled it returns at once and sends nothing;
  a player with a live pet is whispered to abandon or stable it; a player who is no
  hunter and asks for a catalog entry of rarity exotic while exotic pets are not allowed
  is whispered that only hunters can adopt exotic pets; a hunter who asks for such an
  entry without the Beast Mastery talent while the talent is required is whispered that
  the talent is needed; every other player is whispered the capacity message.  Each
  whisper is followed by the closing of the menu.
\<close>
theorem CreatePet_capacity:
  "trackTamedPets (config (rt w)) \<and> maxTrackedPets (config (rt w)) > 0 \<and>
   db_count (beastmaster_tamed_pets w) (guidCounter (player w)) \<ge> maxTrackedPets (config (rt w))
   \<longrightarrow>
     pet (player (CreatePet action w)) = pet (player w) \<and>
     beastmaster_tamed_pets (CreatePet action w) = beastmaster_tamed_pets w \<and>
     rt (CreatePet action w) = rt w \<and>
     CreatePet action w =
       (if \<not> opt_Enable (sConfigMgr w) then w
        else if IsExistPet w
        then CloseGossipMenuFor
               (Whisper ''First you must abandon or stable your current pet!'' w)
        else if IsExotic w (action - PetEntryOffset) \<and> pclass (player w) \<noteq> CLASS_HUNTER
                \<and> \<not> allowExotic (config (rt w))
        then CloseGossipMenuFor (Whisper ''Only hunters can adopt exotic pets.'' w)
        else if IsExotic w (action - PetEntryOffset) \<and> pclass (player w) = CLASS_HUNTER
                \<and> hunterBeastMasteryRequired (config (rt w))
                \<and> \<not> HasTalent w PET_SPELL_BEAST_MASTERY
        then CloseGossipMenuFor
               (Whisper ''You need the Beast Mastery talent to adopt exotic pets.'' w)
        else CloseGossipMenuFor
               (Whisper ''You have reached the maximum number of tracked pets.'' w))"
  by (simp add: CreatePet_def Let_def)

lemma capped_world_facts:
  "trackTamedPets (config (rt capped_world))"
  "maxTrackedPets (config (rt capped_world)) = 2"
  "db_count (beastmaster_tamed_pets capped_world) (guidCounter (player capped_world)) = 2"
  "opt_Enable (sConfigMgr capped_world)"
  "\<not> IsExistPet capped_world"
  "pclass (player capped_world) = CLASS_HUNTER"
  "pet (player capped_world) = None"
  by (simp_all add: capped_world_def LoadSystem_config example_defs db_count_def
      IsExistPet_def CLASS_HUNTER_def)

lemma capped_world_not_exotic: "\<not> IsExotic capped_world (906 - PetEntryOffset)"
  by (simp add: capped_world_def IsExotic_def FindPetInfo_LoadSystem example_defs
      FetchPetInfo_def PetEntryOffset_def)

lemma capped_world_rows: "beastmaster_tamed_pets capped_world = example_rows"
  by (simp add: capped_world_def example_world_def)

theorem CreatePet_capacity_witness:
  "CreatePet 906 capped_world =
     CloseGossipMenuFor (Whisper ''You have reached the maximum number of tracked pets.''
       capped_world) \<and>
   pet (player (CreatePet 906 capped_world)) = None \<and>
   beastmaster_tamed_pets (CreatePet 906 capped_world) = example_rows \<and>
   events (player (CreatePet 906 capped_world)) =
     [EvWhisper ''You have reached the maximum number of tracked pets.'', EvCloseGossipMenu]"
  using CreatePet_capacity [where w = capped_world and action = 906]
  by (simp add: capped_world_facts capped_world_not_exotic)
    (simp add: capped_world_rows Whisper_def CloseGossipMenuFor_def capped_world_def
      example_world_def example_player_def)

lemma capped_world_with_pet_facts:
  "trackTamedPets (config (rt capped_world_with_pet))"
  "maxTrackedPets (config (rt capped_world_with_pet)) = 2"
  "db_count (beastmaster_tamed_pets capped_world_with_pet)
     (guidCounter (player capped_world_with_pet)) = 2"
  "opt_Enable (sConfigMgr capped_world_with_pet)"
  "IsExistPet capped_world_with_pet"
  by (simp_all add: capped_world_with_pet_def capped_world_def LoadSystem_config
      example_defs db_count_def IsExistPet_def)

text \<open>
  C8 as stated fails for a player who has a live pet: the check for a live pet comes
  first, and the player at the cap of two is answered with the message about the current
  pet, not with the capacity message.
\<close>
theorem capacity_message_counterexample:
  "trackTamedPets (config (rt capped_world_with_pet)) \<and>
   maxTrackedPets (config (rt capped_world_with_pet)) = 2 \<and>
   db_count (beastmaster_tamed_pets capped_world_with_pet)
     (guidCounter (player capped_world_with_pet)) = 2 \<and>
   CreatePet 906 capped_world_with_pet =
     CloseGossipMenuFor (Whisper ''First you must abandon or stable your current pet!''
       capped_world_with_pet)"
  by (simp add: capped_world_with_pet_facts CreatePet_def Let_def)

section \<open>The tracked-pets menu\<close>

lemma TrackedLoop_stop:
  "\<not> (i < n \<and> sh < Tracked_PageSize) \<Longrightarrow> TrackedLoop tp n i sh m w = (m, w)"
  by (subst TrackedLoop.simps) (simp only: if_False)

lemma TrackedLoop_step:
  "i < n \<Longrightarrow> sh < Tracked_PageSize \<Longrightarrow> tp ! unat i = (e, nm, d) \<Longrightarrow>
   label = (case FindPetInfo (rt w) e of
              Some info \<Rightarrow> StringFormat ''{} [{}, {}]'' [S nm, S (name info), S (rarity info)]
            | None \<Rightarrow> nm) \<Longrightarrow>
   TrackedLoop tp n i sh m w =
     TrackedLoop tp n (i + 1) (sh + 1) (m(sh \<mapsto> e))
       (AddGossipItemFor GOSSIP_ICON_BATTLE (''Delete: '' @ label) (DeleteBase + sh)
          (AddGossipItemFor GOSSIP_ICON_TRAINER (''Rename: '' @ label) (RenameBase + sh)
             (AddGossipItemFor GOSSIP_ICON_TAXI (''Summon: '' @ label) (SummonBase + sh) w)))"
  by (subst TrackedLoop.simps) (simp add: Let_def)

lemma TrackedLoop_frame:
  "\<exists>g. snd (TrackedLoop tp n i sh m w) = w\<lparr>player := (player w)\<lparr>gossipMenu := g\<rparr>\<rparr>"
proof (induction k \<equiv> "10 - unat sh" arbitrary: i sh m w)
  case 0
  then have "\<not> sh < Tracked_PageSize"
    by (simp add: Tracked_PageSize_def word_less_nat_alt)
  then have "TrackedLoop tp n i sh m w = (m, w)" by (simp add: TrackedLoop_stop)
  then have "snd (TrackedLoop tp n i sh m w) =
      w\<lparr>player := (player w)\<lparr>gossipMenu := gossipMenu (player w)\<rparr>\<rparr>" by simp
  then show ?case by (rule exI)
next
  case (Suc k)
  show ?case
  proof (cases "i < n \<and> sh < Tracked_PageSize")
    case False
    then have "TrackedLoop tp n i sh m w = (m, w)" by (simp add: TrackedLoop_stop)
    then have "snd (TrackedLoop tp n i sh m w) =
        w\<lparr>player := (player w)\<lparr>gossipMenu := gossipMenu (player w)\<rparr>\<rparr>" by simp
    then show ?thesis by (rule exI)
  next
    case True
    obtain e nm d where t: "tp ! unat i = (e, nm, d)" by (cases "tp ! unat i") auto
    define label where "label = (case FindPetInfo (rt w) e of
              Some info \<Rightarrow> StringFormat ''{} [{}, {}]'' [S nm, S (name info), S (rarity info)]
            | None \<Rightarrow> nm)"
    define w3 where "w3 =
       AddGossipItemFor GOSSIP_ICON_BATTLE (''Delete: '' @ label) (DeleteBase + sh)
          (AddGossipItemFor GOSSIP_ICON_TRAINER (''Rename: '' @ label) (RenameBase + sh)
             (AddGossipItemFor GOSSIP_ICON_TAXI (''Summon: '' @ label) (SummonBase + sh) w))"
    from True have step: "TrackedLoop tp n i sh m w =
        TrackedLoop tp n (i + 1) (sh + 1) (m(sh \<mapsto> e)) w3"
      unfolding w3_def by (intro TrackedLoop_step [OF _ _ t label_def]) simp_all
    from True have "unat sh < 10" by (simp add: Tracked_PageSize_def word_less_nat_alt)
    then have "unat (sh + 1) = unat sh + 1" by (simp add: unat_word_ariths)
    with Suc.hyps(2) have "k = 10 - unat (sh + 1)" by simp
    from Suc.hyps(1) [OF this] obtain g where
      g: "snd (TrackedLoop tp n (i + 1) (sh + 1) (m(sh \<mapsto> e)) w3) =
          w3\<lparr>player := (player w3)\<lparr>gossipMenu := g\<rparr>\<rparr>" by blast
    have "w3\<lparr>player := (player w3)\<lparr>gossipMenu := g\<rparr>\<rparr> =
          w\<lparr>player := (player w)\<lparr>gossipMenu := g\<rparr>\<rparr>"
      by (simp add: w3_def AddGossipItemFor_def)
    with g step show ?thesis by (metis (no_types))
  qed
qed

section \<open>Deleting a tracked pet\<close>

lemma delete_dispatch:
  assumes "IsTrackedDelete action"
  shows "action \<noteq> MainMenu" "\<not> IsBrowseNormal action" "\<not> IsBrowseExotic action"
    "\<not> IsBrowseRare action" "\<not> IsBrowseRareExotic action" "action \<noteq> RemoveSkills"
    "action \<noteq> GOSSIP_OPTION_STABLEPET" "action \<noteq> GOSSIP_OPTION_VENDOR"
    "\<not> IsTrackedMenu action" "\<not> IsTrackedSummon action" "\<not> IsTrackedRename action"
  using assms
  by (auto simp: action_preds action_consts word_le_nat_alt word_less_nat_alt)

lemma GossipSelect_delete:
  "opt_Enable (sConfigMgr w) \<Longrightarrow> IsTrackedDelete action \<Longrightarrow>
   GossipSelect action w = TrackedDelete action (ClearGossipMenuFor (LazyLoad w))"
  by (simp add: GossipSelect_def Let_def delete_dispatch)

lemma ShowTrackedPetsMenu_frame:
  assumes "trackTamedPets (config (rt w)) \<or> trackedPetsCache (rt w) (guidRaw (player w)) \<noteq> None"
  shows "\<exists>w'. ShowTrackedPetsMenu cr page w = Inr w' \<and>
           same_but_menu (player w) (player w') \<and> same_but_caches (rt w) (rt w') \<and>
           tamedEntriesCache (rt w') = tamedEntriesCache (rt w) \<and>
           sConfigMgr w' = sConfigMgr w \<and> beastmaster_tames w' = beastmaster_tames w \<and>
           beastmaster_tamed_pets w' = beastmaster_tamed_pets w \<and> db_now w' = db_now w \<and>
           creature_names w' = creature_names w \<and> sProfanityList w' = sProfanityList w \<and>
           sql_engine w' = sql_engine w"
proof -
  define w0 where "w0 = ClearGossipMenuFor w"
  define tp where "tp = (case trackedPetsCache (rt w) (guidRaw (player w)) of
      Some t \<Rightarrow> t | None \<Rightarrow> db_list (beastmaster_tamed_pets w) (guidCounter (player w)))"
  define w1 where "w1 = (case trackedPetsCache (rt w) (guidRaw (player w)) of
      Some t \<Rightarrow> w0 | None \<Rightarrow> w0\<lparr>rt := (rt w0)\<lparr>trackedPetsCache :=
                                   (trackedPetsCache (rt w0))(guidRaw (player w) \<mapsto> tp)\<rparr>\<rparr>)"
  define res where "res = TrackedLoop tp (of_nat (length tp)) ((page - 1) * Tracked_PageSize) 0
      Map.empty w1"
  obtain g where g: "snd res = w1\<lparr>player := (player w1)\<lparr>gossipMenu := g\<rparr>\<rparr>"
    unfolding res_def using TrackedLoop_frame by blast
  have eq: "ShowTrackedPetsMenu cr page w =
      Inr (SendGossipMenuFor GossipBrowse
             ((snd res)\<lparr>player := (player (snd res))\<lparr>menuPetMap := Some (fst res)\<rparr>\<rparr>))"
    using assms
    by (auto simp: ShowTrackedPetsMenu_def Let_def w0_def w1_def tp_def res_def
        ClearGossipMenuFor_def split: option.splits prod.splits)
  show ?thesis
    unfolding eq g
    by (auto simp: SendGossipMenuFor_def w1_def w0_def ClearGossipMenuFor_def
        same_but_menu_def same_but_caches_def split: option.splits)
qed

lemma pair_count_db_delete [simp]: "pair_count (db_delete rows ow e) ow e = 0"
  by (simp add: pair_count_def db_delete_def)

lemma db_update_name_absent:
  "sql_plain nm \<Longrightarrow> pair_count rows ow e = 0 \<Longrightarrow> db_update_name engine rows ow e nm = rows"
  by (induction rows) (auto simp: pair_count_def db_update_name_def split: if_splits)

lemma same_but_menu_refl [simp]: "same_but_menu p p"
  by (simp add: same_but_menu_def)

lemma same_but_menu_trans:
  "same_but_menu p q \<Longrightarrow> same_but_menu q r \<Longrightarrow> same_but_menu p r"
  by (simp add: same_but_menu_def)

lemma same_but_caches_trans:
  "same_but_caches p q \<Longrightarrow> same_but_caches q r \<Longrightarrow> same_but_caches p r"
  by (simp add: same_but_caches_def)

lemma same_but_menu_fields:
  assumes "same_but_menu p p'"
  shows "expectRename p' = expectRename p" "renameEntry p' = renameEntry p"
    "guidCounter p' = guidCounter p" "guidRaw p' = guidRaw p" "pet p' = pet p"
proof -
  let ?f = "\<lambda>q. q\<lparr>gossipMenu := [], events := [], menuPetMap := None\<rparr>"
  from assms have eq: "?f p' = ?f p" by (simp add: same_but_menu_def)
  have "expectRename (?f p') = expectRename (?f p)" by (simp only: eq)
  then show "expectRename p' = expectRename p" by simp
  have "renameEntry (?f p') = renameEntry (?f p)" by (simp only: eq)
  then show "renameEntry p' = renameEntry p" by simp
  have "guidCounter (?f p') = guidCounter (?f p)" by (simp only: eq)
  then show "guidCounter p' = guidCounter p" by simp
  have "guidRaw (?f p') = guidRaw (?f p)" by (simp only: eq)
  then show "guidRaw p' = guidRaw p" by simp
  have "pet (?f p') = pet (?f p)" by (simp only: eq)
  then show "pet p' = pet p" by simp
qed

lemma TrackedDelete_frame:
  assumes slot: "menuPetMap (player w) = Some slots" "slots (action - DeleteBase) = Some deleted"
    and track: "trackTamedPets (config (rt w))"
  shows "\<exists>w'. TrackedDelete action w = Inr w' \<and>
           same_but_menu (player w) (player w') \<and> same_but_caches (rt w) (rt w') \<and>
           sConfigMgr w' = sConfigMgr w \<and> beastmaster_tames w' = beastmaster_tames w \<and>
           beastmaster_tamed_pets w' =
             db_delete (beastmaster_tamed_pets w) (guidCounter (player w)) deleted \<and>
           db_now w' = db_now w \<and>
           creature_names w' = creature_names w \<and> sProfanityList w' = sProfanityList w \<and>
           sql_engine w' = sql_engine w"
proof -
  define w4 where "w4 =
    (let w1 = w\<lparr>beastmaster_tamed_pets :=
                  db_delete (beastmaster_tamed_pets w) (guidCounter (player w)) deleted\<rparr>;
         w2 = ClearTrackedPetsCache w1;
         guid = guidRaw (player w2);
         w3 = (if trackTamedPets (config (rt w2)) then
                 (case tamedEntriesCache (rt w2) guid of
                    Some t \<Rightarrow> w2\<lparr>rt := (rt w2)\<lparr>tamedEntriesCache :=
                                  (tamedEntriesCache (rt w2))(guid \<mapsto> t - {deleted})\<rparr>\<rparr>
                  | None \<Rightarrow> w2)
               else w2)
     in PSendSysMessage (StringFormat ''Tracked pet deleted (entry {}).'' [U (unat deleted)]) w3)"
  have w4: "same_but_menu (player w) (player w4)" "same_but_caches (rt w) (rt w4)"
    "sConfigMgr w4 = sConfigMgr w" "beastmaster_tames w4 = beastmaster_tames w"
    "beastmaster_tamed_pets w4 =
       db_delete (beastmaster_tamed_pets w) (guidCounter (player w)) deleted"
    "db_now w4 = db_now w" "creature_names w4 = creature_names w"
    "sProfanityList w4 = sProfanityList w" "trackTamedPets (config (rt w4))"
    "sql_engine w4 = sql_engine w"
    using track
    by (auto simp: w4_def Let_def ClearTrackedPetsCache_def PSendSysMessage_def
        same_but_menu_def same_but_caches_def split: option.splits)
  obtain page where td: "TrackedDelete action w = ShowTrackedPetsMenu True page w4"
    using slot by (simp add: TrackedDelete_def w4_def Let_def)
  from ShowTrackedPetsMenu_frame [of w4 True page] w4(9)
  obtain w' where w': "ShowTrackedPetsMenu True page w4 = Inr w'"
      "same_but_menu (player w4) (player w')" "same_but_caches (rt w4) (rt w')"
      "sConfigMgr w' = sConfigMgr w4" "beastmaster_tames w' = beastmaster_tames w4"
      "beastmaster_tamed_pets w' = beastmaster_tamed_pets w4" "db_now w' = db_now w4"
      "creature_names w' = creature_names w4" "sProfanityList w' = sProfanityList w4"
      "sql_engine w' = sql_engine w4"
    by blast
  show ?thesis
    using td w' w4 same_but_menu_trans [OF w4(1) w'(2)] same_but_caches_trans [OF w4(2) w'(3)]
    by simp
qed

lemma LazyLoad_frame [simp]:
  "sConfigMgr (LazyLoad w) = sConfigMgr w"
  "beastmaster_tames (LazyLoad w) = beastmaster_tames w"
  "beastmaster_tamed_pets (LazyLoad w) = beastmaster_tamed_pets w"
  "db_now (LazyLoad w) = db_now w"
  "creature_names (LazyLoad w) = creature_names w"
  "sProfanityList (LazyLoad w) = sProfanityList w"
  "player (LazyLoad w) = player w"
  "sql_engine (LazyLoad w) = sql_engine w"
  by (simp_all add: LazyLoad_def)

lemma ClearGossipMenuFor_frame [simp]:
  "sConfigMgr (ClearGossipMenuFor w) = sConfigMgr w"
  "beastmaster_tames (ClearGossipMenuFor w) = beastmaster_tames w"
  "beastmaster_tamed_pets (ClearGossipMenuFor w) = beastmaster_tamed_pets w"
  "db_now (ClearGossipMenuFor w) = db_now w"
  "creature_names (ClearGossipMenuFor w) = creature_names w"
  "sProfanityList (ClearGossipMenuFor w) = sProfanityList w"
  "rt (ClearGossipMenuFor w) = rt w"
  "menuPetMap (player (ClearGossipMenuFor w)) = menuPetMap (player w)"
  "guidCounter (player (ClearGossipMenuFor w)) = guidCounter (player w)"
  "same_but_menu (player w) (player (ClearGossipMenuFor w))"
  "sql_engine (ClearGossipMenuFor w) = sql_engine w"
  by (simp_all add: ClearGossipMenuFor_def same_but_menu_def)

text \<open>
  A name that passes the grammar holds neither backslash nor NUL, so without an
  apostrophe it stays inside the quotes of the statement.
\<close>
lemma not_interior: "\<not> is_interior (CHR 0x5C)" "\<not> is_interior (CHR 0x00)"
  by (simp_all add: char_defs)

lemma valid_name_chars:
  assumes "IsValidPetName nm" and c: "c \<in> set nm"
  shows "is_interior c"
proof -
  from assms have len: "2 \<le> length nm" and h: "is_letter (hd nm)" and l: "is_letter (last nm)"
    and m: "\<forall>c \<in> set (butlast (tl nm)). is_interior c"
    by (simp_all add: IsValidPetName_iff)
  from len obtain a rest where nm: "nm = a # rest"
    by (cases nm) simp_all
  with len have rest: "rest \<noteq> []" by auto
  then have "butlast rest @ [last rest] = rest"
    by (rule append_butlast_last_id)
  then have "set rest = set (butlast rest @ [last rest])"
    by (rule arg_cong [where f = set, symmetric])
  then have sr: "set rest = set (butlast rest) \<union> {last rest}"
    by (simp only: set_append list.set Un_empty_right)
  from nm rest have e: "hd nm = a" "last nm = last rest" "tl nm = rest" by simp_all
  from c nm sr have "c = a \<or> c \<in> set (butlast rest) \<or> c = last rest" by auto
  then show ?thesis
  proof (elim disjE)
    assume "c = a"
    with h e show ?thesis by (simp add: is_interior_def)
  next
    assume "c \<in> set (butlast rest)"
    with m e show ?thesis by simp
  next
    assume "c = last rest"
    with l e show ?thesis by (simp add: is_interior_def)
  qed
qed

lemma valid_name_plain:
  assumes v: "IsValidPetName nm" and a: "CHR 0x27 \<notin> set nm"
  shows "sql_plain nm"
proof -
  have "CHR 0x5C \<notin> set nm"
    using valid_name_chars [OF v] not_interior(1) by blast
  moreover have "CHR 0x00 \<notin> set nm"
    using valid_name_chars [OF v] not_interior(2) by blast
  ultimately show ?thesis using a by (simp add: sql_plain_def)
qed

lemma rename_after_success:
  assumes "expectRename (player w) = Some True" "renameEntry (player w) = Some target"
    "trim args \<noteq> []"
    "name_accepted (opt_ProfanityFilter (sConfigMgr w)) (sProfanityList w) (trim args)"
  shows "HandlePetnameRenameCommand args w =
     ClearTrackedPetsCache
       (PSendSysMessage (''Pet renamed to '' @ [CHR 0x27] @ trim args @ [CHR 0x27] @ ''.'')
         (w\<lparr>beastmaster_tamed_pets := db_update_name (sql_engine w) (beastmaster_tamed_pets w)
                (guidCounter (player w)) target (trim args),
            player := (player w)\<lparr>expectRename := None, renameEntry := None\<rparr>\<rparr>))"
  using assms by (simp add: HandlePetnameRenameCommand_def name_accepted_def Let_def)

text \<open>
  C10 (amended).  With the module enabled and tracking on, the delete action on a slot
  of the slot map returns, and leaves the rename flag and its target entry as they were.
  Of the player only the gossip menu, the events sent and the slot map change; of the
  runtime only the two caches change, counted from the runtime that the lazy reload at
  the head of the handler leaves (the reload replaces the catalog and the configuration
  when the catalog was empty); of the rest of the state only the table of tracked pets
  changes, from which the rows of the deleted entry are gone.  If a rename of the
  deleted entry was pending, a following rename command with a valid name passes the
  pending test, executes its UPDATE statement for the deleted entry, reports the
  rename and erases the flag; for a name without an apostrophe the statement finds no
  row and the table stays as the delete left it.
\<close>
theorem delete_keeps_rename_pending:
  "opt_Enable (sConfigMgr w) \<and> IsTrackedDelete action \<and>
   menuPetMap (player w) = Some slots \<and> slots (action - DeleteBase) = Some deleted \<and>
   trackTamedPets (config (rt (LazyLoad w))) \<longrightarrow>
   (\<exists>w'. GossipSelect action w = Inr w' \<and>
      expectRename (player w') = expectRename (player w) \<and>
      renameEntry (player w') = renameEntry (player w) \<and>
      same_but_menu (player w) (player w') \<and>
      same_but_caches (rt (LazyLoad w)) (rt w') \<and>
      sConfigMgr w' = sConfigMgr w \<and> beastmaster_tames w' = beastmaster_tames w \<and>
      db_now w' = db_now w \<and> creature_names w' = creature_names w \<and>
      sProfanityList w' = sProfanityList w \<and> sql_engine w' = sql_engine w \<and>
      beastmaster_tamed_pets w' =
        db_delete (beastmaster_tamed_pets w) (guidCounter (player w)) deleted \<and>
      pair_count (beastmaster_tamed_pets w') (guidCounter (player w)) deleted = 0 \<and>
      (expectRename (player w) = Some True \<and> renameEntry (player w) = Some deleted \<and>
       trim args \<noteq> [] \<and>
       name_accepted (opt_ProfanityFilter (sConfigMgr w)) (sProfanityList w) (trim args) \<longrightarrow>
         expectRename (player (HandlePetnameRenameCommand args w')) = None \<and>
         renameEntry (player (HandlePetnameRenameCommand args w')) = None \<and>
         events (player (HandlePetnameRenameCommand args w')) =
           events (player w') @
             [EvSysMessage (''Pet renamed to '' @ [CHR 0x27] @ trim args @ [CHR 0x27] @ ''.'')] \<and>
         beastmaster_tamed_pets (HandlePetnameRenameCommand args w') =
           db_update_name (sql_engine w) (beastmaster_tamed_pets w') (guidCounter (player w))
             deleted (trim args) \<and>
         (CHR 0x27 \<notin> set (trim args) \<longrightarrow>
            beastmaster_tamed_pets (HandlePetnameRenameCommand args w') =
              beastmaster_tamed_pets w')))"
proof (intro impI, elim conjE)
  assume en: "opt_Enable (sConfigMgr w)" and act: "IsTrackedDelete action"
    and slot: "menuPetMap (player w) = Some slots" "slots (action - DeleteBase) = Some deleted"
    and track: "trackTamedPets (config (rt (LazyLoad w)))"
  define v where "v = ClearGossipMenuFor (LazyLoad w)"
  have v: "menuPetMap (player v) = Some slots" "trackTamedPets (config (rt v))"
    "same_but_menu (player w) (player v)" "rt v = rt (LazyLoad w)"
    "guidCounter (player v) = guidCounter (player w)"
    using slot track ClearGossipMenuFor_frame(10) [of "LazyLoad w"] by (simp_all add: v_def)
  from TrackedDelete_frame [OF v(1) slot(2) v(2)]
  obtain w' where w': "TrackedDelete action v = Inr w'"
      "same_but_menu (player v) (player w')" "same_but_caches (rt v) (rt w')"
      "sConfigMgr w' = sConfigMgr v" "beastmaster_tames w' = beastmaster_tames v"
      "beastmaster_tamed_pets w' =
         db_delete (beastmaster_tamed_pets v) (guidCounter (player v)) deleted"
      "db_now w' = db_now v" "creature_names w' = creature_names v"
      "sProfanityList w' = sProfanityList v" "sql_engine w' = sql_engine v"
    by blast
  have sel: "GossipSelect action w = Inr w'"
    using en act w'(1) by (simp add: GossipSelect_delete v_def)
  have sbm: "same_but_menu (player w) (player w')"
    by (rule same_but_menu_trans [OF v(3) w'(2)])
  note pf = same_but_menu_fields [OF sbm]
  have sbc: "same_but_caches (rt (LazyLoad w)) (rt w')"
    using w'(3) by (simp add: v(4))
  have rows: "beastmaster_tamed_pets w' =
      db_delete (beastmaster_tamed_pets w) (guidCounter (player w)) deleted"
    using w'(6) by (simp add: v_def)
  have frame: "sConfigMgr w' = sConfigMgr w" "beastmaster_tames w' = beastmaster_tames w"
    "db_now w' = db_now w" "creature_names w' = creature_names w"
    "sProfanityList w' = sProfanityList w" "sql_engine w' = sql_engine w"
    using w'(4,5,7,8,9,10) by (simp_all add: v_def)
  have zero: "pair_count (beastmaster_tamed_pets w') (guidCounter (player w)) deleted = 0"
    by (simp add: rows)
  have confirm: "expectRename (player (HandlePetnameRenameCommand args w')) = None \<and>
         renameEntry (player (HandlePetnameRenameCommand args w')) = None \<and>
         events (player (HandlePetnameRenameCommand args w')) =
           events (player w') @
             [EvSysMessage (''Pet renamed to '' @ [CHR 0x27] @ trim args @ [CHR 0x27] @ ''.'')] \<and>
         beastmaster_tamed_pets (HandlePetnameRenameCommand args w') =
           db_update_name (sql_engine w) (beastmaster_tamed_pets w') (guidCounter (player w))
             deleted (trim args) \<and>
         (CHR 0x27 \<notin> set (trim args) \<longrightarrow>
            beastmaster_tamed_pets (HandlePetnameRenameCommand args w') =
              beastmaster_tamed_pets w')"
    if pend: "expectRename (player w) = Some True" "renameEntry (player w) = Some deleted"
      and nm: "trim args \<noteq> []"
        "name_accepted (opt_ProfanityFilter (sConfigMgr w)) (sProfanityList w) (trim args)"
  proof -
    have cmd: "HandlePetnameRenameCommand args w' =
     ClearTrackedPetsCache
       (PSendSysMessage (''Pet renamed to '' @ [CHR 0x27] @ trim args @ [CHR 0x27] @ ''.'')
         (w'\<lparr>beastmaster_tamed_pets := db_update_name (sql_engine w')
                (beastmaster_tamed_pets w') (guidCounter (player w')) deleted (trim args),
            player := (player w')\<lparr>expectRename := None, renameEntry := None\<rparr>\<rparr>))"
      using pend nm by (intro rename_after_success) (simp_all add: pf frame)
    from nm(2) have valid: "IsValidPetName (trim args)"
      by (simp add: name_accepted_def)
    have absent: "db_update_name (sql_engine w) (beastmaster_tamed_pets w')
        (guidCounter (player w)) deleted (trim args) = beastmaster_tamed_pets w'"
      if "CHR 0x27 \<notin> set (trim args)"
      using valid_name_plain [OF valid that] zero by (simp add: db_update_name_absent)
    have tab: "beastmaster_tamed_pets (HandlePetnameRenameCommand args w') =
        db_update_name (sql_engine w) (beastmaster_tamed_pets w') (guidCounter (player w))
          deleted (trim args)"
      by (simp add: cmd pf frame)
    have fl: "expectRename (player (HandlePetnameRenameCommand args w')) = None"
      "renameEntry (player (HandlePetnameRenameCommand args w')) = None"
      "events (player (HandlePetnameRenameCommand args w')) =
           events (player w') @
             [EvSysMessage (''Pet renamed to '' @ [CHR 0x27] @ trim args @ [CHR 0x27] @ ''.'')]"
      by (simp_all add: cmd ClearTrackedPetsCache_def PSendSysMessage_def)
    from fl tab absent show ?thesis by simp
  qed
  show "\<exists>w'. GossipSelect action w = Inr w' \<and>
      expectRename (player w') = expectRename (player w) \<and>
      renameEntry (player w') = renameEntry (player w) \<and>
      same_but_menu (player w) (player w') \<and>
      same_but_caches (rt (LazyLoad w)) (rt w') \<and>
      sConfigMgr w' = sConfigMgr w \<and> beastmaster_tames w' = beastmaster_tames w \<and>
      db_now w' = db_now w \<and> creature_names w' = creature_names w \<and>
      sProfanityList w' = sProfanityList w \<and> sql_engine w' = sql_engine w \<and>
      beastmaster_tamed_pets w' =
        db_delete (beastmaster_tamed_pets w) (guidCounter (player w)) deleted \<and>
      pair_count (beastmaster_tamed_pets w') (guidCounter (player w)) deleted = 0 \<and>
      (expectRename (player w) = Some True \<and> renameEntry (player w) = Some deleted \<and>
       trim args \<noteq> [] \<and>
       name_accepted (opt_ProfanityFilter (sConfigMgr w)) (sProfanityList w) (trim args) \<longrightarrow>
         expectRename (player (HandlePetnameRenameCommand args w')) = None \<and>
         renameEntry (player (HandlePetnameRenameCommand args w')) = None \<and>
         events (player (HandlePetnameRenameCommand args w')) =
           events (player w') @
             [EvSysMessage (''Pet renamed to '' @ [CHR 0x27] @ trim args @ [CHR 0x27] @ ''.'')] \<and>
         beastmaster_tamed_pets (HandlePetnameRenameCommand args w') =
           db_update_name (sql_engine w) (beastmaster_tamed_pets w') (guidCounter (player w))
             deleted (trim args) \<and>
         (CHR 0x27 \<notin> set (trim args) \<longrightarrow>
            beastmaster_tamed_pets (HandlePetnameRenameCommand args w') =
              beastmaster_tamed_pets w'))"
    using sel pf(1,2) sbm sbc frame rows zero confirm by blast
qed

lemma LazyLoad_loaded: "LazyLoad (LoadSystem example_world) = LoadSystem example_world"
  by (simp add: LazyLoad_def LoadSystem_allPets example_world_def example_tames_def)

lemma delete_world_facts:
  "opt_Enable (sConfigMgr delete_world)"
  "IsTrackedDelete 4001"
  "menuPetMap (player delete_world) = Some [0 \<mapsto> 7, 1 \<mapsto> 5]"
  "[0 \<mapsto> 7, 1 \<mapsto> (5::uint32)] (4001 - DeleteBase) = Some 5"
  "trackTamedPets (config (rt (LazyLoad delete_world)))"
  "expectRename (player delete_world) = Some True"
  "renameEntry (player delete_world) = Some 5"
  "guidCounter (player delete_world) = 1"
  "beastmaster_tamed_pets delete_world = example_rows"
  "opt_ProfanityFilter (sConfigMgr delete_world)"
  "sProfanityList delete_world = LoadProfanityList [''Bad'', []]"
  by (simp_all add: delete_world_def capped_world_def LazyLoad_def LoadSystem_allPets
      LoadSystem_config example_defs action_preds action_consts)

lemma name_Al:
  "trim ''Al'' = ''Al''" "name_accepted True (LoadProfanityList [''Bad'', []]) ''Al''"
  "sql_plain ''Al''"
  by (simp_all add: trim_def trim_back_def name_accepted_def IsValidPetName_def IsProfane_iff
      occurs_nocase_code char_defs sql_plain_def)

theorem delete_keeps_rename_pending_witness:
  "\<exists>w'. GossipSelect 4001 delete_world = Inr w' \<and>
      expectRename (player w') = Some True \<and> renameEntry (player w') = Some 5 \<and>
      beastmaster_tamed_pets w' =
        [\<lparr>owner_guid = 1, tamed_entry = 7, tamed_name = ''Devilsaur'', date_tamed = 20\<rparr>] \<and>
      expectRename (player (HandlePetnameRenameCommand ''Al'' w')) = None \<and>
      beastmaster_tamed_pets (HandlePetnameRenameCommand ''Al'' w') =
        [\<lparr>owner_guid = 1, tamed_entry = 7, tamed_name = ''Devilsaur'', date_tamed = 20\<rparr>]"
proof -
  from delete_keeps_rename_pending
    [where w = delete_world and action = 4001 and slots = "[0 \<mapsto> 7, 1 \<mapsto> 5]"
       and deleted = 5 and args = "''Al''"]
  obtain w' where "GossipSelect 4001 delete_world = Inr w'"
    "expectRename (player w') = Some True" "renameEntry (player w') = Some 5"
    "beastmaster_tamed_pets w' = db_delete example_rows 1 5"
    "expectRename (player (HandlePetnameRenameCommand ''Al'' w')) = None"
    "beastmaster_tamed_pets (HandlePetnameRenameCommand ''Al'' w') = beastmaster_tamed_pets w'"
    by (auto simp: delete_world_facts name_Al DeleteBase_def)
  then show ?thesis
    by (intro exI [of _ w']) (simp add: db_delete_def example_rows_def)
qed

lemma AddGossipItemFor_proj [simp]:
  "rt (AddGossipItemFor ic l a w) = rt w"
  "beastmaster_tamed_pets (AddGossipItemFor ic l a w) = beastmaster_tamed_pets w"
  "menuPetMap (player (AddGossipItemFor ic l a w)) = menuPetMap (player w)"
  "pet (player (AddGossipItemFor ic l a w)) = pet (player w)"
  by (simp_all add: AddGossipItemFor_def)

lemma delete_world_state:
  "allPets (rt delete_world) \<noteq> []"
  "guidRaw (player delete_world) = 1"
  "tamedEntriesCache (rt delete_world) 1 = None"
  "events (player delete_world) = []"
  by (simp_all add: delete_world_def capped_world_def LoadSystem_allPets example_defs)

text \<open>
  C10 as stated fails in its frame: the delete action changes more than the row and the
  two caches.  In the example state the player looks at the two slots of the tracked
  menu; the delete of slot 1 rebuilds the player's slot map, which then holds slot 0
  only, and sends the message and the new menu.
\<close>
theorem delete_frame_counterexample:
  "\<exists>w'. GossipSelect 4001 delete_world = Inr w' \<and>
      menuPetMap (player delete_world) = Some [0 \<mapsto> 7, 1 \<mapsto> 5] \<and>
      menuPetMap (player w') = Some [0 \<mapsto> 7] \<and>
      menuPetMap (player w') \<noteq> menuPetMap (player delete_world) \<and>
      events (player delete_world) = [] \<and>
      events (player w') \<noteq> []"
proof -
  have sel: "GossipSelect 4001 delete_world =
      TrackedDelete 4001 (ClearGossipMenuFor delete_world)"
    using delete_world_facts(1) delete_world_state(1)
    by (simp add: GossipSelect_delete IsTrackedDelete_def DeleteBase_def LazyLoad_def)
  have ne: "[(0::uint32) \<mapsto> (7::uint32)] \<noteq> [0 \<mapsto> 7, 1 \<mapsto> 5]" (is "?a \<noteq> ?b")
  proof
    assume "?a = ?b"
    then have "?a (1::uint32) = ?b 1" by (rule arg_cong)
    then show False by simp
  qed
  show ?thesis
    unfolding sel
    using delete_world_facts(3,5,8,9) delete_world_state ne
    by (simp add: TrackedDelete_def Let_def ClearGossipMenuFor_def ClearTrackedPetsCache_def
        PSendSysMessage_def ShowTrackedPetsMenu_def db_delete_def db_list_def db_count_def
        example_rows_def action_consts TrackedLoop.simps SendGossipMenuFor_def LazyLoad_def)
qed

section \<open>Eligibility for the main menu\<close>

lemma events_simps [simp]:
  "events (player (AddGossipItemFor ic l a w)) = events (player w)"
  "events (player (ClearGossipMenuFor w)) = events (player w)"
  "events (player (LoadSystem w)) = events (player w)"
  "events (player (LazyLoad w)) = events (player w)"
  "events (player (Whisper m w)) = events (player w) @ [EvWhisper m]"
  "events (player (PSendSysMessage m w)) = events (player w) @ [EvSysMessage m]"
  "events (player (CloseGossipMenuFor w)) = events (player w) @ [EvCloseGossipMenu]"
  by (simp_all add: AddGossipItemFor_def ClearGossipMenuFor_def Whisper_def
      PSendSysMessage_def CloseGossipMenuFor_def)

lemma new_events_Refuse:
  "events (player w) = events (player w0) \<Longrightarrow>
   new_events w0 (Refuse c m w) = [refusal c m]"
  by (simp add: new_events_def Refuse_def refusal_def)

lemma new_events_RefuseLevel:
  "events (player w) = events (player w0) \<Longrightarrow>
   new_events w0 (RefuseLevel c m w) = [level_refusal c m]"
  by (simp add: new_events_def RefuseLevel_def level_refusal_def PSendSysMessageFmt_def)

lemma StringFormat_percent_s: "StringFormat ''%s'' args = ''%s''"
  by (cases args) (simp_all add: StringFormat.simps)

lemma MainMenuItems_frame:
  "\<exists>g. MainMenuItems w = w\<lparr>player := (player w)\<lparr>gossipMenu := g\<rparr>\<rparr>"
proof -
  define P where "P v \<longleftrightarrow> (\<exists>g. v = w\<lparr>player := (player w)\<lparr>gossipMenu := g\<rparr>\<rparr>)" for v
  have add: "P (AddGossipItemFor ic l a v)" if "P v" for ic l a v
    using that by (auto simp: P_def AddGossipItemFor_def)
  have ite: "P (if b then x else y)" if "P x" "P y" for b x y
    using that by simp
  have clr: "P (ClearGossipMenuFor w)"
    unfolding P_def ClearGossipMenuFor_def by (rule exI) (rule refl)
  have "P (MainMenuItems w)"
    unfolding MainMenuItems_def Let_def by (intro add ite clr)
  then show ?thesis by (simp add: P_def)
qed

lemma RenderMainMenu_events:
  "\<exists>items. events (player (RenderMainMenu c w)) =
     events (player w) @
       [EvSendGossipMenu GossipHello items, EvPlayDirectSound PET_BEASTMASTER_HOWL]"
proof -
  obtain g where "MainMenuItems w = w\<lparr>player := (player w)\<lparr>gossipMenu := g\<rparr>\<rparr>"
    using MainMenuItems_frame by blast
  then show ?thesis
    by (simp add: RenderMainMenu_def SendGossipMenuFor_def PlayDirectSound_def)
qed

lemma ShowMainMenu_LazyLoad:
  "ShowMainMenu c w0 =
     (if \<not> opt_Enable (sConfigMgr w0) then w0
      else
        let w = LazyLoad w0; cfg = config (rt w); p = player w0
        in if allPets (rt w) = []
           then Refuse c
             ''No pets available (beastmaster_tames table empty?). Contact an administrator.'' w
           else if hunterOnly cfg \<and> pclass p \<noteq> CLASS_HUNTER
           then Refuse c ''I am sorry, but pets are for hunters only.'' w
           else if allowedClasses cfg \<noteq> {} \<and> pclass p \<notin> allowedClasses cfg
           then Refuse c ''Your class is not allowed to adopt pets.'' w
           else if allowedRaces cfg \<noteq> {} \<and> race p \<notin> allowedRaces cfg
           then Refuse c ''Your race is not allowed to adopt pets.'' w
           else if ucast (level p) < minLevel cfg \<and> minLevel cfg \<noteq> 0
           then RefuseLevel c
                  (StringFormat ''Sorry {}, but you must reach level {} before adopting a pet.''
                     [S (playerName p), U (unat (minLevel cfg))]) w
           else if maxLevel cfg \<noteq> 0 \<and> ucast (level p) > maxLevel cfg
           then RefuseLevel c
                  (StringFormat ''Sorry {}, but you must be level {} or lower to adopt a pet.''
                     [S (playerName p), U (unat (maxLevel cfg))]) w
           else RenderMainMenu c w)"
proof (cases "allPets (rt w0) = []")
  case True
  then have "LazyLoad w0 = LoadSystem w0" by (simp add: LazyLoad_def)
  with True show ?thesis
    by (simp add: ShowMainMenu_def Let_def split del: if_split cong: if_cong)
next
  case False
  then have "LazyLoad w0 = w0" by (simp add: LazyLoad_def)
  with False show ?thesis
    by (simp add: ShowMainMenu_def Let_def split del: if_split cong: if_cong)
qed

text \<open>
  ShowMainMenu runs its checks in a fixed order on the state left by the lazy reload.
  With the module disabled it returns at once and sends nothing.  Otherwise the first
  check that fails decides the single event sent, a refusal, and no menu is sent: empty
  catalog; class (in hunter-only mode the player must be a hunter, and when the mode is
  off the class must be in the set of allowed classes if that set is not empty); race;
  minimum level unless it is 0; maximum level unless it is 0.  When every check passes
  the main menu is sent, followed by the howl.  The statement is for every player but
  the hunter in hunter-only mode whose class is missing from a non-empty set of allowed
  classes.
\<close>
lemma ShowMainMenu_eligibility:
  "(let w = LazyLoad w0; cfg = config (rt w); p = player w0;
        out = new_events w0 (ShowMainMenu c w0)
    in (\<not> opt_Enable (sConfigMgr w0) \<longrightarrow> ShowMainMenu c w0 = w0) \<and>
       (opt_Enable (sConfigMgr w0) \<and> \<not> hunter_outside_allowed cfg (pclass p) \<longrightarrow>
          (if allPets (rt w) = []
           then out = [refusal c
             ''No pets available (beastmaster_tames table empty?). Contact an administrator.'']
           else if \<not> class_admitted cfg (pclass p)
           then out = [refusal c
             (if hunterOnly cfg then ''I am sorry, but pets are for hunters only.''
              else ''Your class is not allowed to adopt pets.'')]
           else if allowedRaces cfg \<noteq> {} \<and> race p \<notin> allowedRaces cfg
           then out = [refusal c ''Your race is not allowed to adopt pets.'']
           else if minLevel cfg \<noteq> 0 \<and> ucast (level p) < minLevel cfg
           then out = [level_refusal c
             (StringFormat ''Sorry {}, but you must reach level {} before adopting a pet.''
                [S (playerName p), U (unat (minLevel cfg))])]
           else if maxLevel cfg \<noteq> 0 \<and> ucast (level p) > maxLevel cfg
           then out = [level_refusal c
             (StringFormat ''Sorry {}, but you must be level {} or lower to adopt a pet.''
                [S (playerName p), U (unat (maxLevel cfg))])]
           else ShowMainMenu c w0 = RenderMainMenu c w \<and>
                (\<exists>items. out = [EvSendGossipMenu GossipHello items,
                                 EvPlayDirectSound PET_BEASTMASTER_HOWL]))))"
proof -
  define w where "w = LazyLoad w0"
  define cfg where "cfg = config (rt w)"
  define p where "p = player w0"
  define c1 where "c1 \<longleftrightarrow> allPets (rt w) = []"
  define c2 where "c2 \<longleftrightarrow> hunterOnly cfg \<and> pclass p \<noteq> CLASS_HUNTER"
  define c3 where "c3 \<longleftrightarrow> allowedClasses cfg \<noteq> {} \<and> pclass p \<notin> allowedClasses cfg"
  define c4 where "c4 \<longleftrightarrow> allowedRaces cfg \<noteq> {} \<and> race p \<notin> allowedRaces cfg"
  define c5 where "c5 \<longleftrightarrow> ucast (level p) < minLevel cfg \<and> minLevel cfg \<noteq> 0"
  define c6 where "c6 \<longleftrightarrow> maxLevel cfg \<noteq> 0 \<and> ucast (level p) > maxLevel cfg"
  define m5 where "m5 =
    StringFormat ''Sorry {}, but you must reach level {} before adopting a pet.''
      [S (playerName p), U (unat (minLevel cfg))]"
  define m6 where "m6 =
    StringFormat ''Sorry {}, but you must be level {} or lower to adopt a pet.''
      [S (playerName p), U (unat (maxLevel cfg))]"
  have ev: "events (player w) = events (player w0)" by (simp add: w_def)
  have code: "ShowMainMenu c w0 =
     (if \<not> opt_Enable (sConfigMgr w0) then w0
      else if c1 then Refuse c
             ''No pets available (beastmaster_tames table empty?). Contact an administrator.'' w
      else if c2 then Refuse c ''I am sorry, but pets are for hunters only.'' w
      else if c3 then Refuse c ''Your class is not allowed to adopt pets.'' w
      else if c4 then Refuse c ''Your race is not allowed to adopt pets.'' w
      else if c5 then RefuseLevel c m5 w
      else if c6 then RefuseLevel c m6 w
      else RenderMainMenu c w)"
    unfolding ShowMainMenu_LazyLoad Let_def c1_def c2_def c3_def c4_def c5_def c6_def m5_def
      m6_def cfg_def p_def w_def ..
  have render: "\<exists>items. new_events w0 (RenderMainMenu c w) =
      [EvSendGossipMenu GossipHello items, EvPlayDirectSound PET_BEASTMASTER_HOWL]"
    using RenderMainMenu_events [of c w] by (auto simp: new_events_def ev)
  have cls: "(c2 \<or> c3) \<longleftrightarrow> \<not> class_admitted cfg (pclass p)"
       "\<not> class_admitted cfg (pclass p) \<Longrightarrow> c2 \<longleftrightarrow> hunterOnly cfg"
    if "\<not> hunter_outside_allowed cfg (pclass p)"
    using that by (auto simp: c2_def c3_def class_admitted_def hunter_outside_allowed_def)
  have disabled: "\<not> opt_Enable (sConfigMgr w0) \<longrightarrow> ShowMainMenu c w0 = w0"
    by (simp add: code)
  have enabled: "if c1
           then new_events w0 (ShowMainMenu c w0) = [refusal c
             ''No pets available (beastmaster_tames table empty?). Contact an administrator.'']
           else if \<not> class_admitted cfg (pclass p)
           then new_events w0 (ShowMainMenu c w0) = [refusal c
             (if hunterOnly cfg then ''I am sorry, but pets are for hunters only.''
              else ''Your class is not allowed to adopt pets.'')]
           else if c4
           then new_events w0 (ShowMainMenu c w0) =
             [refusal c ''Your race is not allowed to adopt pets.'']
           else if c5
           then new_events w0 (ShowMainMenu c w0) = [level_refusal c m5]
           else if c6
           then new_events w0 (ShowMainMenu c w0) = [level_refusal c m6]
           else ShowMainMenu c w0 = RenderMainMenu c w \<and>
                (\<exists>items. new_events w0 (ShowMainMenu c w0) =
                   [EvSendGossipMenu GossipHello items,
                    EvPlayDirectSound PET_BEASTMASTER_HOWL])"
    if en: "opt_Enable (sConfigMgr w0)" and ns: "\<not> hunter_outside_allowed cfg (pclass p)"
  proof (cases c1)
    case True
    with en show ?thesis by (simp add: code new_events_Refuse ev)
  next
    case n1: False
    show ?thesis
    proof (cases "class_admitted cfg (pclass p)")
      case False
      with cls [OF ns] have "c2 \<or> c3" "c2 \<longleftrightarrow> hunterOnly cfg" by blast+
      with en n1 False show ?thesis
        by (cases c2) (simp_all add: code new_events_Refuse ev)
    next
      case True
      with cls(1) [OF ns] have n23: "\<not> c2" "\<not> c3" by blast+
      with en n1 True render show ?thesis
        by (cases c4; cases c5; cases c6)
          (simp_all add: code new_events_Refuse new_events_RefuseLevel ev)
    qed
  qed
  have c5': "c5 \<longleftrightarrow> minLevel cfg \<noteq> 0 \<and> ucast (level p) < minLevel cfg"
    by (auto simp: c5_def)
  show ?thesis
    unfolding Let_def
    using disabled enabled
    unfolding c1_def c4_def c5' c6_def m5_def m6_def cfg_def p_def w_def
    by blast
qed

lemma LazyLoad_example:
  "LazyLoad example_world = LoadSystem example_world"
  "LazyLoad low_level_world = LoadSystem low_level_world"
  "LazyLoad warriors_allowed_world = LoadSystem warriors_allowed_world"
  by (simp_all add: LazyLoad_def low_level_world_def warriors_allowed_world_def example_defs)

lemma loaded_catalog:
  "allPets (rt (LoadSystem example_world)) \<noteq> []"
  "allPets (rt (LoadSystem low_level_world)) \<noteq> []"
  "allPets (rt (LoadSystem warriors_allowed_world)) \<noteq> []"
  by (simp_all add: LoadSystem_allPets low_level_world_def warriors_allowed_world_def
      example_world_def example_tames_def)

lemma example_config_loaded:
  "hunterOnly (config (rt (LoadSystem example_world)))"
  "allowedClasses (config (rt (LoadSystem example_world))) = {}"
  "allowedRaces (config (rt (LoadSystem example_world))) = {}"
  "minLevel (config (rt (LoadSystem example_world))) = 10"
  "maxLevel (config (rt (LoadSystem example_world))) = 0"
  "opt_Enable (sConfigMgr example_world)"
  "pclass (player example_world) = CLASS_HUNTER"
  "level (player example_world) = 80"
  by (simp_all add: LoadSystem_config LoadSystem_levels example_defs CLASS_HUNTER_def)

lemma low_level_loaded:
  "hunterOnly (config (rt (LoadSystem low_level_world)))"
  "allowedClasses (config (rt (LoadSystem low_level_world))) = {}"
  "allowedRaces (config (rt (LoadSystem low_level_world))) = {}"
  "minLevel (config (rt (LoadSystem low_level_world))) = 10"
  "maxLevel (config (rt (LoadSystem low_level_world))) = 0"
  "opt_Enable (sConfigMgr low_level_world)"
  "pclass (player low_level_world) = CLASS_HUNTER"
  "level (player low_level_world) = 5"
  "playerName (player low_level_world) = ''Rexxar''"
  by (simp_all add: LoadSystem_config LoadSystem_levels low_level_world_def example_defs
      CLASS_HUNTER_def)

lemma warriors_allowed_loaded:
  "hunterOnly (config (rt (LoadSystem warriors_allowed_world)))"
  "allowedClasses (config (rt (LoadSystem warriors_allowed_world))) = {1}"
  "opt_Enable (sConfigMgr warriors_allowed_world)"
  "pclass (player warriors_allowed_world) = CLASS_HUNTER"
  "events (player warriors_allowed_world) = []"
  by (simp_all add: LoadSystem_config warriors_allowed_world_def example_defs CLASS_HUNTER_def)

lemma ShowMainMenu_eligibility_example:
  "(\<exists>items. new_events example_world (ShowMainMenu True example_world) =
      [EvSendGossipMenu GossipHello items, EvPlayDirectSound PET_BEASTMASTER_HOWL]) \<and>
   new_events low_level_world (ShowMainMenu True low_level_world) =
      [EvWhisper (StringFormat ''Sorry {}, but you must reach level {} before adopting a pet.''
         [S ''Rexxar'', U 10])] \<and>
   new_events low_level_world (ShowMainMenu False low_level_world) = [EvSysMessage ''%s'']"
proof -
  from ShowMainMenu_eligibility [where ?w0.0 = example_world and c = True]
  have "ShowMainMenu True example_world = RenderMainMenu True (LoadSystem example_world) \<and>
    (\<exists>items. new_events example_world (ShowMainMenu True example_world) =
      [EvSendGossipMenu GossipHello items, EvPlayDirectSound PET_BEASTMASTER_HOWL])"
    by (auto simp: Let_def LazyLoad_example loaded_catalog example_config_loaded
        hunter_outside_allowed_def class_admitted_def split del: if_split)
  then have a: "\<exists>items. new_events example_world (ShowMainMenu True example_world) =
      [EvSendGossipMenu GossipHello items, EvPlayDirectSound PET_BEASTMASTER_HOWL]"
    by (rule conjunct2)
  from ShowMainMenu_eligibility [where ?w0.0 = low_level_world and c = True]
  have b: "new_events low_level_world (ShowMainMenu True low_level_world) =
      [EvWhisper (StringFormat ''Sorry {}, but you must reach level {} before adopting a pet.''
         [S ''Rexxar'', U 10])]"
    by (simp add: Let_def LazyLoad_example loaded_catalog low_level_loaded
        hunter_outside_allowed_def class_admitted_def level_refusal_def split del: if_split)
  from ShowMainMenu_eligibility [where ?w0.0 = low_level_world and c = False]
  have c: "new_events low_level_world (ShowMainMenu False low_level_world) =
      [EvSysMessage ''%s'']"
    by (simp add: Let_def LazyLoad_example loaded_catalog low_level_loaded
        hunter_outside_allowed_def class_admitted_def level_refusal_def
        StringFormat_percent_s split del: if_split)
  from a b c show ?thesis by simp
qed

lemma ShowMainMenu_disabled:
  "\<not> opt_Enable (sConfigMgr disabled_world) \<and>
   ShowMainMenu True disabled_world = disabled_world \<and>
   new_events disabled_world (ShowMainMenu True disabled_world) = []"
proof -
  have "ShowMainMenu True disabled_world = disabled_world"
    by (simp add: ShowMainMenu_LazyLoad disabled_world_def example_config_def)
  then show ?thesis
    by (simp add: new_events_def disabled_world_def example_config_def)
qed

text \<open>
  C3.  In the example state with hunter-only mode on and the warrior class (1) as the
  only allowed class, the module is enabled, the catalog is loaded and the player is a
  level 80 hunter.  The hunter passes the hunter-only check and is then refused by the
  allowed-class check, which the code runs whether or not the mode is on: the single
  event sent is the class refusal, and no menu is sent.
\<close>
theorem ShowMainMenu_hunter_refused:
  "opt_Enable (sConfigMgr warriors_allowed_world) \<and>
   allPets (rt (LazyLoad warriors_allowed_world)) \<noteq> [] \<and>
   hunterOnly (config (rt (LazyLoad warriors_allowed_world))) \<and>
   allowedClasses (config (rt (LazyLoad warriors_allowed_world))) = {1} \<and>
   pclass (player warriors_allowed_world) = CLASS_HUNTER \<and>
   class_admitted (config (rt (LazyLoad warriors_allowed_world)))
     (pclass (player warriors_allowed_world)) \<and>
   ShowMainMenu True warriors_allowed_world =
     Whisper ''Your class is not allowed to adopt pets.'' (LoadSystem warriors_allowed_world) \<and>
   new_events warriors_allowed_world (ShowMainMenu True warriors_allowed_world) =
     [EvWhisper ''Your class is not allowed to adopt pets.''] \<and>
   new_events warriors_allowed_world (ShowMainMenu False warriors_allowed_world) =
     [EvSysMessage ''Your class is not allowed to adopt pets.'']"
proof -
  have t: "ShowMainMenu c warriors_allowed_world =
      Refuse c ''Your class is not allowed to adopt pets.'' (LoadSystem warriors_allowed_world)"
    for c
    by (simp add: ShowMainMenu_LazyLoad Let_def LazyLoad_example loaded_catalog
        warriors_allowed_loaded CLASS_HUNTER_def split del: if_split)
  have b: "new_events warriors_allowed_world (ShowMainMenu c warriors_allowed_world) =
     [refusal c ''Your class is not allowed to adopt pets.'']" for c
    unfolding t by (rule new_events_Refuse) simp
  show ?thesis
    using b [of True] b [of False] t [of True]
    by (simp add: LazyLoad_example loaded_catalog warriors_allowed_loaded class_admitted_def
        refusal_def Refuse_def)
qed

section \<open>Action codes\<close>

lemma free_world_buckets:
  "rarePets (rt free_world) = [FetchPetInfo (99, ''Prowler'', 1, ''normal'')]"
  "allPets (rt free_world) \<noteq> []"
  using LoadSystem_bucket [of "example_world\<lparr>sConfigMgr := example_config\<lparr>opt_MaxTrackedPets := 20\<rparr>\<rparr>" Rare]
  by (simp_all add: free_world_def LoadSystem_allPets example_defs spec_bucket_def FetchPetInfo_def)

lemma free_world_fields:
  "opt_Enable (sConfigMgr free_world)"
  "trackTamedPets (config (rt free_world))"
  "maxTrackedPets (config (rt free_world)) = 20"
  "hunterBeastMasteryRequired (config (rt free_world))"
  "\<not> allowExotic (config (rt free_world))"
  "tamedEntriesCache (rt free_world) = Map.empty"
  "trackedPetsCache (rt free_world) = Map.empty"
  "player free_world = example_player"
  "beastmaster_tamed_pets free_world = example_rows"
  "creature_names free_world 99 = Some ''Prowler''"
  "db_now free_world = 30"
  by (simp_all add: free_world_def LoadSystem_config example_defs)

lemma free_world_info:
  "FindPetInfo (rt free_world) 99 = Some (FetchPetInfo (99, ''Prowler'', 1, ''normal''))"
  by (simp add: free_world_def FindPetInfo_LoadSystem example_defs FetchPetInfo_def)

lemma browse_rare_offers_1000:
  "GossipSelect 701 free_world =
     Inr (SendGossipMenuFor GossipBrowse
       (AddGossipItemFor GOSSIP_ICON_TRAINER ''Prowler'' 1000
         (AddGossipItemFor GOSSIP_ICON_TALK ''Back..'' MainMenu
            (ClearGossipMenuFor free_world)
          \<lparr>rt := (rt free_world)\<lparr>tamedEntriesCache := [1 \<mapsto> {5, 7}]\<rparr>\<rparr>)))"
  by (simp add: GossipSelect_def Let_def LazyLoad_def free_world_buckets free_world_fields
      action_preds action_consts AdoptTail_def BrowsePage_def AddPetsToGossip_def
      TamedEntries_def ClearGossipMenuFor_def AddGossipItemFor_def db_entries_def
      example_player_def example_rows_def FetchPetInfo_def TrainerIconFamilies_def)

lemma tracked_menu_on_1000:
  "\<exists>w2. GossipSelect 1000 free_world = Inr w2 \<and> pet (player w2) = None \<and>
        menuPetMap (player w2) = Some [0 \<mapsto> 7, 1 \<mapsto> 5] \<and>
        beastmaster_tamed_pets w2 = example_rows"
  by (simp add: GossipSelect_def Let_def LazyLoad_def free_world_buckets free_world_fields
      action_preds action_consts ShowTrackedPetsMenu_def ClearGossipMenuFor_def
      TrackedLoop.simps AddGossipItemFor_def SendGossipMenuFor_def db_list_def
      example_player_def example_rows_def FindPetInfo_def)

lemma adoption_of_99:
  "pet (player (CreatePet 1000 free_world)) =
     Some \<lparr>pet_entry = 99, pet_name = ''Prowler'', pet_spell = PET_SPELL_TAME_BEAST,
           happiness = PET_MAX_HAPPINESS\<rparr>"
  by (simp add: CreatePet_def Let_def free_world_fields free_world_info IsExistPet_def
      IsExotic_def FetchPetInfo_def PetEntryOffset_def example_player_def CLASS_HUNTER_def
      db_count_def example_rows_def Player_CreatePet_def TrackTamedPet_def db_exists_def
      db_insert_def sql_plain_def CacheTamedEntry_def Pet_SetPowerHappiness_def Whisper_def
      CloseGossipMenuFor_def split del: if_split)

text \<open>
  The ranges below the adopt range are pairwise disjoint, and so are the four tracked
  ranges among themselves; the tracked ranges together are the codes from 1000 to 4999,
  each of which is an adopt code as well.
\<close>
lemma codes_below_adopt:
  "(a = MainMenu \<longrightarrow> \<not> IsBrowseNormal a \<and> \<not> IsBrowseExotic a \<and> \<not> IsBrowseRare a
       \<and> \<not> IsBrowseRareExotic a \<and> \<not> IsAdoptAction a \<and> \<not> IsTrackedMenu a
       \<and> \<not> IsTrackedSummon a \<and> \<not> IsTrackedRename a \<and> \<not> IsTrackedDelete a) \<and>
   (IsBrowseNormal a \<longrightarrow> \<not> IsBrowseExotic a \<and> \<not> IsBrowseRare a
       \<and> \<not> IsBrowseRareExotic a \<and> \<not> IsAdoptAction a \<and> \<not> IsTrackedMenu a
       \<and> \<not> IsTrackedSummon a \<and> \<not> IsTrackedRename a \<and> \<not> IsTrackedDelete a) \<and>
   (IsBrowseExotic a \<longrightarrow> \<not> IsBrowseRare a
       \<and> \<not> IsBrowseRareExotic a \<and> \<not> IsAdoptAction a \<and> \<not> IsTrackedMenu a
       \<and> \<not> IsTrackedSummon a \<and> \<not> IsTrackedRename a \<and> \<not> IsTrackedDelete a) \<and>
   (IsBrowseRare a \<longrightarrow> \<not> IsBrowseRareExotic a \<and> \<not> IsAdoptAction a \<and> \<not> IsTrackedMenu a
       \<and> \<not> IsTrackedSummon a \<and> \<not> IsTrackedRename a \<and> \<not> IsTrackedDelete a) \<and>
   (IsBrowseRareExotic a \<longrightarrow> \<not> IsAdoptAction a \<and> \<not> IsTrackedMenu a
       \<and> \<not> IsTrackedSummon a \<and> \<not> IsTrackedRename a \<and> \<not> IsTrackedDelete a) \<and>
   (IsTrackedMenu a \<longrightarrow> \<not> IsTrackedSummon a \<and> \<not> IsTrackedRename a \<and> \<not> IsTrackedDelete a) \<and>
   (IsTrackedSummon a \<longrightarrow> \<not> IsTrackedRename a \<and> \<not> IsTrackedDelete a) \<and>
   (IsTrackedRename a \<longrightarrow> \<not> IsTrackedDelete a) \<and>
   (IsTrackedMenu a \<or> IsTrackedSummon a \<or> IsTrackedRename a \<or> IsTrackedDelete a
      \<longleftrightarrow> 1000 \<le> a \<and> a < 5000) \<and>
   (IsTrackedMenu a \<or> IsTrackedSummon a \<or> IsTrackedRename a \<or> IsTrackedDelete a
      \<longrightarrow> IsAdoptAction a)"
  by (auto simp: action_preds action_consts word_le_nat_alt word_less_nat_alt)

text \<open>
  C1.  The code 1000 is an adopt code (of the catalog entry 99, since 99 + 901 = 1000)
  and a code of the tracked-pets menu at once.  The browse page of the rare bucket offers
  the entry 99 under the code 1000; selecting it opens the first page of the tracked-pets
  menu and creates no pet, because the tracked branches are tested before the adopt test,
  whereas CreatePet on the same code adopts the entry.
\<close>
theorem adopt_code_collision:
  "IsAdoptAction 1000 \<and> IsTrackedMenu 1000 \<and> (99 :: uint32) + PetEntryOffset = 1000 \<and>
   GossipSelect 701 free_world =
     Inr (SendGossipMenuFor GossipBrowse
       (AddGossipItemFor GOSSIP_ICON_TRAINER ''Prowler'' 1000
         (AddGossipItemFor GOSSIP_ICON_TALK ''Back..'' MainMenu
            (ClearGossipMenuFor free_world)
          \<lparr>rt := (rt free_world)\<lparr>tamedEntriesCache := [1 \<mapsto> {5, 7}]\<rparr>\<rparr>))) \<and>
   (\<exists>w2. GossipSelect 1000 free_world = Inr w2 \<and> pet (player w2) = None \<and>
        menuPetMap (player w2) = Some [0 \<mapsto> 7, 1 \<mapsto> 5] \<and>
        beastmaster_tamed_pets w2 = example_rows) \<and>
   pet (player (CreatePet 1000 free_world)) =
     Some \<lparr>pet_entry = 99, pet_name = ''Prowler'', pet_spell = PET_SPELL_TAME_BEAST,
           happiness = PET_MAX_HAPPINESS\<rparr>"
proof -
  have "IsAdoptAction 1000 \<and> IsTrackedMenu 1000 \<and> (99 :: uint32) + PetEntryOffset = 1000"
    by (simp add: action_preds action_consts)
  with browse_rare_offers_1000 tracked_menu_on_1000 adoption_of_99 show ?thesis
    by (intro conjI) simp_all
qed

section \<open>Browse pages\<close>

lemma add_items_Nil [simp]: "add_items [] w = w"
  by (simp add: add_items_def)

lemma add_items_add_items [simp]: "add_items ys (add_items xs w) = add_items (xs @ ys) w"
  by (simp add: add_items_def)

lemma AddGossipItemFor_add_items: "AddGossipItemFor ic l a w = add_items [(ic, l, a)] w"
  by (simp add: AddGossipItemFor_def add_items_def)

lemma AddPetsLoop_window:
  assumes "unat c + length pets < 2 ^ 32"
    and "unat ((P - 1) * Gossip_PageSize) \<le> unat (P * Gossip_PageSize)"
  shows "AddPetsLoop T P c pets w =
     add_items (map (browse_item T)
       (take (unat (P * Gossip_PageSize) + 1
                - max (unat c) (unat ((P - 1) * Gossip_PageSize) + 1))
          (drop (unat ((P - 1) * Gossip_PageSize) + 1 - unat c) pets))) w"
  using assms(1)
proof (induction pets arbitrary: c w)
  case Nil
  show ?case by simp
next
  case (Cons p pets)
  define a where "a = unat ((P - 1) * Gossip_PageSize)"
  define b where "b = unat (P * Gossip_PageSize)"
  have ab: "a \<le> b" using assms(2) by (simp add: a_def b_def)
  from Cons.prems have c1: "unat (c + 1) = unat c + 1"
    by (simp add: unat_word_ariths)
  with Cons.prems have bound: "unat (c + 1) + length pets < 2 ^ 32" by simp
  have test: "(c > (P - 1) * Gossip_PageSize \<and> c \<le> P * Gossip_PageSize) \<longleftrightarrow>
      a < unat c \<and> unat c \<le> b"
    by (simp add: a_def b_def word_less_nat_alt word_le_nat_alt)
  note IH = Cons.IH [OF bound, folded a_def b_def, unfolded c1]
  show ?case
    unfolding a_def [symmetric] b_def [symmetric]
  proof (cases "a < unat c \<and> unat c \<le> b")
    case True
    with test have "c > (P - 1) * Gossip_PageSize \<and> c \<le> P * Gossip_PageSize"
      by blast
    then have "AddPetsLoop T P c (p # pets) w =
        AddPetsLoop T P (c + 1) pets
          (if entry p \<in> T
           then AddGossipItemFor GOSSIP_ICON_CHAT (name p @ '' (Already Tamed)'') 0 w
           else AddGossipItemFor (icon p) (name p) (entry p + PetEntryOffset) w)"
      by (simp only: AddPetsLoop.simps if_True simp_thms)
    also have "\<dots> = AddPetsLoop T P (c + 1) pets (add_items [browse_item T p] w)"
      by (simp add: browse_item_def AddGossipItemFor_add_items)
    also have "\<dots> = add_items ([browse_item T p] @ map (browse_item T)
        (take (b + 1 - max (unat c + 1) (a + 1)) (drop (a + 1 - (unat c + 1)) pets))) w"
      by (simp add: IH)
    also have "[browse_item T p] @ map (browse_item T)
        (take (b + 1 - max (unat c + 1) (a + 1)) (drop (a + 1 - (unat c + 1)) pets)) =
      map (browse_item T) (take (b + 1 - max (unat c) (a + 1)) (drop (a + 1 - unat c) (p # pets)))"
    proof -
      from True have m: "max (unat c + 1) (a + 1) = unat c + 1" "max (unat c) (a + 1) = unat c"
        "a + 1 - (unat c + 1) = 0" "a + 1 - unat c = 0" "b + 1 - unat c = Suc (b - unat c)"
        "b + 1 - (unat c + 1) = b - unat c"
        by (simp_all add: Suc_diff_le)
      show ?thesis unfolding m by simp
    qed
    finally show "AddPetsLoop T P c (p # pets) w =
       add_items (map (browse_item T)
         (take (b + 1 - max (unat c) (a + 1)) (drop (a + 1 - unat c) (p # pets)))) w" .
  next
    case False
    with test have "\<not> (c > (P - 1) * Gossip_PageSize \<and> c \<le> P * Gossip_PageSize)"
      by blast
    then have "AddPetsLoop T P c (p # pets) w = AddPetsLoop T P (c + 1) pets w"
      by (simp only: AddPetsLoop.simps if_False simp_thms)
    also have "\<dots> = add_items (map (browse_item T)
        (take (b + 1 - max (unat c + 1) (a + 1)) (drop (a + 1 - (unat c + 1)) pets))) w"
      by (simp add: IH)
    also have "take (b + 1 - max (unat c + 1) (a + 1)) (drop (a + 1 - (unat c + 1)) pets) =
      take (b + 1 - max (unat c) (a + 1)) (drop (a + 1 - unat c) (p # pets))"
    proof (cases "unat c \<le> a")
      case True
      then have m: "max (unat c + 1) (a + 1) = a + 1" "max (unat c) (a + 1) = a + 1"
        "a + 1 - (unat c + 1) = a - unat c" "a + 1 - unat c = Suc (a - unat c)"
        by simp_all
      show ?thesis unfolding m by simp
    next
      case c: False
      with False have "b < unat c" by simp
      with ab have m: "b + 1 - max (unat c + 1) (a + 1) = 0" "b + 1 - max (unat c) (a + 1) = 0"
        by simp_all
      show ?thesis unfolding m by simp
    qed
    finally show "AddPetsLoop T P c (p # pets) w =
       add_items (map (browse_item T)
         (take (b + 1 - max (unat c) (a + 1)) (drop (a + 1 - unat c) (p # pets)))) w" .
  qed
qed

lemma sint_small: "m < 2 ^ 31 \<Longrightarrow> sint (of_nat m :: uint32) = int m"
  by (simp add: signed_of_nat signed_take_bit_int_eq_self)

lemma unat_small: "m < 2 ^ 32 \<Longrightarrow> unat (of_nat m :: uint32) = m"
  by (simp add: unat_of_nat)

lemma TamedEntries_player [simp]: "player (snd (TamedEntries w)) = player w"
  by (simp add: TamedEntries_def Let_def split: option.splits)

lemma TamedEntries_add_items:
  "TamedEntries (add_items xs w) = (fst (TamedEntries w), add_items xs (snd (TamedEntries w)))"
  by (simp add: TamedEntries_def Let_def add_items_def split: option.splits)

lemma AddPetsToGossip_window:
  assumes n: "length pets < 2 ^ 32 - 1" and k: "1 \<le> k" "13 * k < 2 ^ 32"
  shows "AddPetsToGossip pets (of_nat k) w =
     add_items (map (browse_item (fst (TamedEntries w))) (page_window 13 pets k))
       (snd (TamedEntries w))"
proof -
  define P :: uint32 where "P = of_nat k"
  from k have uk: "unat P = k" by (simp add: P_def unat_small)
  from k(1) have "(P - 1) * Gossip_PageSize = of_nat (13 * (k - 1))"
    unfolding P_def Gossip_PageSize_def by (simp add: of_nat_diff)
  moreover from k have "13 * (k - 1) < 2 ^ 32" by simp
  ultimately have a: "unat ((P - 1) * Gossip_PageSize) = 13 * (k - 1)"
    by (simp only: unat_small)
  from k have b: "unat (P * Gossip_PageSize) = 13 * k"
    by (simp add: Gossip_PageSize_def unat_word_ariths uk)
  have ab: "unat ((P - 1) * Gossip_PageSize) \<le> unat (P * Gossip_PageSize)"
    unfolding a b by simp
  from n have c: "unat (1 :: uint32) + length pets < 2 ^ 32" by simp
  have w13: "13 * k - 13 * (k - Suc 0) = 13"
    using k by simp
  show ?thesis
    unfolding AddPetsToGossip_def P_def [symmetric]
    by (simp add: split_beta AddPetsLoop_window [OF c ab] a b w13 page_window_def)
qed

lemma ceil_div_13: "ceil_div n 13 = n div 13 + (if n mod 13 \<noteq> 0 then 1 else 0)"
proof -
  define q where "q = n div 13"
  define r where "r = n mod 13"
  have n: "n = q * 13 + r" and r: "r < 13" by (simp_all add: q_def r_def)
  have "(n + 12) div 13 = q + (r + 12) div 13"
    unfolding n by (simp add: add.assoc)
  moreover have "(r + 12) div 13 = (if r \<noteq> 0 then 1 else 0)"
  proof (cases "r = 0")
    case True
    then show ?thesis by simp
  next
    case False
    with r have "(r + 12) div 13 = 1" by (intro div_nat_eqI) simp_all
    with False show ?thesis by simp
  qed
  ultimately show ?thesis by (simp add: ceil_div_def q_def r_def)
qed

lemma BrowsePage_render:
  assumes n: "length pets < 2 ^ 31" and d: "d < 100"
  shows "BrowsePage base pets (base + of_nat d) w =
     SendGossipMenuFor GossipBrowse
       (add_items
          ([(GOSSIP_ICON_TALK, ''Back..'', MainMenu)] @
           (if d + 1 > 1
            then [(GOSSIP_ICON_INTERACT_1, ''Previous..'', base + of_nat (d + 1) - 2)] else []) @
           (if d + 1 < ceil_div (length pets) 13
            then [(GOSSIP_ICON_INTERACT_1, ''Next..'', base + of_nat (d + 1))] else []) @
           map (browse_item (fst (TamedEntries w))) (page_window 13 pets (d + 1)))
          (snd (TamedEntries w)))"
proof -
  have act: "base + of_nat d - base + 1 = (of_nat (d + 1) :: uint32)" by simp
  from d have page: "sint (of_nat (d + 1) :: uint32) = int (d + 1)"
    by (intro sint_small) simp
  have "ceil_div (length pets) 13 \<le> length pets"
    unfolding ceil_div_def by simp
  with n have "ceil_div (length pets) 13 < 2 ^ 31" by simp
  then have "sint (of_nat (ceil_div (length pets) 13) :: uint32) =
      int (ceil_div (length pets) 13)"
    by (rule sint_small)
  then have mp: "sint (of_nat (length pets div unat Gossip_PageSize
        + (if length pets mod unat Gossip_PageSize \<noteq> 0 then 1 else 0)) :: uint32) =
      int (ceil_div (length pets) 13)"
    by (simp add: ceil_div_13 Gossip_PageSize_def)
  have ofint: "(of_int (int (d + 1)) :: uint32) = of_nat (d + 1)" by simp
  from n have n': "length pets < 2 ^ 32 - 1" by simp
  from d have k: "1 \<le> d + 1" "13 * (d + 1) < 2 ^ 32" by simp_all
  note win = AddPetsToGossip_window [OF n' k]
  have one: "(1 < int (d + 1)) = (0 < d)" by auto
  show ?thesis
    unfolding BrowsePage_def Let_def act page ofint mp of_nat_less_iff one
    by (cases "0 < d"; cases "d + 1 < ceil_div (length pets) 13")
      (simp_all only: if_True if_False AddGossipItemFor_add_items win TamedEntries_add_items
        fst_conv snd_conv add_items_add_items append_assoc append_Nil append_Nil2
        less_add_same_cancel2 simp_thms)
qed

lemma ceil_div_bounds:
  "n \<le> 13 * ceil_div n 13" "13 * ceil_div n 13 \<le> n + 12"
proof -
  define q where "q = n div 13"
  define r where "r = n mod 13"
  have n: "n = q * 13 + r" and r: "r < 13" by (simp_all add: q_def r_def)
  have c: "ceil_div n 13 = q + (if r \<noteq> 0 then 1 else 0)"
    by (simp add: ceil_div_13 q_def r_def)
  have e: "13 * ceil_div n 13 = 13 * q + (if r \<noteq> 0 then 13 else 0)"
    by (simp add: c)
  from r show "n \<le> 13 * ceil_div n 13" unfolding e by (simp add: n)
  from r show "13 * ceil_div n 13 \<le> n + 12" unfolding e by (simp add: n)
qed

lemma ceil_div_least: "n \<le> 13 * m \<Longrightarrow> ceil_div n 13 \<le> m"
proof -
  assume "n \<le> 13 * m"
  then have "n + 12 \<le> 13 * m + 12" by simp
  then have "(n + 12) div 13 \<le> (13 * m + 12) div 13" by (rule div_le_mono)
  also have "(13 * m + 12) div 13 = m" by simp
  finally show ?thesis by (simp add: ceil_div_def)
qed

lemma windows_upto:
  "concat (map (page_window p xs) [1..<Suc m]) = take (p * m) xs"
proof (induction m)
  case 0
  show ?case by simp
next
  case (Suc m)
  have "[1..<Suc (Suc m)] = [1..<Suc m] @ [Suc m]"
    by (rule upt_Suc_append) simp
  then have "concat (map (page_window p xs) [1..<Suc (Suc m)]) =
      concat (map (page_window p xs) [1..<Suc m]) @ page_window p xs (Suc m)"
    by (simp only: map_append concat_append list.map concat.simps append_Nil2)
  also have "\<dots> = take (p * m) xs @ take p (drop (p * m) xs)"
    by (simp only: Suc.IH page_window_def diff_Suc_1)
  also have "\<dots> = take (p * m + p) xs"
    by (simp add: take_add)
  finally show ?case by (simp only: mult_Suc_right add.commute)
qed

lemma windows_partition:
  "concat (map (page_window 13 xs) [1..<Suc (ceil_div (length xs) 13)]) = xs"
  by (simp only: windows_upto take_all ceil_div_bounds(1))

lemma window_nth:
  assumes "j < length (page_window p xs k)"
  shows "page_window p xs k ! j = xs ! (p * (k - 1) + j)"
proof -
  from assms have jp: "j < p" and "j < length xs - p * (k - 1)"
    by (simp_all add: page_window_def)
  then have "p * (k - 1) \<le> length xs" by simp
  with jp show ?thesis
    by (simp add: page_window_def nth_drop)
qed

lemma window_length: "length (page_window p xs k) \<le> p"
  by (simp add: page_window_def)

lemma browse_normal_dispatch:
  assumes "IsBrowseNormal action"
  shows "action \<noteq> MainMenu" "\<not> IsAdoptAction action"
    "unat (action - PetsStart) < 100" "action = PetsStart + of_nat (unat (action - PetsStart))"
  using assms
  by (auto simp: action_preds action_consts word_le_nat_alt word_less_nat_alt unat_sub)

lemma GossipSelect_browse_normal:
  assumes "opt_Enable (sConfigMgr w)" "IsBrowseNormal action"
  shows "GossipSelect action w =
     Inr (BrowsePage PetsStart (normalPets (rt (LazyLoad w))) action
            (ClearGossipMenuFor (LazyLoad w)))"
  using assms
  by (simp add: GossipSelect_def Let_def browse_normal_dispatch AdoptTail_def)

text \<open>
  C5.  For a bucket of fewer than 2^31 entries (the range of the int that holds the
  number of pages) and page size 13: the render of page d + 1, for each of the hundred
  codes of a category, adds the back item, the previous item exactly when the page is
  greater than 1, the next item exactly when the page is less than the number of pages
  (the bucket size divided by 13 and rounded up), and then the items of the page's
  window, and sends the menu.  AddPetsToGossip lists for each page from 1 to the number
  of pages exactly the page's window, which holds at most 13 entries, the j-th of them
  being the entry at position 13 (page - 1) + j of the bucket; the windows of the pages
  from 1 to the number of pages, one after the other, are the bucket.  The number of
  pages is the least m with n at most 13 m.  A browse code of the normal category is
  the category's first code plus some d below 100, and GossipSelect renders the normal
  bucket with it.
\<close>
theorem browse_pagination:
  "length pets < 2 ^ 31 \<longrightarrow>
   (\<forall>d<100.
      BrowsePage base pets (base + of_nat d) w =
        SendGossipMenuFor GossipBrowse
          (add_items
             ([(GOSSIP_ICON_TALK, ''Back..'', MainMenu)] @
              (if d + 1 > 1
               then [(GOSSIP_ICON_INTERACT_1, ''Previous..'', base + of_nat (d + 1) - 2)]
               else []) @
              (if d + 1 < ceil_div (length pets) 13
               then [(GOSSIP_ICON_INTERACT_1, ''Next..'', base + of_nat (d + 1))] else []) @
              map (browse_item (fst (TamedEntries w))) (page_window 13 pets (d + 1)))
             (snd (TamedEntries w)))) \<and>
   (\<forall>k. 1 \<le> k \<and> k \<le> ceil_div (length pets) 13 \<longrightarrow>
      AddPetsToGossip pets (of_nat k) w =
        add_items (map (browse_item (fst (TamedEntries w))) (page_window 13 pets k))
          (snd (TamedEntries w)) \<and>
      length (page_window 13 pets k) \<le> 13 \<and>
      (\<forall>j<length (page_window 13 pets k).
         page_window 13 pets k ! j = pets ! (13 * (k - 1) + j))) \<and>
   concat (map (page_window 13 pets) [1..<Suc (ceil_div (length pets) 13)]) = pets \<and>
   length pets \<le> 13 * ceil_div (length pets) 13 \<and>
   (\<forall>m. length pets \<le> 13 * m \<longrightarrow> ceil_div (length pets) 13 \<le> m) \<and>
   (opt_Enable (sConfigMgr w) \<and> IsBrowseNormal action \<longrightarrow>
      (\<exists>d<100. action = PetsStart + of_nat d) \<and>
      GossipSelect action w =
        Inr (BrowsePage PetsStart (normalPets (rt (LazyLoad w))) action
               (ClearGossipMenuFor (LazyLoad w))))"
proof (intro impI conjI allI)
  fix d :: nat
  assume "length pets < 2 ^ 31" "d < 100"
  then show "BrowsePage base pets (base + of_nat d) w =
        SendGossipMenuFor GossipBrowse
          (add_items
             ([(GOSSIP_ICON_TALK, ''Back..'', MainMenu)] @
              (if d + 1 > 1
               then [(GOSSIP_ICON_INTERACT_1, ''Previous..'', base + of_nat (d + 1) - 2)]
               else []) @
              (if d + 1 < ceil_div (length pets) 13
               then [(GOSSIP_ICON_INTERACT_1, ''Next..'', base + of_nat (d + 1))] else []) @
              map (browse_item (fst (TamedEntries w))) (page_window 13 pets (d + 1)))
             (snd (TamedEntries w)))"
    by (rule BrowsePage_render)
next
  fix k
  assume n: "length pets < 2 ^ 31" and k: "1 \<le> k \<and> k \<le> ceil_div (length pets) 13"
  from k have "13 * k \<le> 13 * ceil_div (length pets) 13" by simp
  also have "\<dots> \<le> length pets + 12" by (rule ceil_div_bounds)
  finally have k32: "13 * k < 2 ^ 32" using n by simp
  from n have n': "length pets < 2 ^ 32 - 1" by simp
  from k have k1: "1 \<le> k" by simp
  show "AddPetsToGossip pets (of_nat k) w =
        add_items (map (browse_item (fst (TamedEntries w))) (page_window 13 pets k))
          (snd (TamedEntries w))"
    by (rule AddPetsToGossip_window [OF n' k1 k32])
next
  fix k
  show "length (page_window 13 pets k) \<le> 13" by (rule window_length)
next
  fix k j
  assume "j < length (page_window 13 pets k)"
  then show "page_window 13 pets k ! j = pets ! (13 * (k - 1) + j)" by (rule window_nth)
next
  show "concat (map (page_window 13 pets) [1..<Suc (ceil_div (length pets) 13)]) = pets"
    by (rule windows_partition)
next
  show "length pets \<le> 13 * ceil_div (length pets) 13" by (rule ceil_div_bounds)
next
  fix m
  assume "length pets \<le> 13 * m"
  then show "ceil_div (length pets) 13 \<le> m" by (rule ceil_div_least)
next
  assume a: "opt_Enable (sConfigMgr w) \<and> IsBrowseNormal action"
  then have "unat (action - PetsStart) < 100"
    "action = PetsStart + of_nat (unat (action - PetsStart))"
    by (simp_all add: browse_normal_dispatch)
  then show "\<exists>d<100. action = PetsStart + of_nat d" by blast
next
  assume a: "opt_Enable (sConfigMgr w) \<and> IsBrowseNormal action"
  then show "GossipSelect action w =
        Inr (BrowsePage PetsStart (normalPets (rt (LazyLoad w))) action
               (ClearGossipMenuFor (LazyLoad w)))"
    by (simp add: GossipSelect_browse_normal)
qed

lemma free_world_tamed:
  "fst (TamedEntries free_world) = {5, 7}"
  by (auto simp: TamedEntries_def Let_def free_world_def LoadSystem_config example_defs
      db_entries_def)

lemma fourteen_pets_facts:
  "length fourteen_pets = 14" "ceil_div 14 13 = 2"
  "page_window 13 fourteen_pets 2 =
     [\<lparr>entry = 14, name = ''Cat'', family = 2, rarity = ''normal'', icon = GOSSIP_ICON_VENDOR\<rparr>]"
  "page_window 13 fourteen_pets 1 = take 13 fourteen_pets"
  "page_window 13 fourteen_pets (Suc 0) = take 13 fourteen_pets"
  "page_window 13 fourteen_pets (Suc (Suc 0)) =
     [\<lparr>entry = 14, name = ''Cat'', family = 2, rarity = ''normal'', icon = GOSSIP_ICON_VENDOR\<rparr>]"
  by (simp_all add: fourteen_pets_def ceil_div_def page_window_def upt_rec drop_map)

theorem browse_pagination_witness:
  "length fourteen_pets < 2 ^ 31 \<and>
   BrowsePage PetsStart fourteen_pets 501 free_world =
     SendGossipMenuFor GossipBrowse
       (add_items
          ([(GOSSIP_ICON_TALK, ''Back..'', MainMenu),
            (GOSSIP_ICON_INTERACT_1, ''Next..'', 502)] @
           map (browse_item {5, 7}) (take 13 fourteen_pets))
          (snd (TamedEntries free_world))) \<and>
   BrowsePage PetsStart fourteen_pets 502 free_world =
     SendGossipMenuFor GossipBrowse
       (add_items
          [(GOSSIP_ICON_TALK, ''Back..'', MainMenu),
           (GOSSIP_ICON_INTERACT_1, ''Previous..'', 501),
           (GOSSIP_ICON_VENDOR, ''Cat'', 915)]
          (snd (TamedEntries free_world)))"
proof -
  have len: "length fourteen_pets < 2 ^ 31" by (simp add: fourteen_pets_facts)
  with browse_pagination [where pets = fourteen_pets and w = free_world and base = PetsStart]
  have pages: "\<forall>d<100.
      BrowsePage PetsStart fourteen_pets (PetsStart + of_nat d) free_world =
        SendGossipMenuFor GossipBrowse
          (add_items
             ([(GOSSIP_ICON_TALK, ''Back..'', MainMenu)] @
              (if d + 1 > 1
               then [(GOSSIP_ICON_INTERACT_1, ''Previous..'', PetsStart + of_nat (d + 1) - 2)]
               else []) @
              (if d + 1 < ceil_div (length fourteen_pets) 13
               then [(GOSSIP_ICON_INTERACT_1, ''Next..'', PetsStart + of_nat (d + 1))] else []) @
              map (browse_item (fst (TamedEntries free_world)))
                (page_window 13 fourteen_pets (d + 1)))
             (snd (TamedEntries free_world)))"
    by blast
  from pages [rule_format, of 0]
  have p1: "BrowsePage PetsStart fourteen_pets 501 free_world =
     SendGossipMenuFor GossipBrowse
       (add_items
          ([(GOSSIP_ICON_TALK, ''Back..'', MainMenu),
            (GOSSIP_ICON_INTERACT_1, ''Next..'', 502)] @
           map (browse_item {5, 7}) (take 13 fourteen_pets))
          (snd (TamedEntries free_world)))"
    by (simp add: fourteen_pets_facts free_world_tamed PetsStart_def)
  from pages [rule_format, of 1]
  have p2: "BrowsePage PetsStart fourteen_pets 502 free_world =
     SendGossipMenuFor GossipBrowse
       (add_items
          [(GOSSIP_ICON_TALK, ''Back..'', MainMenu),
           (GOSSIP_ICON_INTERACT_1, ''Previous..'', 501),
           (GOSSIP_ICON_VENDOR, ''Cat'', 915)]
          (snd (TamedEntries free_world)))"
    by (simp add: fourteen_pets_facts free_world_tamed PetsStart_def browse_item_def
        PetEntryOffset_def)
  from len p1 p2 show ?thesis by simp
qed

section \<open>Deleting on a later page of the tracked-pets menu\<close>

lemma single_world_facts:
  "opt_Enable (sConfigMgr single_world)"
  "allPets (rt single_world) \<noteq> []"
  "trackTamedPets (config (rt single_world))"
  "guidRaw (player single_world) = 1" "guidCounter (player single_world) = 1"
  "menuPetMap (player single_world) = Some [0 \<mapsto> 7]"
  "beastmaster_tamed_pets single_world =
     [\<lparr>owner_guid = 1, tamed_entry = 7, tamed_name = ''Devilsaur'', date_tamed = 20\<rparr>]"
  "tamedEntriesCache (rt single_world) 1 = None"
  by (simp_all add: single_world_def capped_world_def LoadSystem_allPets LoadSystem_config
      example_defs)

text \<open>
  Deleting the only tracked record: the table is empty afterwards, and the menu sent is
  the empty first page.
\<close>
lemma delete_only_record:
  "\<exists>w2. GossipSelect 4000 single_world = Inr w2 \<and>
     beastmaster_tamed_pets w2 = [] \<and>
     menuPetMap (player w2) = Some Map.empty \<and>
     gossipMenu (player w2) = [] \<and>
     trackedPetsCache (rt w2) 1 = Some [] \<and>
     events (player w2) =
       [EvSysMessage ''Tracked pet deleted (entry 7).'', EvSendGossipMenu GossipBrowse []]"
proof -
  have sel: "GossipSelect 4000 single_world =
      TrackedDelete 4000 (ClearGossipMenuFor single_world)"
    using single_world_facts(1,2)
    by (simp add: GossipSelect_delete IsTrackedDelete_def DeleteBase_def LazyLoad_def)
  have ev: "events (player single_world) = []"
    by (simp add: single_world_def example_player_def)
  have msg: "StringFormat ''Tracked pet deleted (entry {}).'' [U 7] =
      ''Tracked pet deleted (entry 7).''"
    by (simp add: StringFormat.simps dec.simps)
  show ?thesis
    unfolding sel
    using single_world_facts ev
    by (simp add: TrackedDelete_def Let_def ClearGossipMenuFor_def ClearTrackedPetsCache_def
        PSendSysMessage_def ShowTrackedPetsMenu_def db_delete_def db_list_def db_count_def
        action_consts TrackedLoop.simps SendGossipMenuFor_def msg)
qed

lemma many_world_fields:
  "opt_Enable (sConfigMgr many_world)"
  "trackTamedPets (config (rt many_world))"
  "tamedEntriesCache (rt many_world) = Map.empty"
  "trackedPetsCache (rt many_world) = Map.empty"
  "player many_world = example_player"
  "beastmaster_tamed_pets many_world = many_rows"
  "allPets (rt many_world) \<noteq> []"
  by (simp_all add: many_world_def LoadSystem_config LoadSystem_allPets example_defs)

lemma many_list:
  "db_list many_rows 1 = map (\<lambda>k. (of_nat k, ''Pet'', k)) (rev [1..<22])"
proof -
  have "sorted (map date_tamed many_rows)"
    by (simp add: many_rows_def o_def)
  then have "sort_key date_tamed many_rows = many_rows"
    by (rule sort_key_id_if_sorted)
  moreover have "filter (\<lambda>r. owner_guid r = 1) many_rows = many_rows"
    by (simp add: many_rows_def)
  ultimately show ?thesis
    by (simp add: db_list_def) (simp add: many_rows_def rev_map)
qed

lemma page3:
  "\<exists>w1. GossipSelect 1002 many_world = Inr w1 \<and> menuPetMap (player w1) = Some [0 \<mapsto> 1] \<and>
     beastmaster_tamed_pets w1 = many_rows \<and>
     rt w1 = (rt many_world)\<lparr>trackedPetsCache := [1 \<mapsto> db_list many_rows 1]\<rparr> \<and>
     sConfigMgr w1 = sConfigMgr many_world \<and>
     guidRaw (player w1) = 1 \<and> guidCounter (player w1) = 1"
  by (simp add: GossipSelect_def Let_def LazyLoad_def many_world_fields
      action_preds action_consts ShowTrackedPetsMenu_def ClearGossipMenuFor_def
      TrackedLoop.simps AddGossipItemFor_def SendGossipMenuFor_def
      example_player_def many_list rev_nth)

lemma many_rows_deleted:
  "db_delete many_rows 1 1 =
     map (\<lambda>k. \<lparr>owner_guid = 1, tamed_entry = of_nat k, tamed_name = ''Pet'', date_tamed = k\<rparr>)
       [2..<22]"
proof -
  have "[1..<22] = 1 # [2..<22]" by (simp add: upt_rec)
  moreover have "filter (\<lambda>k. (of_nat k :: uint32) \<noteq> 1) [2..<22] = [2..<22]"
    by simp
  ultimately show ?thesis
    by (simp add: db_delete_def many_rows_def filter_map o_def)
qed

lemma many_list_deleted:
  "db_list (db_delete many_rows 1 1) 1 = map (\<lambda>k. (of_nat k, ''Pet'', k)) (rev [2..<22])"
proof -
  let ?rows = "db_delete many_rows 1 1"
  have "sorted (map date_tamed ?rows)"
    by (simp add: many_rows_deleted o_def)
  then have "sort_key date_tamed ?rows = ?rows"
    by (rule sort_key_id_if_sorted)
  moreover have "filter (\<lambda>r. owner_guid r = 1) ?rows = ?rows"
    by (simp add: many_rows_deleted)
  ultimately show ?thesis
    by (simp add: db_list_def) (simp add: many_rows_deleted rev_map)
qed

lemma many_count_deleted: "db_count (db_delete many_rows 1 1) 1 = 20"
  by (simp add: db_count_def many_rows_deleted)

lemma AddGossipItemFor_proj2 [simp]:
  "sConfigMgr (AddGossipItemFor ic l a w) = sConfigMgr w"
  "guidRaw (player (AddGossipItemFor ic l a w)) = guidRaw (player w)"
  "guidCounter (player (AddGossipItemFor ic l a w)) = guidCounter (player w)"
  by (simp_all add: AddGossipItemFor_def)

lemma delete_on_page3:
  assumes "opt_Enable (sConfigMgr w)" "allPets (rt w) \<noteq> []" "trackTamedPets (config (rt w))"
    "guidRaw (player w) = 1" "guidCounter (player w) = 1"
    "menuPetMap (player w) = Some [0 \<mapsto> 1]" "beastmaster_tamed_pets w = many_rows"
    "tamedEntriesCache (rt w) 1 = None"
  shows "\<exists>w2. GossipSelect 4000 w = Inr w2 \<and>
     beastmaster_tamed_pets w2 = db_delete many_rows 1 1 \<and>
     menuPetMap (player w2) =
       Some [0 \<mapsto> 21, 1 \<mapsto> 20, 2 \<mapsto> 19, 3 \<mapsto> 18, 4 \<mapsto> 17, 5 \<mapsto> 16, 6 \<mapsto> 15,
             7 \<mapsto> 14, 8 \<mapsto> 13, 9 \<mapsto> 12] \<and>
     sConfigMgr w2 = sConfigMgr w \<and> allPets (rt w2) = allPets (rt w) \<and>
     config (rt w2) = config (rt w) \<and> guidRaw (player w2) = 1 \<and> guidCounter (player w2) = 1 \<and>
     trackedPetsCache (rt w2) 1 = Some (db_list (db_delete many_rows 1 1) 1)"
proof -
  have sel: "GossipSelect 4000 w = TrackedDelete 4000 (ClearGossipMenuFor w)"
    using assms(1,2)
    by (simp add: GossipSelect_delete IsTrackedDelete_def DeleteBase_def LazyLoad_def)
  show ?thesis
    unfolding sel using assms
    by (simp add: TrackedDelete_def Let_def ClearGossipMenuFor_def ClearTrackedPetsCache_def
        PSendSysMessage_def ShowTrackedPetsMenu_def many_count_deleted many_list_deleted
        action_consts TrackedLoop.simps SendGossipMenuFor_def rev_nth)
qed

lemma page2_after_delete:
  assumes "opt_Enable (sConfigMgr w)" "allPets (rt w) \<noteq> []"
    "guidRaw (player w) = 1"
    "trackedPetsCache (rt w) 1 = Some (db_list (db_delete many_rows 1 1) 1)"
  shows "\<exists>w3. GossipSelect 1001 w = Inr w3 \<and>
     menuPetMap (player w3) =
       Some [0 \<mapsto> 11, 1 \<mapsto> 10, 2 \<mapsto> 9, 3 \<mapsto> 8, 4 \<mapsto> 7, 5 \<mapsto> 6, 6 \<mapsto> 5,
             7 \<mapsto> 4, 8 \<mapsto> 3, 9 \<mapsto> 2]"
  using assms
  by (simp add: GossipSelect_def Let_def LazyLoad_def
      action_preds action_consts ShowTrackedPetsMenu_def ClearGossipMenuFor_def
      TrackedLoop.simps SendGossipMenuFor_def many_list_deleted rev_nth)

text \<open>
  C6.  The player has twenty-one tracked pets and looks at page 3 of the tracked-pets
  menu (code 1002), which shows the oldest pet alone in slot 0.  The delete of slot 0
  (code 4000) removes the row, twenty pets remain, which fill two pages, and the menu
  sent is page 1 (the ten newest pets), not page 2, the last page, which code 1001
  would show.
\<close>
theorem delete_rerenders_first_page:
  "\<exists>w1 w2 w3.
     length (beastmaster_tamed_pets many_world) = 21 \<and>
     db_count (beastmaster_tamed_pets many_world) 1 = 21 \<and>
     GossipSelect 1002 many_world = Inr w1 \<and> menuPetMap (player w1) = Some [0 \<mapsto> 1] \<and>
     GossipSelect 4000 w1 = Inr w2 \<and>
     beastmaster_tamed_pets w2 = db_delete many_rows 1 1 \<and>
     db_count (beastmaster_tamed_pets w2) 1 = 20 \<and>
     menuPetMap (player w2) =
       Some [0 \<mapsto> 21, 1 \<mapsto> 20, 2 \<mapsto> 19, 3 \<mapsto> 18, 4 \<mapsto> 17, 5 \<mapsto> 16, 6 \<mapsto> 15,
             7 \<mapsto> 14, 8 \<mapsto> 13, 9 \<mapsto> 12] \<and>
     GossipSelect 1001 w2 = Inr w3 \<and>
     menuPetMap (player w3) =
       Some [0 \<mapsto> 11, 1 \<mapsto> 10, 2 \<mapsto> 9, 3 \<mapsto> 8, 4 \<mapsto> 7, 5 \<mapsto> 6, 6 \<mapsto> 5,
             7 \<mapsto> 4, 8 \<mapsto> 3, 9 \<mapsto> 2]"
proof -
  obtain w1 where w1: "GossipSelect 1002 many_world = Inr w1"
      "menuPetMap (player w1) = Some [0 \<mapsto> 1]"
      "beastmaster_tamed_pets w1 = many_rows"
      "rt w1 = (rt many_world)\<lparr>trackedPetsCache := [1 \<mapsto> db_list many_rows 1]\<rparr>"
      "sConfigMgr w1 = sConfigMgr many_world"
      "guidRaw (player w1) = 1" "guidCounter (player w1) = 1"
    using page3 by blast
  have pre: "opt_Enable (sConfigMgr w1)" "allPets (rt w1) \<noteq> []"
    "trackTamedPets (config (rt w1))" "tamedEntriesCache (rt w1) 1 = None"
    by (simp_all add: w1 many_world_fields)
  from delete_on_page3 [OF pre(1,2,3) w1(6,7,2,3) pre(4)]
  obtain w2 where w2: "GossipSelect 4000 w1 = Inr w2"
      "beastmaster_tamed_pets w2 = db_delete many_rows 1 1"
      "menuPetMap (player w2) =
         Some [0 \<mapsto> 21, 1 \<mapsto> 20, 2 \<mapsto> 19, 3 \<mapsto> 18, 4 \<mapsto> 17, 5 \<mapsto> 16, 6 \<mapsto> 15,
               7 \<mapsto> 14, 8 \<mapsto> 13, 9 \<mapsto> 12]"
      "sConfigMgr w2 = sConfigMgr w1" "allPets (rt w2) = allPets (rt w1)"
      "config (rt w2) = config (rt w1)" "guidRaw (player w2) = 1" "guidCounter (player w2) = 1"
      "trackedPetsCache (rt w2) 1 = Some (db_list (db_delete many_rows 1 1) 1)"
    by blast
  have pre2: "opt_Enable (sConfigMgr w2)" "allPets (rt w2) \<noteq> []"
    using pre by (simp_all add: w2)
  from page2_after_delete [OF pre2 w2(7,9)]
  obtain w3 where w3: "GossipSelect 1001 w2 = Inr w3"
      "menuPetMap (player w3) =
         Some [0 \<mapsto> 11, 1 \<mapsto> 10, 2 \<mapsto> 9, 3 \<mapsto> 8, 4 \<mapsto> 7, 5 \<mapsto> 6, 6 \<mapsto> 5,
               7 \<mapsto> 4, 8 \<mapsto> 3, 9 \<mapsto> 2]"
    by blast
  have cnt: "length (beastmaster_tamed_pets many_world) = 21"
    "db_count (beastmaster_tamed_pets many_world) 1 = 21"
    by (simp_all add: many_world_fields many_rows_def db_count_def)
  have cnt2: "db_count (beastmaster_tamed_pets w2) 1 = 20"
    by (simp add: w2 many_count_deleted)
  show ?thesis
    using w1(1,2) w2(1,2,3) w3 cnt cnt2 by blast
qed

end
